theory Spec2Isabelle
  imports Main
begin

section \<open>Python values, exceptions and string primitives\<close>

text \<open>
  The values that cross the boundary between the proxy layer and the remote automation
  interface: scalars, lists, opaque remote handles (\<open>ComObj\<close>) and references to proxy
  instances of \<open>Objects/api.py\<close> (\<open>ProxyRef\<close>, an address in the proxy store).
\<close>

datatype pyval =
    PyNone
  | PyBool bool
  | PyInt int
  | PyStr string
  | PyList "pyval list"
  | ComObj nat
  | ProxyRef nat

text \<open>
  The exceptions the source raises or lets through. \<open>com_error\<close> is the structured
  failure of the remote interface; its argument is the remote description
  (\<open>e.args[2][2]\<close> in the source).
\<close>

datatype exn =
    AttributeError string
  | KeyError pyval
  | ValueError string
  | TypeError string
  | RuntimeError string
  | RecursionError
  | AssertionError
  | com_error string
  | OtherException string

definition bindE :: "exn + 'a \<Rightarrow> ('a \<Rightarrow> exn + 'b) \<Rightarrow> exn + 'b" where
  "bindE m f = (case m of Inl e \<Rightarrow> Inl e | Inr x \<Rightarrow> f x)"

subsection \<open>\<open>str(int)\<close>, \<open>int(str)\<close>, \<open>join\<close>, \<open>split\<close>, substring test\<close>

fun nat_digits :: "nat \<Rightarrow> string" where
  "nat_digits n =
     (if n < 10 then [''0123456789'' ! n]
      else nat_digits (n div 10) @ [''0123456789'' ! (n mod 10)])"

declare nat_digits.simps [simp del]

definition py_str :: "int \<Rightarrow> string" where
  "py_str i = (if i < 0 then CHR ''-'' # nat_digits (nat (- i)) else nat_digits (nat i))"

definition is_digit :: "char \<Rightarrow> bool" where
  "is_digit c = (c \<in> set ''0123456789'')"

definition digit_val :: "char \<Rightarrow> int" where
  "digit_val c = int (of_char c) - 48"

text \<open>
  Whitespace stripped by \<open>int(str)\<close>, for code points below 256 (a \<open>char\<close> is one such
  code point here; strings with larger code points are outside this model).
\<close>

definition is_space :: "char \<Rightarrow> bool" where
  "is_space c =
     (let n = (of_char c :: nat)
      in (9 \<le> n \<and> n \<le> 13) \<or> n = 32 \<or> n = 133 \<or> n = 160)"

definition py_strip :: "string \<Rightarrow> string" where
  "py_strip s = rev (dropWhile is_space (rev (dropWhile is_space s)))"

text \<open>
  The digits of a decimal literal: single underscores are allowed between digits only.
  The flag says whether the previous character was a digit.
\<close>

fun py_digits :: "string \<Rightarrow> bool \<Rightarrow> int \<Rightarrow> int option" where
  "py_digits [] prev acc = (if prev then Some acc else None)"
| "py_digits (c # cs) prev acc =
     (if is_digit c then py_digits cs True (acc * 10 + digit_val c)
      else if c = CHR ''_'' \<and> prev then py_digits cs False acc
      else None)"

text \<open>\<open>int(s)\<close> for a string: \<open>None\<close> stands for \<open>ValueError\<close>.\<close>

definition py_int :: "string \<Rightarrow> int option" where
  "py_int s =
     (case py_strip s of
        [] \<Rightarrow> None
      | c # cs \<Rightarrow>
          if c = CHR ''-'' then map_option uminus (py_digits cs False 0)
          else if c = CHR ''+'' then py_digits cs False 0
          else py_digits (c # cs) False 0)"

text \<open>\<open>sep.join(xs)\<close>.\<close>

fun py_join :: "string \<Rightarrow> string list \<Rightarrow> string" where
  "py_join sep [] = []"
| "py_join sep [x] = x"
| "py_join sep (x # y # ys) = x @ sep @ py_join sep (y # ys)"

text \<open>\<open>s.split(c)\<close> for a one-character separator: never an empty list.\<close>

fun py_split :: "char \<Rightarrow> string \<Rightarrow> string list" where
  "py_split c [] = [[]]"
| "py_split c (x # xs) =
     (if x = c then [] # py_split c xs
      else (case py_split c xs of
              [] \<Rightarrow> [[x]]
            | w # ws \<Rightarrow> (x # w) # ws))"

text \<open>\<open>a in b\<close> for two strings: the substring test.\<close>

fun is_prefix :: "string \<Rightarrow> string \<Rightarrow> bool" where
  "is_prefix [] ys = True"
| "is_prefix (x # xs) [] = False"
| "is_prefix (x # xs) (y # ys) = (x = y \<and> is_prefix xs ys)"

fun is_substring :: "string \<Rightarrow> string \<Rightarrow> bool" where
  "is_substring xs [] = (xs = [])"
| "is_substring xs (y # ys) = (is_prefix xs (y # ys) \<or> is_substring xs ys)"

text \<open>\<open>s.replace(a, b)\<close> for single characters.\<close>

definition py_replace_char :: "char \<Rightarrow> char \<Rightarrow> string \<Rightarrow> string" where
  "py_replace_char a b s = map (\<lambda>c. if c = a then b else c) s"

text \<open>The format specification \<open>0>2\<close>: right-aligned in width 2, filled with \<open>0\<close>.\<close>

definition fmt_02 :: "int \<Rightarrow> string" where
  "fmt_02 i = (let s = py_str i in replicate (2 - length s) (CHR ''0'') @ s)"

section \<open>Enumerations (\<open>Objects/enumerations.py\<close>)\<close>

datatype enum_arg = IntArg int | StrArg string

record enum_obj =
  name :: string
  code :: int

text \<open>
  \<open>str_mapping\<close> inverts the integer mapping; in the dict comprehension a later entry
  with the same value overwrites an earlier one.
\<close>

definition str_mapping :: "(string \<times> int) list \<Rightarrow> int \<Rightarrow> string option" where
  "str_mapping int_mapping = map_of (rev (map (\<lambda>(k, v). (v, k)) int_mapping))"

definition BaseEnumeration :: "enum_arg \<Rightarrow> (string \<times> int) list \<Rightarrow> exn + enum_obj" where
  "BaseEnumeration v int_mapping =
     (let v' = (case v of
                  IntArg i \<Rightarrow> IntArg i
                | StrArg s \<Rightarrow> (case py_int s of Some i \<Rightarrow> IntArg i | None \<Rightarrow> StrArg s))
      in case v' of
           IntArg i \<Rightarrow>
             (case str_mapping int_mapping i of
                None \<Rightarrow> Inl (KeyError (PyInt i))
              | Some n \<Rightarrow> Inr \<lparr>name = n, code = i\<rparr>)
         | StrArg s \<Rightarrow>
             (case map_of int_mapping s of
                None \<Rightarrow> Inl (KeyError (PyStr s))
              | Some c \<Rightarrow> Inr \<lparr>name = s, code = c\<rparr>))"

definition ObjectType_mapping :: "(string \<times> int) list" where
  "ObjectType_mapping =
     [(''Unknown'', 0), (''ServiceLibrary'', 1), (''abatOT_Job'', 2), (''abatOT_Plan'', 3),
      (''abatOT_Queue'', 4), (''abatOT_Schedule'', 5), (''abatOT_Calendar'', 6),
      (''abatOT_UserAccount'', 7), (''abatOT_ResourceObject'', 8),
      (''abatOT_AlertObject'', 9), (''abatOT_Reference'', 10), (''abatOT_Instance'', 11),
      (''abatOT_JobScheduler'', 12), (''abatOT_ServiceLibrary'', 13),
      (''abatOT_Folder'', 14), (''abatOT_GenericQueue'', 15), (''abatOT_ObjectList'', 16)]"

definition ObjectType :: "enum_arg \<Rightarrow> exn + enum_obj" where
  "ObjectType v = BaseEnumeration v ObjectType_mapping"

definition ScheduleDaySpecType :: "enum_arg \<Rightarrow> exn + enum_obj" where
  "ScheduleDaySpecType v = BaseEnumeration v
     [(''abatSDST_None'', 0), (''abatSDST_Daily'', 1), (''abatSDST_Weekly'', 2),
      (''abatSDST_Monthly'', 3), (''abatSDST_Yearly'', 4), (''abatSDST_Quarterly'', 5),
      (''abatSDST_Custom'', 6)]"

definition ScheduleTimeSpecType :: "enum_arg \<Rightarrow> exn + enum_obj" where
  "ScheduleTimeSpecType v = BaseEnumeration v
     [(''abatSTST_HoursMinutes'', 1), (''abatSTST_ExactTimes'', 2), (''abatSTST_Every'', 3)]"

definition ScheduleMonthlyType :: "enum_arg \<Rightarrow> exn + enum_obj" where
  "ScheduleMonthlyType v = BaseEnumeration v
     [(''abatSMT_Day'', 1), (''abatSMT_Nth'', 2), (''abatSMT_Series'', 3)]"

text \<open>
  \<open>re.search(r'.*_(\w+)', name).group(1)\<close> on an enumeration name: every name of the
  tables below has one underscore, followed by letters only, so the group is the text
  after the last underscore.
\<close>

definition name_suffix :: "string \<Rightarrow> string" where
  "name_suffix n = rev (takeWhile (\<lambda>c. c \<noteq> CHR ''_'') (rev n))"

text \<open>
  \<open>ScheduleInstanceDay\<close> and \<open>ScheduleInstanceType\<close> add the attribute \<open>value\<close>; the
  functions below return it.
\<close>

definition ScheduleInstanceDay_value :: "enum_arg \<Rightarrow> exn + string" where
  "ScheduleInstanceDay_value v =
     bindE (BaseEnumeration v
       [(''abatSID_WeekendDay'', 0), (''abatSID_Sunday'', 1), (''abatSID_Monday'', 2),
        (''abatSID_Tuesday'', 3), (''abatSID_Wednesday'', 4), (''abatSID_Thursday'', 5),
        (''abatSID_Friday'', 6), (''abatSID_Saturday'', 7), (''abatSID_Day'', 8),
        (''abatSID_WeekDay'', 9)])
       (\<lambda>e. Inr (name_suffix (name e)))"

definition ScheduleInstanceType_value :: "enum_arg \<Rightarrow> exn + string" where
  "ScheduleInstanceType_value v =
     bindE (BaseEnumeration v
       [(''abatSIT_First'', 1), (''abatSIT_Second'', 2), (''abatSIT_Third'', 3),
        (''abatSIT_Fourth'', 4), (''abatSIT_Last'', 5)])
       (\<lambda>e. Inr (name_suffix (name e)))"

subsection \<open>\<open>ScheduleDays\<close>: the weekday bitmask\<close>

definition ScheduleDays_mapping :: "(string \<times> int) list" where
  "ScheduleDays_mapping =
     [(''abatSD_Sunday'', 1), (''abatSD_Monday'', 2), (''abatSD_Tuesday'', 4),
      (''abatSD_Wednesday'', 8), (''abatSD_Thursday'', 16), (''abatSD_Friday'', 32),
      (''abatSD_Saturday'', 64)]"

text \<open>The characters of \<open>bin(n)[2:]\<close> for \<open>n \<ge> 0\<close>, most significant first.\<close>

fun bin_digits :: "nat \<Rightarrow> nat list" where
  "bin_digits n = (if n < 2 then [n] else bin_digits (n div 2) @ [n mod 2])"

declare bin_digits.simps [simp del]

text \<open>
  The first loop of \<open>__str_days\<close>: the powers of two of the set bits, lowest first. For a
  negative value \<open>bin(value)[2:]\<close> starts with \<open>b\<close> and \<open>int('b')\<close> raises.
\<close>

definition str_days_decimals :: "int \<Rightarrow> exn + int list" where
  "str_days_decimals v =
     (if v < 0 then Inl (ValueError ''invalid literal for int() with base 10'')
      else Inr (map (\<lambda>(idx, val). 2 ^ idx)
                  (filter (\<lambda>(idx, val). val \<noteq> 0)
                     (enumerate 0 (rev (bin_digits (nat v)))))))"

text \<open>
  The second loop of \<open>__str_days\<close>: \<open>_return.append(super().str_mapping[_dec])\<close>.
  \<open>__str_days\<close> is a function nested in \<open>__init__\<close> and takes no argument, so the
  zero-argument \<open>super()\<close> raises \<open>RuntimeError\<close> the first time the loop body runs.
\<close>

definition str_days_names :: "int list \<Rightarrow> exn + string list" where
  "str_days_names decimals =
     (case decimals of
        [] \<Rightarrow> Inr []
      | d # ds \<Rightarrow> Inl (RuntimeError ''super(): no arguments''))"

definition str_days_of :: "int \<Rightarrow> exn + string list" where
  "str_days_of v = bindE (str_days_decimals v) str_days_names"

fun int_days_of :: "string list \<Rightarrow> exn + int list" where
  "int_days_of [] = Inr []"
| "int_days_of (day # days) =
     (case map_of ScheduleDays_mapping day of
        None \<Rightarrow> Inl (KeyError (PyStr day))
      | Some i \<Rightarrow> bindE (int_days_of days) (\<lambda>r. Inr (i # r)))"

record ScheduleDays_obj =
  sd_name :: string
  sd_code :: int
  str_days :: "string list"
  int_days :: "int list"

definition ScheduleDays :: "int \<Rightarrow> exn + ScheduleDays_obj" where
  "ScheduleDays v =
     bindE (BaseEnumeration (IntArg v) ScheduleDays_mapping) (\<lambda>e.
     bindE (str_days_of v) (\<lambda>sdays.
     bindE (int_days_of sdays) (\<lambda>idays.
       Inr \<lparr>sd_name = name e, sd_code = code e, str_days = sdays, int_days = idays\<rparr>)))"

section \<open>The schedule-name synthesizer (\<open>Schedule\<close> in \<open>Objects/api.py\<close>)\<close>

text \<open>
  The attributes of the remote schedule object that the synthesizer reads. \<open>ExactTimes\<close>
  is the list of \<open>(hour, minute)\<close> pairs of the times that
  \<open>TimeSpec_GetExactTimes().to_list()\<close> yields.
\<close>

record schedule_obj =
  TimeSpec_Type :: int
  DaySpec_Type :: int
  DaySpec_DailyInterval :: int
  DaySpec_WeeklyDaysOfWeek :: int
  DaySpec_WeeklyInterval :: int
  DaySpec_MonthlyType :: int
  DaySpec_MonthlyInterval :: int
  DaySpec_MonthlyDayOfMonth :: int
  DaySpec_MonthlyInstance :: int
  DaySpec_MonthlyDayOfWeek :: int
  DaySpec_MonthlyDaySeries :: string
  TimeSpec_Hours :: int
  TimeSpec_Minutes :: int
  TimeSpec_Interval :: int
  ExactTimes :: "(int \<times> int) list"

definition d_daily :: "schedule_obj \<Rightarrow> string" where
  "d_daily obj =
     (let interval = DaySpec_DailyInterval obj;
          plural = (if interval = 1 then ''Day'' else ''Days'');
          interval' = (if interval \<noteq> 1 then py_str interval else [])
      in ''Every'' @ interval' @ plural)"

definition d_weekly :: "schedule_obj \<Rightarrow> exn + string" where
  "d_weekly obj =
     bindE (ScheduleDays (DaySpec_WeeklyDaysOfWeek obj)) (\<lambda>sd.
       let dayseries = str_days sd;
           dayseries_daynames = map (\<lambda>x. take 3 (name_suffix x)) dayseries;
           daystrings = concat dayseries_daynames;
           interval = DaySpec_WeeklyInterval obj;
           plural = (if interval = 1 then ''Week'' else ''Weeks'');
           interval' = (if interval \<noteq> 1 then py_str interval else [])
       in Inr (''Every'' @ interval' @ plural @ ''.'' @ daystrings))"

text \<open>The three local functions of \<open>_d_monthly\<close>; \<open>pre\<close> is \<open>Every{_interval}{_plural}\<close>.\<close>

definition type_day :: "string \<Rightarrow> int \<Rightarrow> string" where
  "type_day pre day =
     (let daystr = last (py_str day)
      in if daystr = CHR ''1'' then pre @ ''.'' @ py_str day @ ''st''
         else if daystr = CHR ''2'' then pre @ ''.'' @ py_str day @ ''nd''
         else if daystr = CHR ''3'' then pre @ ''.'' @ py_str day @ ''rd''
         else pre @ ''.'' @ py_str day @ ''th'')"

definition type_nth :: "string \<Rightarrow> int \<Rightarrow> int \<Rightarrow> exn + string" where
  "type_nth pre monthly_instance monthly_dayofweek =
     bindE (ScheduleInstanceType_value (IntArg monthly_instance)) (\<lambda>instance_type.
     bindE (ScheduleInstanceDay_value (IntArg monthly_dayofweek)) (\<lambda>instance_day.
       Inr (pre @ ''.'' @ instance_type @ instance_day)))"

definition type_series :: "string \<Rightarrow> string \<Rightarrow> string" where
  "type_series pre day_series = pre @ ''.'' @ py_replace_char (CHR '','') (CHR '' '') day_series"

definition d_monthly :: "schedule_obj \<Rightarrow> exn + string" where
  "d_monthly obj =
     bindE (ScheduleMonthlyType (IntArg (DaySpec_MonthlyType obj))) (\<lambda>mt.
       let montype = name mt;
           interval = DaySpec_MonthlyInterval obj;
           plural = (if interval = 1 then ''Month'' else ''Months'');
           interval' = (if interval \<noteq> 1 then py_str interval else []);
           pre = ''Every'' @ interval' @ plural
       in if montype = ''abatSMT_Day'' then Inr (type_day pre (DaySpec_MonthlyDayOfMonth obj))
          else if montype = ''abatSMT_Nth''
            then type_nth pre (DaySpec_MonthlyInstance obj) (DaySpec_MonthlyDayOfWeek obj)
          else if montype = ''abatSMT_Series''
            then Inr (type_series pre (DaySpec_MonthlyDaySeries obj))
          else Inr [])"

definition t_hoursminutes :: "schedule_obj \<Rightarrow> string" where
  "t_hoursminutes obj = fmt_02 (TimeSpec_Hours obj) @ fmt_02 (TimeSpec_Minutes obj)"

definition t_exacttimes :: "schedule_obj \<Rightarrow> string" where
  "t_exacttimes obj = py_join ''_'' (map (\<lambda>(h, m). fmt_02 h @ fmt_02 m) (ExactTimes obj))"

definition t_every :: "schedule_obj \<Rightarrow> string" where
  "t_every obj = ''Every_'' @ py_str (TimeSpec_Interval obj) @ ''m''"

definition typemapper :: "schedule_obj \<Rightarrow> exn + string" where
  "typemapper obj =
     bindE (ScheduleTimeSpecType (IntArg (TimeSpec_Type obj))) (\<lambda>tt.
     bindE (ScheduleDaySpecType (IntArg (DaySpec_Type obj))) (\<lambda>dt.
       let timetype = name tt; daytype = name dt
       in bindE (if daytype = ''abatSDST_Daily'' then Inr (d_daily obj)
                 else if daytype = ''abatSDST_Weekly'' then d_weekly obj
                 else if daytype = ''abatSDST_Monthly'' then d_monthly obj
                 else Inr []) (\<lambda>daystr.
          let timestr = (if timetype = ''abatSTST_HoursMinutes'' then t_hoursminutes obj
                         else if timetype = ''abatSTST_ExactTimes'' then t_exacttimes obj
                         else if timetype = ''abatSTST_Every'' then t_every obj
                         else [])
          in Inr (daystr @ ''_'' @ timestr))))"

text \<open>\<open>production_name\<close> is \<open>_typemapper()\<close>.\<close>

definition production_name :: "schedule_obj \<Rightarrow> exn + string" where
  "production_name obj = typemapper obj"

text \<open>A schedule specification with every attribute zero or empty, to be updated.\<close>

definition blank_schedule :: schedule_obj where
  "blank_schedule =
     \<lparr>TimeSpec_Type = 0, DaySpec_Type = 0, DaySpec_DailyInterval = 0,
      DaySpec_WeeklyDaysOfWeek = 0, DaySpec_WeeklyInterval = 0, DaySpec_MonthlyType = 0,
      DaySpec_MonthlyInterval = 0, DaySpec_MonthlyDayOfMonth = 0,
      DaySpec_MonthlyInstance = 0, DaySpec_MonthlyDayOfWeek = 0,
      DaySpec_MonthlyDaySeries = [], TimeSpec_Hours = 0, TimeSpec_Minutes = 0,
      TimeSpec_Interval = 0, ExactTimes = []\<rparr>"

section \<open>The remote interface, the proxy store and logging\<close>

text \<open>
  Everything the proxy layer does to the remote service is one of three interactions with
  a remote handle: a method call (keyword arguments are listed in the order the source
  writes them), an attribute read and an attribute write.
\<close>

datatype call =
    Invoke pyval string "pyval list"
  | GetAttr pyval string
  | SetAttr pyval string pyval

datatype level = DEBUG | INFO | WARNING | ERROR

text \<open>
  A log record keeps the pieces of the formatted message apart: literal text, a value
  and the bound arguments of a call. \<open>LogException\<close> is \<open>logging.exception(e)\<close>.
\<close>

datatype msg_part = Txt string | Val pyval | Args "pyval list"

datatype log_record = Log level "msg_part list" | LogException exn

text \<open>
  A proxy instance: the class name (\<open>type(self).__name__\<close>), the remote handle, the
  scheduler that built it, and the slot \<open>__liteobj\<close> or \<open>__fullobj\<close> of the counterpart
  (\<open>PyNone\<close> until it is filled; \<open>Placeholder\<close>, \<open>JobAlert\<close> and \<open>JobScheduler\<close> have no
  slot and never use it). \<open>server\<close> and \<open>version\<close> are set on a \<open>JobScheduler\<close> only.
\<close>

record proxy =
  clsname :: string
  obj :: pyval
  scheduler :: pyval
  server :: string
  version :: "int option"
  slot :: pyval

text \<open>
  The world: the remote service, the interactions so far, the log and the store of proxy
  instances (an address is an index). The remote service is any deterministic function
  from the interactions so far and the current one to a value or an exception.
\<close>

record world =
  respond :: "call list \<Rightarrow> call \<Rightarrow> exn + pyval"
  trace :: "call list"
  logged :: "log_record list"
  store :: "proxy list"

type_synonym 'a M = "world \<Rightarrow> (exn + 'a) \<times> world"

definition returnM :: "'a \<Rightarrow> 'a M" where
  "returnM x = (\<lambda>w. (Inr x, w))"

definition raiseM :: "exn \<Rightarrow> 'a M" where
  "raiseM e = (\<lambda>w. (Inl e, w))"

definition bindM :: "'a M \<Rightarrow> ('a \<Rightarrow> 'b M) \<Rightarrow> 'b M" where
  "bindM m f = (\<lambda>w. case m w of (Inl e, w') \<Rightarrow> (Inl e, w') | (Inr x, w') \<Rightarrow> f x w')"

definition try_except :: "'a M \<Rightarrow> (exn \<Rightarrow> 'a M) \<Rightarrow> 'a M" where
  "try_except m h = (\<lambda>w. case m w of (Inl e, w') \<Rightarrow> h e w' | (Inr x, w') \<Rightarrow> (Inr x, w'))"

definition liftE :: "exn + 'a \<Rightarrow> 'a M" where
  "liftE r = (\<lambda>w. (r, w))"

definition com :: "call \<Rightarrow> pyval M" where
  "com c = (\<lambda>w. (respond w (trace w) c, w\<lparr>trace := trace w @ [c]\<rparr>))"

definition logging :: "log_record \<Rightarrow> unit M" where
  "logging r = (\<lambda>w. (Inr (), w\<lparr>logged := logged w @ [r]\<rparr>))"

text \<open>
  Attribute access on a value: a remote handle answers through the interface; \<open>None\<close>
  (and any other plain value) has no such attribute.
\<close>

definition getattr :: "pyval \<Rightarrow> string \<Rightarrow> pyval M" where
  "getattr v a =
     (case v of
        ComObj h \<Rightarrow> com (GetAttr v a)
      | _ \<Rightarrow> raiseM (AttributeError a))"

definition setattr :: "pyval \<Rightarrow> string \<Rightarrow> pyval \<Rightarrow> unit M" where
  "setattr v a x =
     (case v of
        ComObj h \<Rightarrow> bindM (com (SetAttr v a x)) (\<lambda>_. returnM ())
      | _ \<Rightarrow> raiseM (AttributeError a))"

definition invoke :: "pyval \<Rightarrow> string \<Rightarrow> pyval list \<Rightarrow> pyval M" where
  "invoke v m args =
     (case v of
        ComObj h \<Rightarrow> com (Invoke v m args)
      | _ \<Rightarrow> raiseM (AttributeError m))"

definition alloc :: "proxy \<Rightarrow> pyval M" where
  "alloc p = (\<lambda>w. (Inr (ProxyRef (length (store w))), w\<lparr>store := store w @ [p]\<rparr>))"

text \<open>A reference that is not a live proxy cannot arise in the source; here it raises.\<close>

definition deref :: "pyval \<Rightarrow> proxy M" where
  "deref r =
     (\<lambda>w. case r of
        ProxyRef a \<Rightarrow>
          (if a < length (store w) then (Inr (store w ! a), w)
           else (Inl (RuntimeError ''dead reference''), w))
      | _ \<Rightarrow> (Inl (RuntimeError ''dead reference''), w))"

definition set_slot :: "pyval \<Rightarrow> pyval \<Rightarrow> unit M" where
  "set_slot r v =
     (\<lambda>w. case r of
        ProxyRef a \<Rightarrow>
          (if a < length (store w)
           then (Inr (), w\<lparr>store := (store w)[a := (store w ! a)\<lparr>slot := v\<rparr>]\<rparr>)
           else (Inl (RuntimeError ''dead reference''), w))
      | _ \<Rightarrow> (Inl (RuntimeError ''dead reference''), w))"

section \<open>Capability-gated dispatch (\<open>Decorators.runnable\<close>)\<close>

text \<open>
  The argument of the decorator is written in the source either as a list of class names
  or as one string.
\<close>

datatype ab_classes = Single string | Multi "string list"

text \<open>\<open>x in ab_classes\<close>: membership in a list, the substring test in a string.\<close>

definition py_in :: "string \<Rightarrow> ab_classes \<Rightarrow> bool" where
  "py_in x cs = (case cs of Single s \<Rightarrow> is_substring x s | Multi xs \<Rightarrow> x \<in> set xs)"

text \<open>\<open>', '.join(ab_classes)\<close>: over a string it joins the characters.\<close>

definition join_classes :: "ab_classes \<Rightarrow> string" where
  "join_classes cs =
     (case cs of
        Single s \<Rightarrow> py_join '', '' (map (\<lambda>c. [c]) s)
      | Multi xs \<Rightarrow> py_join '', '' xs)"

text \<open>The condition of the wrapper: \<open>'All' in ab_classes or __clsname in ab_classes\<close>.\<close>

definition allowed :: "ab_classes \<Rightarrow> string \<Rightarrow> bool" where
  "allowed ab cls = (py_in ''All'' ab \<or> py_in cls ab)"

definition unsupported_msg :: "ab_classes \<Rightarrow> string \<Rightarrow> string \<Rightarrow> string" where
  "unsupported_msg ab funcname cls =
     ''Unsupported method <'' @ funcname @ ''> for class <'' @ cls @ ''>. <'' @ funcname
       @ ''> can only be invoked by the following classes: '' @ join_classes ab"

text \<open>
  The three \<open>except\<close> clauses of the wrapper: each logs, then re-raises. The first two
  format \<open>_argdict\<close> into the message. It holds \<open>self\<close>, and \<open>repr(self)\<close> is
  \<open>f"{self.obj.Name}`{self.ObjectType}"\<close> in every proxy class: the name is read on the
  remote handle (\<open>ObjectType\<close> is the class name). When that read raises, its exception
  leaves the clause and nothing is logged. The \<open>repr\<close> of the other arguments touches
  nothing remote.
\<close>

definition handler :: "string \<Rightarrow> proxy \<Rightarrow> pyval list \<Rightarrow> exn \<Rightarrow> 'a M" where
  "handler funcname self args e =
     (case e of
        AttributeError m \<Rightarrow>
          bindM (getattr (obj self) ''Name'') (\<lambda>n.
          bindM (logging (Log WARNING
                   [Txt ''AttributeError was raised when calling '', Txt funcname,
                    Txt '' using the args '', Val n, Txt (clsname self), Args args])) (\<lambda>_.
          bindM (logging (LogException e)) (\<lambda>_. raiseM e)))
      | com_error d \<Rightarrow>
          bindM (getattr (obj self) ''Name'') (\<lambda>n.
          bindM (logging (Log ERROR
                   [Txt ''A COM error was encountered when attempting to run the <'',
                    Txt funcname, Txt ''> method of the <'', Txt (clsname self),
                    Txt ''> class with the arguments '', Val n, Txt (clsname self), Args args,
                    Txt ''. The error message is '', Txt d])) (\<lambda>_.
          bindM (logging (LogException e)) (\<lambda>_. raiseM e)))
      | _ \<Rightarrow> bindM (logging (LogException e)) (\<lambda>_. raiseM e))"

text \<open>
  \<open>wrapper\<close>: \<open>self\<close> is the proxy (\<open>self.cls\<close> is \<open>self\<close> in every proxy class), \<open>args\<close>
  the arguments as passed and \<open>wrapped\<close> the decorated body. The arguments are taken to
  fit the signature here; \<open>generic_op\<close> below has the case where they do not.
\<close>

definition runnable :: "ab_classes \<Rightarrow> string \<Rightarrow> proxy \<Rightarrow> pyval list \<Rightarrow> 'a M \<Rightarrow> 'a M" where
  "runnable ab funcname self args wrapped =
     (if allowed ab (clsname self)
      then try_except wrapped (handler funcname self args)
      else bindM (logging (Log WARNING [Txt (unsupported_msg ab funcname (clsname self))])) (\<lambda>_.
           raiseM (AttributeError (unsupported_msg ab funcname (clsname self)))))"

section \<open>The capability table (\<open>AllMethods\<close> and \<open>AllAttributes\<close>)\<close>

text \<open>
  Library functions the bodies call and that are not part of \<open>Objects/api.py\<close>,
  taken as parameters: the collection classes of \<open>Objects.abat_collections\<close> (by class
  name; building one may enumerate a remote collection), \<open>__str__\<close> of a remote date,
  \<open>datetime.strptime\<close> with the format \<open>%Y-%m-%d %H:%M:%S\<close>, whether a value has the
  attribute \<open>_username_\<close> that the dispatch objects of the COM library carry, and the
  clock: \<open>now days\<close> is what \<open>self.now(days)\<close> returns, the formatted current time less
  the given number of days.
\<close>

record library =
  ab_col :: "string \<Rightarrow> pyval \<Rightarrow> pyval M"
  str_of :: "pyval \<Rightarrow> string"
  strptime :: "string \<Rightarrow> exn + pyval"
  has_username :: "pyval \<Rightarrow> bool"
  now :: "int \<Rightarrow> string"

definition normalize_date :: "library \<Rightarrow> pyval \<Rightarrow> pyval M" where
  "normalize_date lib date = liftE (strptime lib (take 19 (str_of lib date)))"

text \<open>
  The parameters of the decorated names that take any, after \<open>self\<close>: the number of
  required parameters and the defaults of the others, in the order of the signature.
  \<open>AddObject\<close>, \<open>GetAbatObject\<close> and \<open>GetAbatObjectLite\<close> take \<open>*args, **kwargs\<close>.
\<close>

datatype params = Params nat "pyval list" | Variadic

definition signature_table :: "(string \<times> params) list" where
  "signature_table =
    [(''Connect'', Params 1 [PyStr [], PyStr [], PyBool False]),
     (''Delete'', Params 0 [PyBool False]),
     (''DeleteEx'', Params 0 [PyBool False, PyBool False]),
     (''GetAssociations'', Params 0 [PyInt 65535]),
     (''GetAuditsEx'', Params 0 [PyStr [], PyStr [], PyStr []]),
     (''PurgeObject'', Params 1 []),
     (''RestoreObject'', Params 1 []),
     (''AddObject'', Variadic),
     (''GetObjectType'', Params 1 []),
     (''GetAbatObject'', Variadic),
     (''GetAbatObjectLite'', Variadic),
     (''GetObjectsLite'', Params 0 [PyInt 65535]),
     (''HasPermission'', Params 1 []),
     (''Publish'', Params 2 []),
     (''GetScheduledDates'', Params 2 []),
     (''Trigger3'',
        Params 0 [PyStr [], PyStr [], PyInt 0, PyStr [], PyStr [], PyStr [], PyStr []]),
     (''GetChildInstances'',
        Params 0 [PyStr [], PyStr [], PyBool False, PyStr [], PyStr []]),
     (''GetInstances'', Params 0 [PyInt 100, PyInt 65535, PyBool True, PyNone, PyNone]),
     (''IsPropertyLocked'', Params 1 []),
     (''MoveObject'', Params 2 []),
     (''MoveObjectTo'', Params 2 [PyBool False]),
     (''CopyObjectTo'', Params 2 [PyBool False]),
     (''ObjectExists'', Params 1 []),
     (''CreateObject'', Params 1 []),
     (''Search'',
        Params 1 [PyStr ''*'', PyInt 65535, PyStr ''AllFields'', PyBool True])]"

text \<open>
  \<open>inspect.signature(wrapped).bind(self, *args)\<close> for positional arguments, and the
  values the parameters of the body then have: the arguments followed by the defaults of
  the parameters left over. A name without an entry takes no argument.
\<close>

definition fill_defaults :: "nat \<Rightarrow> pyval list \<Rightarrow> pyval list \<Rightarrow> exn + pyval list" where
  "fill_defaults n ds args =
     (if length args < n then Inl (TypeError ''missing a required argument'')
      else if n + length ds < length args then Inl (TypeError ''too many positional arguments'')
      else Inr (args @ drop (length args - n) ds))"

definition bind_args :: "string \<Rightarrow> pyval list \<Rightarrow> exn + pyval list" where
  "bind_args nm args =
     (case map_of signature_table nm of
        Some Variadic \<Rightarrow> Inr args
      | Some (Params n ds) \<Rightarrow> fill_defaults n ds args
      | None \<Rightarrow> fill_defaults 0 [] args)"

text \<open>
  The shapes almost every decorated body has: it forwards its parameters to the remote
  handle and returns the result (\<open>Forward\<close>) or nothing (\<open>ForwardNone\<close>), wraps the result
  in a collection class (\<open>Wrapped\<close>), reads the attribute of the same name (\<open>Attr\<close>) or
  reads it and normalises the date (\<open>DateAttr\<close>). \<open>params\<close> are the values of the
  parameters, defaults included.
\<close>

datatype kind = Forward | ForwardNone | Wrapped string | Attr | DateAttr

definition generic_body :: "library \<Rightarrow> kind \<Rightarrow> string \<Rightarrow> proxy \<Rightarrow> pyval list \<Rightarrow> pyval M" where
  "generic_body lib k nm self params =
     (case k of
        Forward \<Rightarrow> invoke (obj self) nm params
      | ForwardNone \<Rightarrow> bindM (invoke (obj self) nm params) (\<lambda>_. returnM PyNone)
      | Wrapped c \<Rightarrow> bindM (invoke (obj self) nm params) (ab_col lib c)
      | Attr \<Rightarrow> getattr (obj self) nm
      | DateAttr \<Rightarrow> bindM (getattr (obj self) nm) (normalize_date lib))"

text \<open>
  A decorated name with one of these shapes, called with the arguments \<open>args\<close>. The
  wrapper tests the class first, then binds the arguments outside its \<open>try\<close> block, so
  that the \<open>TypeError\<close> of arguments that do not fit is raised without a log record; the
  messages of the \<open>except\<close> clauses hold the arguments as passed, the remote call gets the
  parameters with the defaults filled in. For a property this is the decorated getter;
  what the attribute lookup does with an \<open>AttributeError\<close> of the getter is
  \<open>property_read\<close> below.
\<close>

definition generic_op ::
  "library \<Rightarrow> string \<Rightarrow> ab_classes \<Rightarrow> kind \<Rightarrow> proxy \<Rightarrow> pyval list \<Rightarrow> pyval M" where
  "generic_op lib nm ab k self args =
     (case bind_args nm args of
        Inr params \<Rightarrow> runnable ab nm self args (generic_body lib k nm self params)
      | Inl e \<Rightarrow>
          if allowed ab (clsname self) then raiseM e
          else runnable ab nm self args (raiseM e))"

text \<open>
  Every decorated name of \<open>AllMethods\<close> with the argument of its decorator and the shape
  of its body; \<open>None\<close> marks a body of its own. \<open>CreateObject\<close> and \<open>IsPropertyLocked\<close>
  are defined twice in the class: the later definition is the one in force. The override
  \<open>JobScheduler.Search\<close>, which is not decorated and retrieves a proxy for each result
  of \<open>Search\<close>, is not embedded.
\<close>

definition AllMethods_table :: "(string \<times> ab_classes \<times> kind option) list" where
  "AllMethods_table =
    [(''Connect'', Single ''JobScheduler'', Some ForwardNone),
     (''Disconnect'', Single ''JobScheduler'', Some ForwardNone),
     (''Delete'', Single ''All'', Some ForwardNone),
     (''DeleteEx'', Single ''All'', Some ForwardNone),
     (''Disable'', Single ''All'', None),
     (''Enable'', Single ''All'', None),
     (''RefreshData'', Single ''All'', Some ForwardNone),
     (''GetAssociations'', Single ''All'', Some Forward),
     (''GetAuditsEx'', Single ''All'', Some Forward),
     (''PurgeObject'', Single ''All'', Some ForwardNone),
     (''RestoreObject'', Single ''All'', Some ForwardNone),
     (''AddObject'',
        Multi [''Plan'', ''PlanLite'', ''Folder'', ''FolderLite'', ''JobScheduler''],
        Some Forward),
     (''FlushInstances'',
        Multi [''Plan'', ''PlanLite'', ''Queue'', ''QueueLite'', ''Reference'',
               ''ReferenceLite'', ''Job'', ''JobLite''],
        Some Forward),
     (''GetObjectType'', Multi [''JobScheduler''], None),
     (''GetAbatObject'',
        Multi [''AlertObjectLite'', ''Calendar'', ''Folder'', ''JobScheduler'', ''Plan'',
               ''PlanLite'', ''QueueLite'', ''ReferenceLite'', ''ResourceLite'',
               ''ScheduleLite'', ''UserAccountLite'', ''FolderLite'', ''JobLite'',
               ''ObjectListLite'', ''ServiceLibraryLite''],
        Some Forward),
     (''GetAbatObjectLite'', Single ''JobScheduler'', Some Forward),
     (''GetAlertsEx'',
        Multi [''JobScheduler'', ''Job'', ''Plan'', ''Queue'', ''Reference''],
        Some (Wrapped ''JobAlerts'')),
     (''GetAssociatedAlertObjects'',
        Multi [''Job'', ''Plan'', ''Queue'', ''Reference''],
        Some (Wrapped ''AlertObjects'')),
     (''GetAssociatedCalendarsObjectId'',
        Multi [''Job'', ''Plan'', ''Reference'', ''Schedule''],
        Some (Wrapped ''AbatObjectIDs'')),
     (''GetAssociatedSchedules'', Multi [''Job'', ''Plan'', ''Reference''], None),
     (''GetAssociatedSchedulesObjectId'',
        Multi [''Job'', ''Plan'', ''Reference''],
        Some (Wrapped ''AbatObjectIDs'')),
     (''GetBatchStarts'', Multi [''Job'', ''Plan'', ''Reference''], Some Forward),
     (''GetCompletionRules'', Single ''Plan'', Some Forward),
     (''GetCounters'',
        Multi [''Plan'', ''PlanLite'', ''JobScheduler'', ''Queue'', ''QueueLite'',
               ''Reference'', ''ReferenceLite'', ''Job'', ''JobLite'', ''RecycleBin''],
        Some Forward),
     (''GetDependencies'',
        Multi [''Job'', ''Plan'', ''Reference'', ''JobScheduler''], Some Forward),
     (''GetEventTriggers'', Multi [''Job'', ''Plan'', ''Reference''], Some Forward),
     (''GetExclusionList'', Multi [''Job'', ''Plan'', ''Reference''], Some Forward),
     (''GetJobPolicy'', Single ''Plan'', Some Forward),
     (''GetObjectsLite'',
        Multi [''Plan'', ''JobScheduler'', ''Folder'', ''FolderLite'', ''RecycleBin''],
        Some (Wrapped ''ObjectsLite'')),
     (''GetSecurityAccounts'',
        Multi [''Plan'', ''Folder'', ''JobScheduler'', ''AlertObject'', ''Calendar'',
               ''IAbatObject'', ''Job'', ''ObjectList'', ''Queue'', ''Reference'',
               ''ResourceObject'', ''Schedule'', ''ServiceLibrary'', ''tag'',
               ''UserAccount''],
        Some Forward),
     (''GetVariables'',
        Multi [''Plan'', ''Folder'', ''JobScheduler'', ''Job'', ''JobHistory'', ''Queue'',
               ''Reference'', ''UserAccount''],
        Some Forward),
     (''HasPermission'',
        Multi [''Plan'', ''Folder'', ''AlertObject'', ''Calendar'', ''IAbatObject'',
               ''Job'', ''ObjectList'', ''Queue'', ''Reference'', ''ResourceObject'',
               ''Schedule'', ''ServiceLibrary'', ''UserAccount''],
        Some Forward),
     (''IsDirty'',
        Multi [''Plan'', ''Folder'', ''JobScheduler'', ''AlertObject'', ''Calendar'',
               ''IAbatObject'', ''Job'', ''ObjectList'', ''Queue'', ''Reference'',
               ''ResourceObject'', ''Schedule'', ''ServiceLibrary'', ''UserAccount''],
        Some Forward),
     (''IsPublished'',
        Multi [''Plan'', ''PlanLite'', ''Folder'', ''FolderLite''], Some Forward),
     (''Publish'',
        Multi [''Plan'', ''PlanLite'', ''Folder'', ''FolderLite''], Some ForwardNone),
     (''ResetAverage'',
        Multi [''Plan'', ''PlanLite'', ''Reference'', ''ReferenceLite'', ''Job'',
               ''JobLite'', ''MonitoringProps''],
        Some ForwardNone),
     (''ResetCounters'',
        Multi [''Queue'', ''QueueLite'', ''Plan'', ''PlanLite'', ''Reference'',
               ''ReferenceLite'', ''Job'', ''JobLite''],
        Some ForwardNone),
     (''TakeOwnership'',
        Multi [''Folder'', ''FolderLite'', ''Plan'', ''PlanLite''], Some ForwardNone),
     (''Unpublish'',
        Multi [''Folder'', ''JobScheduler'', ''Policy'', ''AlertObject'', ''Calendar'',
               ''IAbatObject'', ''Job'', ''JobHistoryInstance'', ''ObjectList'', ''Plan'',
               ''Queue'', ''Reference'', ''ResourceObject'', ''Schedule'',
               ''ServiceLibrary'', ''UserAccount''],
        Some ForwardNone),
     (''Update'',
        Multi [''Folder'', ''JobScheduler'', ''Policy'', ''AlertObject'', ''Calendar'',
               ''IAbatObject'', ''Job'', ''JobHistoryInstance'', ''ObjectList'', ''Plan'',
               ''Queue'', ''Reference'', ''ResourceObject'', ''Schedule'',
               ''ServiceLibrary'', ''UserAccount''],
        Some ForwardNone),
     (''UpdateCounters'',
        Multi [''JobScheduler'', ''Plan'', ''PlanLite'', ''Queue'', ''QueueLite'',
               ''Reference'', ''ReferenceLite'', ''Job'', ''JobLite''],
        Some ForwardNone),
     (''GetAssociatedJobs'',
        Multi [''AlertObject'', ''Calendar'', ''ObjectList'', ''Schedule'',
               ''UserAccount''],
        Some (Wrapped ''AbatVariantItems'')),
     (''GetExactDates'', Single ''Schedule'', Some (Wrapped ''AbatVariantItems'')),
     (''GetScheduledDates'', Single ''Schedule'', Some (Wrapped ''AbatVariantItems'')),
     (''TimeSpec_GetExactTimes'', Single ''Schedule'', Some (Wrapped ''AbatVariantItems'')),
     (''Trigger3'',
        Multi [''Plan'', ''PlanLite'', ''Job'', ''JobLite'', ''Reference'',
               ''ReferenceLite''],
        Some ForwardNone),
     (''GetChildInstances'', Multi [''Folder'', ''FolderLite''], Some Forward),
     (''GetInstances'',
        Multi [''JobScheduler'', ''PlanLite'', ''QueueLite'', ''ReferenceLite'',
               ''JobLite'', ''Job''],
        None),
     (''IsPropertyLocked'',
        Multi [''Folder'', ''IAbatObject'', ''Job'', ''ServiceLibrary''], Some Forward),
     (''MoveObject'', Multi [''JobScheduler''], Some ForwardNone),
     (''MoveObjectTo'', Multi [''JobScheduler''], None),
     (''CopyObject'',
        Multi [''AlertObject'', ''Job'', ''ObjectList'', ''Schedule''], Some Forward),
     (''CopyObjectTo'', Multi [''JobScheduler''], None),
     (''ObjectExists'', Multi [''JobScheduler''], None),
     (''CreateObject'', Multi [''JobScheduler''], None),
     (''Search'', Multi [''JobScheduler''], Some (Wrapped ''ObjectsLite''))]"

text \<open>The properties of \<open>AllAttributes\<close>, in the same form.\<close>

definition AllAttributes_table :: "(string \<times> ab_classes \<times> kind option) list" where
  "AllAttributes_table =
    [(''ObjectType'', Single ''All'', None),
     (''Auditing'', Single ''All'', Some Attr),
     (''Defaults'', Single ''All'', Some Attr),
     (''Path'', Single ''All'', Some Attr),
     (''FullPath'', Single ''All'', Some Attr),
     (''GlobalDisable'', Single ''All'', Some Attr),
     (''ID'', Single ''All'', Some Attr),
     (''IsDeleted'',
        Multi [''ObjectLite'', ''CalendarLite'', ''QueueLite'', ''UserAccountLite'',
               ''FolderLite'', ''AbatReferenceLite'', ''IAbatObjectLite'', ''JobLite'',
               ''PlanLite'', ''ResourceLite'', ''ObjectListLite'', ''ServiceLibraryLite'',
               ''ScheduleLite''],
        Some Attr),
     (''QueueObjectID'', Multi [''Job''], Some Attr),
     (''Label'', Single ''All'', Some Attr),
     (''Name'', Single ''All'', Some Attr),
     (''NextDate'', Single ''CalendarLite'', Some Attr),
     (''Owner'', Single ''All'', Some Attr),
     (''ParentID'', Single ''All'', Some Attr),
     (''RevisionID'', Single ''All'', Some Attr),
     (''Tags'', Single ''All'', Some Attr),
     (''CalendarType'', Multi [''Schedule''], None),
     (''CreationDateTime'', Single ''All'', Some DateAttr),
     (''EnableActiveBatchEventTriggers'',
        Multi [''Job'', ''JobLite'', ''Plan'', ''Reference''], Some Attr),
     (''Enabled'', Single ''All'', Some Attr),
     (''EnableEventTriggers'',
        Multi [''Job'', ''JobLite'', ''Plan'', ''Reference''], Some Attr),
     (''EnableRunImmediately'', Multi [''Job'', ''JobLite''], Some Attr),
     (''EnableTimerTriggers'',
        Multi [''Job'', ''JobLite'', ''Plan'', ''Reference''], Some Attr),
     (''ExecutionDateTime'', Multi [''JobLite'', ''JobHistoryInstance''], Some Attr),
     (''LastInstanceExecutionDateTime'',
        Multi [''Plan'', ''PlanLite'', ''Job'', ''JobLite'', ''ReferenceLite''],
        Some DateAttr),
     (''NextScheduledExecutionDateTime'',
        Multi [''PlanLite'', ''Job'', ''JobLite'', ''ReferenceLite''], Some DateAttr),
     (''EnableLogging'', Multi [''Job''], Some Attr),
     (''RetainLogFileDuration'', Multi [''Job''], Some Attr),
     (''LoggingMethod'', Multi [''Job''], Some Attr),
     (''SaveJobHistoryDuration'', Multi [''Job''], Some Attr)]"

definition capability_table :: "(string \<times> ab_classes \<times> kind option) list" where
  "capability_table = AllMethods_table @ AllAttributes_table"

text \<open>
  Calling a decorated method of \<open>AllMethods\<close> on a proxy, for the methods with one of
  the shapes above. (The properties of \<open>AllAttributes\<close> are read, not called: see
  \<open>read_property\<close> below.)
\<close>

definition call_op :: "library \<Rightarrow> string \<Rightarrow> proxy \<Rightarrow> pyval list \<Rightarrow> pyval M" where
  "call_op lib nm self args =
     (case map_of AllMethods_table nm of
        Some (ab, Some k) \<Rightarrow> generic_op lib nm ab k self args
      | _ \<Rightarrow> raiseM (AttributeError nm))"

section \<open>The operations with a body of their own\<close>

text \<open>\<open>bool(v)\<close>; a remote handle and a proxy are true.\<close>

definition truthy :: "pyval \<Rightarrow> bool" where
  "truthy v =
     (case v of
        PyNone \<Rightarrow> False
      | PyBool b \<Rightarrow> b
      | PyInt i \<Rightarrow> i \<noteq> 0
      | PyStr s \<Rightarrow> s \<noteq> []
      | PyList xs \<Rightarrow> xs \<noteq> []
      | _ \<Rightarrow> True)"

text \<open>\<open>int(v)\<close> on a value.\<close>

definition int_of :: "pyval \<Rightarrow> exn + int" where
  "int_of v =
     (case v of
        PyInt i \<Rightarrow> Inr i
      | PyBool b \<Rightarrow> Inr (if b then 1 else 0)
      | PyStr s \<Rightarrow>
          (case py_int s of
             Some i \<Rightarrow> Inr i
           | None \<Rightarrow> Inl (ValueError ''invalid literal for int() with base 10''))
      | _ \<Rightarrow> Inl (TypeError ''int() argument must be a string or a real number''))"

text \<open>
  The argument of an enumeration class as \<open>BaseEnumeration\<close> receives it: \<open>int(value)\<close>
  raises \<open>TypeError\<close>, which is not caught, on a value that is neither a number nor a
  string.
\<close>

definition enum_arg_of :: "pyval \<Rightarrow> exn + enum_arg" where
  "enum_arg_of v =
     (case v of
        PyInt i \<Rightarrow> Inr (IntArg i)
      | PyBool b \<Rightarrow> Inr (IntArg (if b then 1 else 0))
      | PyStr s \<Rightarrow> Inr (StrArg s)
      | _ \<Rightarrow> Inl (TypeError ''int() argument must be a string or a real number''))"

definition ID :: "proxy \<Rightarrow> pyval M" where
  "ID self = runnable (Single ''All'') ''ID'' self [] (getattr (obj self) ''ID'')"

definition GetAbatObject :: "proxy \<Rightarrow> pyval list \<Rightarrow> pyval M" where
  "GetAbatObject self args =
     runnable
       (Multi [''AlertObjectLite'', ''Calendar'', ''Folder'', ''JobScheduler'', ''Plan'',
               ''PlanLite'', ''QueueLite'', ''ReferenceLite'', ''ResourceLite'',
               ''ScheduleLite'', ''UserAccountLite'', ''FolderLite'', ''JobLite'',
               ''ObjectListLite'', ''ServiceLibraryLite''])
       ''GetAbatObject'' self args
       (invoke (obj self) ''GetAbatObject'' args)"

definition GetAbatObjectLite :: "proxy \<Rightarrow> pyval list \<Rightarrow> pyval M" where
  "GetAbatObjectLite self args =
     runnable (Single ''JobScheduler'') ''GetAbatObjectLite'' self args
       (invoke (obj self) ''GetAbatObjectLite'' args)"

definition AddObject :: "proxy \<Rightarrow> pyval list \<Rightarrow> pyval M" where
  "AddObject self args =
     runnable (Multi [''Plan'', ''PlanLite'', ''Folder'', ''FolderLite'', ''JobScheduler''])
       ''AddObject'' self args
       (invoke (obj self) ''AddObject'' args)"

definition ObjectExists :: "proxy \<Rightarrow> pyval \<Rightarrow> bool M" where
  "ObjectExists self ObjectKey =
     runnable (Multi [''JobScheduler'']) ''ObjectExists'' self [ObjectKey]
       (bindM (invoke (obj self) ''ObjectExists'' [ObjectKey]) (\<lambda>r. returnM (truthy r)))"

text \<open>
  \<open>CreateObject\<close>, the definition in force: any exception of the remote call is logged
  and \<open>None\<close> is returned.
\<close>

definition CreateObject :: "proxy \<Rightarrow> pyval \<Rightarrow> pyval M" where
  "CreateObject self ObjectName =
     runnable (Multi [''JobScheduler'']) ''CreateObject'' self [ObjectName]
       (try_except (invoke (obj self) ''CreateObject'' [ObjectName])
          (\<lambda>e. bindM (logging (Log WARNING
                         [Val ObjectName,
                          Txt '' is not a valid ObjectName for this method. Please consult the documentation''])) (\<lambda>_.
                bindM (logging (LogException e)) (\<lambda>_. returnM PyNone))))"




text \<open>The property \<open>ObjectType\<close>: the name of the proxy class.\<close>

definition ObjectType_property :: "proxy \<Rightarrow> pyval M" where
  "ObjectType_property self =
     runnable (Single ''All'') ''ObjectType'' self [] (returnM (PyStr (clsname self)))"

definition CalendarTypes :: "enum_arg \<Rightarrow> exn + enum_obj" where
  "CalendarTypes v = BaseEnumeration v
     [(''abatCAT_Calendar'', 1), (''abatCAT_FiscalCalendar'', 2),
      (''abatCAT_BusinessCalendar'', 3)]"

definition CalendarType :: "proxy \<Rightarrow> pyval M" where
  "CalendarType self =
     runnable (Multi [''Schedule'']) ''CalendarType'' self []
       (bindM (getattr (obj self) ''CalendarType'') (\<lambda>v.
        bindM (liftE (bindE (enum_arg_of v) CalendarTypes)) (\<lambda>cal_type.
          returnM (PyStr (name cal_type)))))"


subsection \<open>\<open>GetObjectType\<close>: type resolution with the errata heuristic\<close>

text \<open>
  The warning of the errata branch, with the values the source formats into it (the
  version, the server, \<open>FullPath\<close> and \<open>ID\<close> of the fetched object); its prose is shortened.
\<close>

definition errata_warning :: "proxy \<Rightarrow> pyval \<Rightarrow> pyval \<Rightarrow> log_record" where
  "errata_warning self fullpath ident =
     Log WARNING
       [Txt ''ERRATA WARNING: Plans and Folders return the same type 3; version '',
        Val (case version self of None \<Rightarrow> PyNone | Some v \<Rightarrow> PyInt v),
        Txt '' on the server '', Txt (server self),
        Txt ''; raised by the GetObjectType method when calling it on the object '',
        Val fullpath, Val ident]"

definition probe_folder :: "pyval \<Rightarrow> pyval M" where
  "probe_folder ob =
     try_except
       (bindM (getattr ob ''ReplacePermissionsOnChildObjects'') (\<lambda>_. returnM (PyInt 14)))
       (\<lambda>e. case e of
               AttributeError m \<Rightarrow>
                 bindM (logging (Log ERROR
                          [Txt ''FATAL ERROR occured inside the version checking section of the runnable decorator''])) (\<lambda>_.
                 bindM (logging (LogException e)) (\<lambda>_. raiseM e))
             | _ \<Rightarrow> raiseM e)"

definition probe_plan :: "pyval \<Rightarrow> pyval M" where
  "probe_plan ob =
     try_except
       (bindM (getattr ob ''DisableTemplateOnError'') (\<lambda>_. returnM (PyInt 3)))
       (\<lambda>e. case e of AttributeError m \<Rightarrow> probe_folder ob | _ \<Rightarrow> raiseM e)"

definition GetObjectType_body :: "proxy \<Rightarrow> pyval \<Rightarrow> pyval M" where
  "GetObjectType_body self ObjectKey =
     bindM (invoke (obj self) ''GetObjectType'' [ObjectKey]) (\<lambda>otype.
       case version self of
         None \<Rightarrow> raiseM (TypeError ''<= not supported between NoneType and int'')
       | Some v \<Rightarrow>
           if v \<le> 9 then
             if otype = PyInt 3 then
               bindM (GetAbatObject self [ObjectKey]) (\<lambda>ob.
               bindM (getattr ob ''FullPath'') (\<lambda>fullpath.
               bindM (getattr ob ''ID'') (\<lambda>ident.
               bindM (logging (errata_warning self fullpath ident)) (\<lambda>_.
                 probe_plan ob))))
             else invoke (obj self) ''GetObjectType'' [ObjectKey]
           else invoke (obj self) ''GetObjectType'' [ObjectKey])"

definition GetObjectType :: "proxy \<Rightarrow> pyval \<Rightarrow> pyval M" where
  "GetObjectType self ObjectKey =
     runnable (Multi [''JobScheduler'']) ''GetObjectType'' self [ObjectKey]
       (GetObjectType_body self ObjectKey)"

subsection \<open>\<open>_create_intermediate_folders\<close>: creating the missing containers of a path\<close>

record path_item =
  pi_key :: string
  pi_parent :: string
  pi_exists :: bool
  pi_label :: string

text \<open>
  What \<open>which_exists\<close> returns: for a numeric key the dictionary
  \<open>{d_key: (exists, None)}\<close>, otherwise the list of the path's items.
\<close>

datatype which = ById int bool | ByPath "path_item list"

text \<open>The loop of \<open>which_exists\<close> over \<open>range(len(path_components))\<close>.\<close>

fun which_paths :: "proxy \<Rightarrow> string list \<Rightarrow> nat list \<Rightarrow> path_item list M" where
  "which_paths self comps [] = returnM []"
| "which_paths self comps (idx # idxs) =
     (if idx = 0 then which_paths self comps idxs
      else
        let currpath = (if idx = 1 then ''/'' else py_join ''/'' (take (idx + 1) comps));
            label = comps ! idx;
            parent = py_join ''/'' (take idx comps)
        in bindM (ObjectExists self (PyStr currpath)) (\<lambda>ex.
           bindM (which_paths self comps idxs) (\<lambda>rest.
             returnM (\<lparr>pi_key = currpath, pi_parent = parent, pi_exists = ex,
                        pi_label = label\<rparr> # rest))))"

text \<open>
  The \<open>try\<close> block holds the conversion, the warning and the existence probe; a
  \<open>ValueError\<close> from any of them leads to the path branch.
\<close>

definition which_exists :: "proxy \<Rightarrow> pyval \<Rightarrow> which M" where
  "which_exists self DestinationKey =
     (case DestinationKey of
        PyStr s \<Rightarrow>
          try_except
            (case py_int s of
               None \<Rightarrow> raiseM (ValueError ''invalid literal for int() with base 10'')
             | Some d_key \<Rightarrow>
                 bindM (logging (Log WARNING
                          [Txt ''The provided DestinationKey '', Val DestinationKey,
                           Txt '' is not compatible with create_if_not_exists option.''])) (\<lambda>_.
                 bindM (ObjectExists self (PyInt d_key)) (\<lambda>ex.
                   returnM (ById d_key ex))))
            (\<lambda>e. case e of
                    ValueError m \<Rightarrow>
                      (let path_components = py_split (CHR ''/'') s
                       in bindM (which_paths self path_components
                                   [0 ..< length path_components]) (\<lambda>paths.
                          returnM (ByPath paths)))
                  | _ \<Rightarrow> raiseM e)
      | _ \<Rightarrow> raiseM AssertionError)"

text \<open>The body of the loop over the items, and the loop.\<close>

definition create_folder :: "proxy \<Rightarrow> path_item \<Rightarrow> unit M" where
  "create_folder self item =
     (if \<not> pi_exists item then
        bindM (logging (Log INFO [Txt ''Creating '', Txt (pi_key item)])) (\<lambda>_.
        bindM (CreateObject self (PyStr ''Folder'')) (\<lambda>folder_obj.
        bindM (setattr folder_obj ''Label'' (PyStr (pi_label item))) (\<lambda>_.
        bindM (setattr folder_obj ''Name'' (PyStr (pi_label item))) (\<lambda>_.
        bindM (logging (Log DEBUG
                 [Txt ''Adding '', Txt (pi_key item), Txt '' to path '',
                  Txt (pi_parent item)])) (\<lambda>_.
        bindM (AddObject self [PyStr (pi_parent item), folder_obj]) (\<lambda>_.
          returnM ()))))))
      else returnM ())"

fun create_loop :: "proxy \<Rightarrow> path_item list \<Rightarrow> unit M" where
  "create_loop self [] = returnM ()"
| "create_loop self (item # items) =
     bindM (create_folder self item) (\<lambda>_. create_loop self items)"

text \<open>
  Iterating over the dictionary of a numeric key yields the key, an integer, and
  \<open>item['key']\<close> raises \<open>TypeError\<close>.
\<close>

definition create_intermediate_folders :: "proxy \<Rightarrow> pyval \<Rightarrow> unit M" where
  "create_intermediate_folders self DestinationKey =
     bindM (which_exists self DestinationKey) (\<lambda>r.
       case r of
         ById d_key ex \<Rightarrow> raiseM (TypeError ''int object is not subscriptable'')
       | ByPath paths \<Rightarrow> create_loop self paths)"

subsection \<open>\<open>MoveObjectTo\<close> and \<open>CopyObjectTo\<close>\<close>

text \<open>The validation both share: the raw remote type code, its name, the folder test.\<close>

definition destination_is_folder :: "proxy \<Rightarrow> pyval \<Rightarrow> bool M" where
  "destination_is_folder self DestinationKey =
     bindM (invoke (obj self) ''GetObjectType'' [DestinationKey]) (\<lambda>destination_type.
     bindM (liftE (bindE (enum_arg_of destination_type) ObjectType)) (\<lambda>ot.
       returnM (name ot \<in> set [''abatOT_Folder'', ''abatOT_Plan''])))"

text \<open>
  The text of a key in an f-string (a key is a string or an integer; the text of a list
  or of a handle is left empty).
\<close>

definition format_key :: "pyval \<Rightarrow> string" where
  "format_key v =
     (case v of
        PyStr s \<Rightarrow> s
      | PyInt i \<Rightarrow> py_str i
      | PyBool b \<Rightarrow> (if b then ''True'' else ''False'')
      | PyNone \<Rightarrow> ''None''
      | _ \<Rightarrow> [])"

text \<open>
  \<open>ValueError(f"The destination key '{DestinationKey}' is not a folder'")\<close>, with the
  three quotation marks of the source (\<open>CHR 0x27\<close>).
\<close>

definition not_a_folder :: "pyval \<Rightarrow> exn" where
  "not_a_folder DestinationKey =
     ValueError (''The destination key '' @ [CHR 0x27] @ format_key DestinationKey
       @ [CHR 0x27] @ '' is not a folder'' @ [CHR 0x27])"

definition MoveObjectTo :: "proxy \<Rightarrow> pyval \<Rightarrow> pyval \<Rightarrow> bool \<Rightarrow> pyval M" where
  "MoveObjectTo self SourceKey DestinationKey create_if_not_exists =
     runnable (Multi [''JobScheduler'']) ''MoveObjectTo'' self
       [SourceKey, DestinationKey, PyBool create_if_not_exists]
       (bindM (if create_if_not_exists
               then create_intermediate_folders self DestinationKey
               else returnM ()) (\<lambda>_.
        bindM (logging (Log DEBUG
                 [Txt ''Moving '', Val SourceKey, Txt '' to '', Val DestinationKey])) (\<lambda>_.
        bindM (destination_is_folder self DestinationKey) (\<lambda>isfolder.
          if isfolder
          then bindM (invoke (obj self) ''MoveObject'' [SourceKey, DestinationKey]) (\<lambda>_.
                 returnM PyNone)
          else raiseM (not_a_folder DestinationKey)))))"


section \<open>Object retrieval and the lite/full counterpart (\<open>JobScheduler\<close> and the proxies)\<close>

text \<open>\<open>method_map\<close> of \<open>_get_object\<close>: the class built for a type name.\<close>

definition method_map :: "bool \<Rightarrow> (string \<times> string) list" where
  "method_map lite =
     (if lite then
        [(''ServiceLibrary'', ''ServiceLibrary''), (''abatOT_Job'', ''JobLite''),
         (''abatOT_Plan'', ''PlanLite''), (''abatOT_Queue'', ''Placeholder''),
         (''abatOT_Schedule'', ''ScheduleLite''), (''abatOT_Calendar'', ''CalendarLite''),
         (''abatOT_UserAccount'', ''UserAccount''),
         (''abatOT_ResourceObject'', ''Placeholder''),
         (''abatOT_AlertObject'', ''AlertsLite''), (''abatOT_Reference'', ''Placeholder''),
         (''abatOT_Instance'', ''Placeholder''), (''abatOT_JobScheduler'', ''JobScheduler''),
         (''abatOT_ServiceLibrary'', ''Placeholder''), (''abatOT_Folder'', ''FolderLite''),
         (''abatOT_GenericQueue'', ''Placeholder''), (''abatOT_ObjectList'', ''Placeholder'')]
      else
        [(''ServiceLibrary'', ''ServiceLibrary''), (''abatOT_Job'', ''Job''),
         (''abatOT_Plan'', ''Plan''), (''abatOT_Queue'', ''Placeholder''),
         (''abatOT_Schedule'', ''Schedule''), (''abatOT_Calendar'', ''Calendar''),
         (''abatOT_UserAccount'', ''UserAccount''),
         (''abatOT_ResourceObject'', ''Placeholder''),
         (''abatOT_AlertObject'', ''Alerts''), (''abatOT_Reference'', ''Placeholder''),
         (''abatOT_Instance'', ''Placeholder''), (''abatOT_JobScheduler'', ''JobScheduler''),
         (''abatOT_ServiceLibrary'', ''Placeholder''), (''abatOT_Folder'', ''Folder''),
         (''abatOT_GenericQueue'', ''Placeholder''), (''abatOT_ObjectList'', ''Placeholder'')])"

text \<open>
  \<open>cls(self, obj)\<close>: every proxy class starts with an empty slot; \<open>Placeholder\<close> logs a
  warning; \<open>JobScheduler.__init__\<close> needs a third argument and raises.
\<close>

definition construct :: "string \<Rightarrow> pyval \<Rightarrow> pyval \<Rightarrow> pyval M" where
  "construct cls sched ob =
     (if cls = ''JobScheduler''
      then raiseM (TypeError ''__init__() missing 1 required positional argument: version'')
      else
        bindM (alloc \<lparr>clsname = cls, obj = ob, scheduler = sched, server = [],
                      version = None, slot = PyNone\<rparr>) (\<lambda>r.
          if cls = ''Placeholder''
          then bindM (logging (Log WARNING [Txt ''This object type is currently unsupported''])) (\<lambda>_.
                 returnM r)
          else returnM r))"

text \<open>\<open>_get_object\<close>; \<open>sched\<close> is the reference to the scheduler proxy (\<open>self\<close>).\<close>

definition private_get_object :: "pyval \<Rightarrow> pyval \<Rightarrow> bool \<Rightarrow> pyval M" where
  "private_get_object sched key lite =
     bindM (deref sched) (\<lambda>self.
     bindM (GetObjectType self key) (\<lambda>t.
     bindM (liftE (int_of t)) (\<lambda>objtype.
     bindM (liftE (ObjectType (IntArg objtype))) (\<lambda>ot.
     bindM (if lite then GetAbatObjectLite self [key] else GetAbatObject self [key]) (\<lambda>ob.
       case map_of (method_map lite) (name ot) of
         None \<Rightarrow> raiseM (KeyError (PyStr (name ot)))
       | Some cls \<Rightarrow> construct cls sched ob)))))"

fun get_objects :: "library \<Rightarrow> pyval \<Rightarrow> pyval list \<Rightarrow> bool \<Rightarrow> pyval list M" where
  "get_objects lib sched [] lite = returnM []"
| "get_objects lib sched (item # items) lite =
     bindM (if has_username lib item
            then bindM (getattr item ''ID'') (\<lambda>ident.
                 bindM (logging (Log DEBUG [Txt ''Searching for object ID '', Val ident])) (\<lambda>_.
                 bindM (getattr item ''ID'') (\<lambda>ident'.
                   private_get_object sched ident' lite)))
            else private_get_object sched item lite) (\<lambda>r.
     bindM (get_objects lib sched items lite) (\<lambda>rs. returnM (r # rs)))"

definition get_object :: "library \<Rightarrow> pyval \<Rightarrow> pyval \<Rightarrow> bool \<Rightarrow> pyval M" where
  "get_object lib sched key lite =
     bindM (logging (Log DEBUG [Txt ''get_object('', Val key, Txt '')''])) (\<lambda>_.
       case key of
         PyList items \<Rightarrow> bindM (get_objects lib sched items lite) (\<lambda>rs. returnM (PyList rs))
       | _ \<Rightarrow> private_get_object sched key lite)"

text \<open>
  Attribute lookup that finds a property: when the getter raises \<open>AttributeError\<close> and
  the class defines \<open>__getattr__\<close> (\<open>hook = Some g\<close>), the lookup goes on with \<open>g\<close> on the
  name; any other exception of the getter comes out.
\<close>

definition property_read :: "(string \<Rightarrow> pyval M) option \<Rightarrow> string \<Rightarrow> pyval M \<Rightarrow> pyval M" where
  "property_read hook nm getter =
     (case hook of
        None \<Rightarrow> getter
      | Some g \<Rightarrow>
          try_except getter (\<lambda>e. case e of AttributeError m \<Rightarrow> g nm | _ \<Rightarrow> raiseM e))"

text \<open>
  \<open>Plan\<close> is the one class that defines \<open>__getattr__\<close>; \<open>ga r\<close> is that method on the
  instance \<open>r\<close>.
\<close>

definition hook_of ::
  "(pyval \<Rightarrow> string \<Rightarrow> pyval M) \<Rightarrow> pyval \<Rightarrow> proxy \<Rightarrow> (string \<Rightarrow> pyval M) option" where
  "hook_of ga r self = (if clsname self = ''Plan'' then Some (ga r) else None)"

text \<open>
  The body shared by every \<open>LiteObject\<close> (\<open>lite = True\<close>) and \<open>FullObject\<close>
  (\<open>lite = False\<close>) property: fill the slot of this instance if it is \<open>None\<close>, return it.
  \<open>self.ID\<close> is the lookup of a property.
\<close>

definition counterpart ::
  "library \<Rightarrow> bool \<Rightarrow> (pyval \<Rightarrow> string \<Rightarrow> pyval M) \<Rightarrow> pyval \<Rightarrow> pyval M" where
  "counterpart lib lite ga r =
     bindM (deref r) (\<lambda>self.
     bindM (if slot self = PyNone
            then bindM (property_read (hook_of ga r self) ''ID'' (ID self)) (\<lambda>ident.
                 bindM (get_object lib (scheduler self) ident lite) (\<lambda>c. set_slot r c))
            else returnM ()) (\<lambda>_.
     bindM (deref r) (\<lambda>self'. returnM (slot self'))))"

text \<open>
  The attributes \<open>LiteObject\<close> and \<open>FullObject\<close> of a value: a class without the property
  has no such attribute.
\<close>

definition LiteObject_attr ::
  "library \<Rightarrow> (pyval \<Rightarrow> string \<Rightarrow> pyval M) \<Rightarrow> pyval \<Rightarrow> pyval M" where
  "LiteObject_attr lib ga r =
     bindM (deref r) (\<lambda>self.
       if clsname self \<in> set [''Plan'', ''ServiceLibrary'', ''Job'', ''Alerts'',
                               ''UserAccount'', ''Calendar'', ''Schedule'', ''Folder'']
       then property_read (hook_of ga r self) ''LiteObject'' (counterpart lib True ga r)
       else raiseM (AttributeError ''LiteObject''))"

definition FullObject_attr ::
  "library \<Rightarrow> (pyval \<Rightarrow> string \<Rightarrow> pyval M) \<Rightarrow> pyval \<Rightarrow> pyval M" where
  "FullObject_attr lib ga r =
     bindM (deref r) (\<lambda>self.
       if clsname self \<in> set [''JobLite'', ''AlertsLite'', ''CalendarLite'', ''ScheduleLite'',
                              ''PlanLite'', ''FolderLite'']
       then property_read (hook_of ga r self) ''FullObject'' (counterpart lib False ga r)
       else raiseM (AttributeError ''FullObject''))"

text \<open>
  The property \<open>NextScheduledExecutionDateTime\<close> of \<open>AllAttributes\<close>, read on a value; a
  list has no such attribute.
\<close>

definition NextScheduledExecutionDateTime ::
  "library \<Rightarrow> (pyval \<Rightarrow> string \<Rightarrow> pyval M) \<Rightarrow> pyval \<Rightarrow> pyval M" where
  "NextScheduledExecutionDateTime lib ga r =
     (case r of
        ProxyRef a \<Rightarrow>
          bindM (deref r) (\<lambda>self.
            property_read (hook_of ga r self) ''NextScheduledExecutionDateTime''
              (generic_op lib ''NextScheduledExecutionDateTime''
                 (Multi [''PlanLite'', ''Job'', ''JobLite'', ''ReferenceLite'']) DateAttr self []))
      | _ \<Rightarrow> raiseM (AttributeError ''NextScheduledExecutionDateTime''))"

text \<open>
  \<open>Plan.__getattr__\<close>. The second argument bounds the depth of nested calls (the
  interpreter's recursion limit): at depth zero \<open>RecursionError\<close> is raised. \<open>self.item\<close>
  looks up the attribute named \<open>item\<close>, which no class defines, so the lookup comes back to
  \<open>__getattr__\<close>; so does the lookup of a property of the plan that raises
  \<open>AttributeError\<close>.
\<close>

primrec Plan_getattr :: "library \<Rightarrow> nat \<Rightarrow> pyval \<Rightarrow> string \<Rightarrow> pyval M" where
  "Plan_getattr lib 0 r item = raiseM RecursionError"
| "Plan_getattr lib (Suc d) r item =
     (if item = ''NextScheduledExecutionDateTime''
      then bindM (LiteObject_attr lib (Plan_getattr lib d) r)
             (NextScheduledExecutionDateTime lib (Plan_getattr lib d))
      else Plan_getattr lib d r ''item'')"

text \<open>The accessors as attributes of a proxy, at a recursion limit.\<close>

definition LiteObject :: "library \<Rightarrow> nat \<Rightarrow> pyval \<Rightarrow> pyval M" where
  "LiteObject lib d r = LiteObject_attr lib (Plan_getattr lib d) r"

definition FullObject :: "library \<Rightarrow> nat \<Rightarrow> pyval \<Rightarrow> pyval M" where
  "FullObject lib d r = FullObject_attr lib (Plan_getattr lib d) r"

text \<open>
  Reading a property of \<open>AllAttributes\<close> on a proxy, at a recursion limit; a name that is
  not in the table is looked up as a missing attribute.
\<close>

definition property_getter :: "library \<Rightarrow> string \<Rightarrow> proxy \<Rightarrow> pyval M option" where
  "property_getter lib nm self =
     (case map_of AllAttributes_table nm of
        Some (ab, Some k) \<Rightarrow> Some (generic_op lib nm ab k self [])
      | Some (ab, None) \<Rightarrow>
          (if nm = ''ObjectType'' then Some (ObjectType_property self)
           else if nm = ''CalendarType'' then Some (CalendarType self)
           else None)
      | None \<Rightarrow> None)"

definition read_property :: "library \<Rightarrow> nat \<Rightarrow> pyval \<Rightarrow> string \<Rightarrow> pyval M" where
  "read_property lib d r nm =
     bindM (deref r) (\<lambda>self.
       case property_getter lib nm self of
         Some getter \<Rightarrow> property_read (hook_of (Plan_getattr lib d) r self) nm getter
       | None \<Rightarrow>
           (case hook_of (Plan_getattr lib d) r self of
              Some g \<Rightarrow> g nm
            | None \<Rightarrow> raiseM (AttributeError nm)))"

section \<open>An example remote service\<close>

text \<open>
  A small remote service for the concrete cases below: a tree of objects, each with a
  path and a kind. Object number \<open>i\<close> of the list has the identifier \<open>i + 1\<close> and the
  handle \<open>ComObj (1000 + i)\<close>; the scheduler's own handle is \<open>ComObj 0\<close>; the handles of
  objects created and not yet attached start at \<open>ComObj 2000\<close>. With \<open>errata\<close> the service
  reports the type code 3 for folders as for plans (the behaviour of versions up to 9).
  With \<open>strict_parent\<close> it refuses to attach an object under a path that does not exist.
\<close>

datatype obj_kind = JobK | PlanK | FolderK

record example_state =
  objects :: "(string \<times> obj_kind) list"
  labels :: "(nat \<times> string) list"
  created :: nat
  errata :: bool
  strict_parent :: bool

definition raw_code :: "bool \<Rightarrow> obj_kind \<Rightarrow> int" where
  "raw_code err k = (case k of JobK \<Rightarrow> 2 | PlanK \<Rightarrow> 3 | FolderK \<Rightarrow> if err then 3 else 14)"

fun index_of :: "string \<Rightarrow> (string \<times> obj_kind) list \<Rightarrow> nat option" where
  "index_of p [] = None"
| "index_of p ((q, k) # os) =
     (if p = q then Some 0 else map_option Suc (index_of p os))"

definition find_key :: "example_state \<Rightarrow> pyval \<Rightarrow> nat option" where
  "find_key st key =
     (case key of
        PyStr p \<Rightarrow> index_of p (objects st)
      | PyInt i \<Rightarrow> if 1 \<le> i \<and> nat i \<le> length (objects st) then Some (nat i - 1) else None
      | _ \<Rightarrow> None)"

definition child_path :: "string \<Rightarrow> string \<Rightarrow> string" where
  "child_path parent label = (if parent = ''/'' then ''/'' @ label else parent @ ''/'' @ label)"

definition not_found :: "exn + pyval" where
  "not_found = Inl (com_error ''The object was not found'')"

definition scheduler_call :: "example_state \<Rightarrow> string \<Rightarrow> pyval list \<Rightarrow> (exn + pyval) \<times> example_state" where
  "scheduler_call st m args =
     (if m = ''ObjectExists'' then
        (case args of
           [key] \<Rightarrow> (Inr (PyBool (find_key st key \<noteq> None)), st)
         | _ \<Rightarrow> (not_found, st))
      else if m = ''GetObjectType'' then
        (case args of
           [key] \<Rightarrow>
             (case find_key st key of
                Some i \<Rightarrow> (Inr (PyInt (raw_code (errata st) (snd (objects st ! i)))), st)
              | None \<Rightarrow> (not_found, st))
         | _ \<Rightarrow> (not_found, st))
      else if m = ''GetAbatObject'' \<or> m = ''GetAbatObjectLite'' then
        (case args of
           [key] \<Rightarrow>
             (case find_key st key of
                Some i \<Rightarrow> (Inr (ComObj (1000 + i)), st)
              | None \<Rightarrow> (not_found, st))
         | _ \<Rightarrow> (not_found, st))
      else if m = ''CreateObject'' then
        (Inr (ComObj (2000 + created st)), st\<lparr>created := created st + 1\<rparr>)
      else if m = ''AddObject'' then
        (case args of
           [PyStr parent, ComObj n] \<Rightarrow>
             (case map_of (labels st) n of
                Some l \<Rightarrow>
                  if strict_parent st \<and> index_of parent (objects st) = None
                  then (not_found, st)
                  else (Inr PyNone,
                        st\<lparr>objects := objects st @ [(child_path parent l, FolderK)]\<rparr>)
              | None \<Rightarrow> (not_found, st))
         | _ \<Rightarrow> (not_found, st))
      else (Inr PyNone, st))"

definition object_attr :: "example_state \<Rightarrow> nat \<Rightarrow> string \<Rightarrow> exn + pyval" where
  "object_attr st i a =
     (if i < length (objects st) then
        (let (p, k) = objects st ! i
         in if a = ''ID'' then Inr (PyInt (int i + 1))
            else if a = ''FullPath'' then Inr (PyStr p)
            else if a = ''DisableTemplateOnError''
              then (if k = FolderK then Inl (AttributeError a) else Inr (PyBool False))
            else if a = ''ReplacePermissionsOnChildObjects''
              then (if k = JobK then Inl (AttributeError a) else Inr (PyBool False))
            else Inr PyNone)
      else Inl (AttributeError a))"

definition example_step :: "example_state \<Rightarrow> call \<Rightarrow> (exn + pyval) \<times> example_state" where
  "example_step st c =
     (case c of
        Invoke ob m args \<Rightarrow>
          (if ob = ComObj 0 then scheduler_call st m args else (Inr PyNone, st))
      | GetAttr ob a \<Rightarrow>
          (case ob of
             ComObj n \<Rightarrow>
               (if 1000 \<le> n \<and> n < 2000 then (object_attr st (n - 1000) a, st)
                else (Inr PyNone, st))
           | _ \<Rightarrow> (Inl (AttributeError a), st))
      | SetAttr ob a v \<Rightarrow>
          (case (ob, v) of
             (ComObj n, PyStr l) \<Rightarrow>
               (if a = ''Label'' then (Inr PyNone, st\<lparr>labels := (n, l) # labels st\<rparr>)
                else (Inr PyNone, st))
           | _ \<Rightarrow> (Inr PyNone, st)))"

text \<open>The service as a function of the interactions so far.\<close>

definition example_remote :: "example_state \<Rightarrow> call list \<Rightarrow> call \<Rightarrow> exn + pyval" where
  "example_remote init hist c =
     fst (example_step (foldl (\<lambda>st c'. snd (example_step st c')) init hist) c)"

definition example_world :: "example_state \<Rightarrow> proxy list \<Rightarrow> world" where
  "example_world init ps =
     \<lparr>respond = example_remote init, trace = [], logged = [], store = ps\<rparr>"

definition tree :: "(string \<times> obj_kind) list \<Rightarrow> bool \<Rightarrow> bool \<Rightarrow> example_state" where
  "tree os err strict =
     \<lparr>objects = os, labels = [], created = 0, errata = err, strict_parent = strict\<rparr>"

text \<open>The scheduler proxy of a session with a service of the given version.\<close>

definition scheduler_proxy :: "int \<Rightarrow> proxy" where
  "scheduler_proxy v =
     \<lparr>clsname = ''JobScheduler'', obj = ComObj 0, scheduler = PyNone,
      server = ''activebatch'', version = Some v, slot = PyNone\<rparr>"

text \<open>
  The library parameters of the examples: nothing is wrapped or parsed, and the clock
  stands still.
\<close>

definition example_lib :: library where
  "example_lib =
     \<lparr>ab_col = (\<lambda>c v. returnM v), str_of = (\<lambda>v. case v of PyStr s \<Rightarrow> s | _ \<Rightarrow> []),
      strptime = (\<lambda>s. Inr (PyStr s)), has_username = (\<lambda>v. False),
      now = (\<lambda>days. ''2024/01/01 00:00:00'')\<rparr>"

section \<open>Notions used to state the properties\<close>

text \<open>The exceptions whose \<open>except\<close> clause formats the arguments, and so reads the name.\<close>

definition reads_name :: "exn \<Rightarrow> bool" where
  "reads_name e = (case e of AttributeError m \<Rightarrow> True | com_error d \<Rightarrow> True | _ \<Rightarrow> False)"

text \<open>
  What the wrapper logs for an exception of the body, by the shape of the exception;
  \<open>n\<close> is the name read on the remote handle.
\<close>

definition handler_log ::
  "string \<Rightarrow> proxy \<Rightarrow> pyval list \<Rightarrow> pyval \<Rightarrow> exn \<Rightarrow> log_record list" where
  "handler_log funcname self args n e =
     (case e of
        AttributeError m \<Rightarrow>
          [Log WARNING [Txt ''AttributeError was raised when calling '', Txt funcname,
                        Txt '' using the args '', Val n, Txt (clsname self), Args args],
           LogException e]
      | com_error d \<Rightarrow>
          [Log ERROR [Txt ''A COM error was encountered when attempting to run the <'',
                      Txt funcname, Txt ''> method of the <'', Txt (clsname self),
                      Txt ''> class with the arguments '', Val n, Txt (clsname self),
                      Args args, Txt ''. The error message is '', Txt d],
           LogException e]
      | _ \<Rightarrow> [LogException e])"

text \<open>The remote interaction the wrapper adds when it handles an exception.\<close>

definition handler_trace :: "proxy \<Rightarrow> exn \<Rightarrow> call list" where
  "handler_trace self e = (if reads_name e then [GetAttr (obj self) ''Name''] else [])"

text \<open>The remote interaction a body of a generic shape starts with.\<close>

definition first_call :: "kind \<Rightarrow> pyval \<Rightarrow> string \<Rightarrow> pyval list \<Rightarrow> call" where
  "first_call k ob nm params =
     (case k of Attr \<Rightarrow> GetAttr ob nm | DateAttr \<Rightarrow> GetAttr ob nm | _ \<Rightarrow> Invoke ob nm params)"

text \<open>The remote service gives the same answer to an interaction whenever it is asked.\<close>

definition answers :: "world \<Rightarrow> call \<Rightarrow> exn + pyval \<Rightarrow> bool" where
  "answers w c r = (\<forall>hist. respond w hist c = r)"

text \<open>
  Some interaction of the list \<open>cs\<close>, made one after the other once \<open>hist\<close> has happened,
  is answered with an exception.
\<close>

fun failed :: "(call list \<Rightarrow> call \<Rightarrow> exn + pyval) \<Rightarrow> call list \<Rightarrow> call list \<Rightarrow> bool" where
  "failed rsp hist [] = False"
| "failed rsp hist (c # cs) = (isl (rsp hist c) \<or> failed rsp (hist @ [c]) cs)"

text \<open>
  An operation that returns normally after a failed remote interaction only with a value
  in \<open>P\<close>: it leaves the remote service as it is, adds its interactions to the trace, and
  when one of them failed it raises or returns a value in \<open>P\<close>. With an empty \<open>P\<close> the
  operation never returns normally after a failed interaction.
\<close>

definition recovers_only :: "('a \<Rightarrow> bool) \<Rightarrow> 'a M \<Rightarrow> bool" where
  "recovers_only P m \<longleftrightarrow>
     (\<forall>w. respond (snd (m w)) = respond w \<and>
          (\<exists>cs. trace (snd (m w)) = trace w @ cs \<and>
                (failed (respond w) (trace w) cs \<longrightarrow>
                   (case fst (m w) of Inl e \<Rightarrow> True | Inr x \<Rightarrow> P x))))"

definition propagates :: "'a M \<Rightarrow> bool" where
  "propagates m = recovers_only (\<lambda>x. False) m"


text \<open>The fetches of remote objects among a list of interactions.\<close>

definition is_fetch :: "call \<Rightarrow> bool" where
  "is_fetch c =
     (case c of
        Invoke ob m args \<Rightarrow> m = ''GetAbatObject'' \<or> m = ''GetAbatObjectLite''
      | _ \<Rightarrow> False)"

definition fetches :: "call list \<Rightarrow> call list" where
  "fetches cs = filter is_fetch cs"


text \<open>
  A remote service that answers the method \<open>m\<close> with the exception \<open>e\<close> and everything
  else with \<open>None\<close>.
\<close>

definition refusing_world :: "string \<Rightarrow> exn \<Rightarrow> proxy list \<Rightarrow> world" where
  "refusing_world m e ps =
     \<lparr>respond = (\<lambda>hist c. case c of
                    Invoke ob m' args \<Rightarrow> if m' = m then Inl e else Inr PyNone
                  | _ \<Rightarrow> Inr PyNone),
      trace = [], logged = [], store = ps\<rparr>"

text \<open>
  A remote service that answers every method call with the exception \<open>e\<close> and every
  attribute read with the exception \<open>e'\<close>.
\<close>

definition broken_world :: "exn \<Rightarrow> exn \<Rightarrow> proxy list \<Rightarrow> world" where
  "broken_world e e' ps =
     \<lparr>respond = (\<lambda>hist c. case c of
                    Invoke ob m args \<Rightarrow> Inl e
                  | GetAttr ob a \<Rightarrow> Inl e'
                  | SetAttr ob a v \<Rightarrow> Inr PyNone),
      trace = [], logged = [], store = ps\<rparr>"

text \<open>
  A remote service that reports the type code 3 for every key and hands out the object
  \<open>ComObj 1001\<close>, on which the two distinguishing attributes can be read or not.
\<close>

definition errata_object :: "bool \<Rightarrow> bool \<Rightarrow> call list \<Rightarrow> call \<Rightarrow> exn + pyval" where
  "errata_object plan_attr folder_attr hist c =
     (case c of
        Invoke ob m args \<Rightarrow>
          if m = ''GetObjectType'' then Inr (PyInt 3)
          else if m = ''GetAbatObject'' \<or> m = ''GetAbatObjectLite'' then Inr (ComObj 1001)
          else Inr PyNone
      | GetAttr ob a \<Rightarrow>
          if a = ''DisableTemplateOnError''
            then (if plan_attr then Inr (PyBool False) else Inl (AttributeError a))
          else if a = ''ReplacePermissionsOnChildObjects''
            then (if folder_attr then Inr (PyBool False) else Inl (AttributeError a))
          else if a = ''ID'' then Inr (PyInt 2)
          else if a = ''FullPath'' then Inr (PyStr ''/x'')
          else Inr PyNone
      | SetAttr ob a v \<Rightarrow> Inr PyNone)"

definition errata_world :: "bool \<Rightarrow> bool \<Rightarrow> proxy list \<Rightarrow> world" where
  "errata_world plan_attr folder_attr ps =
     \<lparr>respond = errata_object plan_attr folder_attr, trace = [], logged = [], store = ps\<rparr>"

text \<open>
  The fetch the type resolver makes on its own: one \<open>GetAbatObject\<close>, when the version
  is at most 9 and the remote service answered the type query with 3.
\<close>

definition resolver_fetches :: "proxy \<Rightarrow> exn + pyval \<Rightarrow> pyval \<Rightarrow> call list" where
  "resolver_fetches sp answer key =
     (case version sp of
        Some v \<Rightarrow>
          if v \<le> 9 \<and> answer = Inr (PyInt 3)
          then [Invoke (obj sp) ''GetAbatObject'' [key]]
          else []
      | None \<Rightarrow> [])"

text \<open>A proxy of the given class for the object behind \<open>ComObj 1001\<close>, built by scheduler 0.\<close>

definition proxy_of :: "string \<Rightarrow> proxy" where
  "proxy_of cls =
     \<lparr>clsname = cls, obj = ComObj 1001, scheduler = ProxyRef 0, server = [],
      version = None, slot = PyNone\<rparr>"

text \<open>
  Two worlds that differ by interactions that fetch nothing: the same remote service, the
  same proxies and the same fetches.
\<close>

definition quiet :: "world \<Rightarrow> world \<Rightarrow> bool" where
  "quiet w w' \<longleftrightarrow> respond w' = respond w \<and> store w' = store w \<and>
     fetches (trace w') = fetches (trace w)"

text \<open>
  A session with a service of version 9: the scheduler proxy at address 0 and a lite plan
  proxy at address 1.
\<close>

definition errata_session :: world where
  "errata_session = errata_world True True [scheduler_proxy 9, proxy_of ''PlanLite'']"

text \<open>
  A session with a service of version 10 and two full plan proxies, at the addresses 1
  and 2, for the same remote object.
\<close>

definition twin_session :: world where
  "twin_session = errata_world True True [scheduler_proxy 10, proxy_of ''Plan'', proxy_of ''Plan'']"

chapter \<open>Properties\<close>

section \<open>Enumerations and the weekday bitmask\<close>

lemmas enum_defs = BaseEnumeration_def str_mapping_def bindE_def
  ScheduleDays_mapping_def ScheduleDaySpecType_def ScheduleTimeSpecType_def
  ScheduleMonthlyType_def ScheduleInstanceDay_value_def ScheduleInstanceType_value_def
  name_suffix_def

lemma str_mapping_ScheduleDays:
  "str_mapping ScheduleDays_mapping v = Some n \<Longrightarrow> v \<in> {1, 2, 4, 8, 16, 32, 64}"
  by (auto simp: str_mapping_def ScheduleDays_mapping_def split: if_splits)

lemma str_days_of_single:
  "v \<in> {1, 2, 4, 8, 16, 32, 64} \<Longrightarrow>
   str_days_of v = Inl (RuntimeError ''super(): no arguments'')"
  by (elim insertE emptyE;
      simp add: str_days_of_def str_days_decimals_def str_days_names_def bindE_def
        bin_digits.simps enumerate_eq_zip)

text \<open>
  No weekday bitmask gives a \<open>ScheduleDays\<close> object: a mask that is not a single day has
  no entry in \<open>str_mapping\<close>, and for a single day the name lookup of \<open>__str_days\<close> raises.
\<close>

lemma ScheduleDays_never_returns: "\<exists>e. ScheduleDays v = Inl e"
proof (cases "str_mapping ScheduleDays_mapping v")
  case None
  then show ?thesis by (simp add: ScheduleDays_def BaseEnumeration_def bindE_def)
next
  case (Some n)
  then have "str_days_of v = Inl (RuntimeError ''super(): no arguments'')"
    using str_mapping_ScheduleDays str_days_of_single by blast
  with Some show ?thesis by (simp add: ScheduleDays_def BaseEnumeration_def bindE_def)
qed

text \<open>
  The first loop of \<open>__str_days\<close> does what the class is meant to do: the powers of two it
  collects are those of the set bits, lowest first, and they sum to the mask.
\<close>

lemma decimals_sum_aux:
  "sum_list (map (\<lambda>(idx, val). (2::int) ^ idx)
      (filter (\<lambda>(idx, val). val \<noteq> 0) (enumerate k (rev (bin_digits n)))))
   = 2 ^ k * int n"
proof (induction n arbitrary: k rule: bin_digits.induct)
  case (1 n)
  show ?case
  proof (cases "n < 2")
    case True
    then have b: "bin_digits n = [n]" by (subst bin_digits.simps) simp
    from True have "n = 0 \<or> n = 1" by auto
    then show ?thesis unfolding b by auto
  next
    case False
    have split: "int n = int (n mod 2) + 2 * int (n div 2)"
      by (metis mod_mult_div_eq of_nat_add of_nat_mult of_nat_numeral)
    have "n mod 2 = 0 \<or> n mod 2 = 1" by auto
    have b: "bin_digits n = bin_digits (n div 2) @ [n mod 2]"
      using False by (subst bin_digits.simps) simp
    have ih: "sum_list (map (\<lambda>(idx, val). (2::int) ^ idx)
      (filter (\<lambda>(idx, val). val \<noteq> 0) (enumerate (Suc k) (rev (bin_digits (n div 2))))))
        = 2 ^ Suc k * int (n div 2)"
      by (rule "1.IH" [OF False])
    show ?thesis
    proof (cases "n mod 2 = 0")
      case True
      then have e: "int n = 2 * int (n div 2)" using split by simp
      show ?thesis unfolding b using ih e True by (auto simp add: algebra_simps)
    next
      case odd: False
      then have m: "n mod 2 = 1" by auto
      then have e: "int n = 1 + 2 * int (n div 2)" using split by simp
      show ?thesis unfolding b using ih e m by (auto simp add: algebra_simps)
    qed
  qed
qed

lemma str_days_decimals_sum:
  "str_days_decimals v = Inr ds \<Longrightarrow> sum_list ds = v"
  using decimals_sum_aux [of 0 "nat v"]
  by (auto simp add: str_days_decimals_def split: if_splits)

lemma str_days_decimals_38: "str_days_decimals 38 = Inr [2, 4, 32]"
  by (simp add: str_days_decimals_def bin_digits.simps enumerate_eq_zip)

text \<open>
  Claim C9. The claim: for every weekday bitmask \<open>v\<close> from 1 to 127, \<open>ScheduleDays(v).str_days\<close>
  lists the names of the days whose bits are set, lowest bit first, and \<open>int_days\<close> the bit
  values, which sum to \<open>v\<close>. The code does not get there. For the mask 38 (the example of
  the source's own comment: Monday, Tuesday and Friday) the constructor of the base class
  looks the whole mask up among the single days and raises \<open>KeyError\<close>; for the single day
  4 (Tuesday) the constructor passes and the name lookup of \<open>__str_days\<close> raises
  \<open>RuntimeError\<close>.
\<close>

theorem ScheduleDays_bitmask_raises:
  "ScheduleDays 38 = Inl (KeyError (PyInt 38)) \<and>
   ScheduleDays 4 = Inl (RuntimeError ''super(): no arguments'')"
  by (simp add: ScheduleDays_def enum_defs str_days_of_def str_days_decimals_def
      str_days_names_def bin_digits.simps enumerate_eq_zip)

section \<open>The schedule-name synthesizer\<close>

lemmas sched_defs = typemapper_def d_daily_def d_weekly_def d_monthly_def type_day_def
  type_nth_def type_series_def t_hoursminutes_def t_exacttimes_def t_every_def
  blank_schedule_def fmt_02_def py_str_def nat_digits.simps py_replace_char_def
  production_name_def Let_def

text \<open>The day and time components that do not depend on the weekday bitmask.\<close>

lemma d_daily_examples:
  "d_daily (s\<lparr>DaySpec_DailyInterval := 1\<rparr>) = ''EveryDay''"
  "d_daily (s\<lparr>DaySpec_DailyInterval := 3\<rparr>) = ''Every3Days''"
  by (simp_all add: sched_defs)

lemma type_day_examples:
  "type_day pre 21 = pre @ ''.21st''"
  "type_day pre 11 = pre @ ''.11st''"
  "type_day pre 4 = pre @ ''.4th''"
  by (simp_all add: sched_defs)

lemma time_component_examples:
  "t_hoursminutes (s\<lparr>TimeSpec_Hours := 9, TimeSpec_Minutes := 1\<rparr>) = ''0901''"
  "t_every (s\<lparr>TimeSpec_Interval := 10\<rparr>) = ''Every_10m''"
  by (simp_all add: sched_defs)

lemma typemapper_daily_example:
  "typemapper (blank_schedule\<lparr>DaySpec_Type := 1, DaySpec_DailyInterval := 3,
      TimeSpec_Type := 1, TimeSpec_Hours := 9, TimeSpec_Minutes := 1\<rparr>)
   = Inr ''Every3Days_0901''"
  by (simp add: sched_defs enum_defs)

lemma typemapper_monthly_example:
  "typemapper (blank_schedule\<lparr>DaySpec_Type := 3, DaySpec_MonthlyType := 1,
      DaySpec_MonthlyInterval := 1, DaySpec_MonthlyDayOfMonth := 21,
      TimeSpec_Type := 3, TimeSpec_Interval := 10\<rparr>)
   = Inr ''EveryMonth.21st_Every_10m''"
  by (simp add: sched_defs enum_defs)

text \<open>A weekly schedule has no name: whatever \<open>ScheduleDays\<close> raises comes out.\<close>

lemma d_weekly_never_returns: "\<exists>e. d_weekly s = Inl e"
proof -
  obtain e where "ScheduleDays (DaySpec_WeeklyDaysOfWeek s) = Inl e"
    using ScheduleDays_never_returns by blast
  then show ?thesis by (simp add: d_weekly_def bindE_def)
qed

text \<open>
  Claim C4. The claim: the synthesizer gives \<open>dayComponent_timeComponent\<close>, with
  \<open>EveryDay\<close> and \<open>Every3Days\<close> for daily schedules, \<open>EveryWeek.MonWed\<close> for a weekly one
  on Monday and Wednesday, the ordinal suffix of a fixed day of the month from its last
  digit, \<open>0901\<close> and \<open>Every_10m\<close> for the times, and \<open>Every2Weeks.TueThu_1430\<close> for the
  weekly schedule with interval 2 on Tuesday and Thursday at 14:30. The daily, monthly and
  time parts hold (the lemmas above). The weekly parts do not: the synthesizer builds
  \<open>ScheduleDays\<close> from the bitmask, and for Tuesday and Thursday (20) as for Monday and
  Wednesday (10) that raises \<open>KeyError\<close> instead of giving a name.
\<close>

theorem weekly_schedule_name_raises:
  "production_name (blank_schedule\<lparr>DaySpec_Type := 2, DaySpec_WeeklyInterval := 2,
      DaySpec_WeeklyDaysOfWeek := 20, TimeSpec_Type := 1, TimeSpec_Hours := 14,
      TimeSpec_Minutes := 30\<rparr>) = Inl (KeyError (PyInt 20)) \<and>
   d_weekly (blank_schedule\<lparr>DaySpec_WeeklyInterval := 1, DaySpec_WeeklyDaysOfWeek := 10\<rparr>)
     = Inl (KeyError (PyInt 10))"
  by (simp add: sched_defs ScheduleDays_def enum_defs)

section \<open>Capability-gated dispatch\<close>

lemmas monad_defs = bindM_def returnM_def raiseM_def try_except_def liftE_def com_def
  logging_def getattr_def setattr_def invoke_def

text \<open>
  What the \<open>except\<close> clauses do: for an exception that is neither an \<open>AttributeError\<close>
  nor a remote failure the exception is logged and raised again; for these two the name
  is read first, and the exception is logged with the call and raised again when the read
  returns, while the failure of the read is raised, with nothing logged, when it does not.
\<close>

lemma handler_plain:
  "\<not> reads_name e \<Longrightarrow>
   handler f self args e w = (Inl e, w\<lparr>logged := logged w @ [LogException e]\<rparr>)"
  by (cases e) (simp_all add: handler_def reads_name_def monad_defs)



lemma handler_raises: "isl (fst (handler f self args e w))"
  by (cases e; cases "obj self")
     (simp_all add: handler_def monad_defs split: sum.splits prod.splits)

lemma handler_trace_run:
  "obj self = ComObj h \<Longrightarrow>
   trace (snd (handler f self args e w)) = trace w @ handler_trace self e"
  by (cases e)
     (simp_all add: handler_def handler_trace_def reads_name_def monad_defs split: sum.splits)

text \<open>An allowed call runs the body; an exception of the body goes to the clauses.\<close>

lemma runnable_allowed:
  "allowed ab (clsname self) \<Longrightarrow>
   runnable ab funcname self args wrapped w =
     (case wrapped w of
        (Inr x, w') \<Rightarrow> (Inr x, w')
      | (Inl e, w') \<Rightarrow> handler funcname self args e w')"
  by (simp add: runnable_def try_except_def split: prod.splits sum.splits)

text \<open>
  A refused call raises \<open>AttributeError\<close> with the operation, the class and the joined
  argument of the decorator, logs a warning and leaves the remote service alone.
\<close>

lemma runnable_refused:
  "\<not> allowed ab (clsname self) \<Longrightarrow>
   runnable ab funcname self args wrapped w =
     (Inl (AttributeError (unsupported_msg ab funcname (clsname self))),
      w\<lparr>logged := logged w @ [Log WARNING [Txt (unsupported_msg ab funcname (clsname self))]]\<rparr>)"
  by (simp add: runnable_def monad_defs)

text \<open>With a list the gate is membership; with a single string it is the substring test.\<close>

lemma allowed_Multi: "allowed (Multi xs) cls \<longleftrightarrow> ''All'' \<in> set xs \<or> cls \<in> set xs"
  by (simp add: allowed_def py_in_def)

lemma allowed_Single:
  "allowed (Single s) cls \<longleftrightarrow> is_substring ''All'' s \<or> is_substring cls s"
  by (simp add: allowed_def py_in_def)

lemma allowed_JobScheduler [simp]: "allowed (Multi [''JobScheduler'']) ''JobScheduler''"
  by (simp add: allowed_Multi)

lemma table_Connect:
  "map_of capability_table ''Connect'' = Some (Single ''JobScheduler'', Some ForwardNone)"
  by (simp add: capability_table_def AllMethods_table_def)

lemma methods_Connect:
  "map_of AllMethods_table ''Connect'' = Some (Single ''JobScheduler'', Some ForwardNone)"
  by (simp add: AllMethods_table_def)

lemma bind_args_Connect:
  "bind_args ''Connect'' [x] = Inr [x, PyStr [], PyStr [], PyBool False]"
  by (simp add: bind_args_def signature_table_def fill_defaults_def)

lemma generic_op_refused_no_remote_call:
  "\<not> allowed ab (clsname self) \<Longrightarrow>
   fst (generic_op lib nm ab k self args w)
     = Inl (AttributeError (unsupported_msg ab nm (clsname self))) \<and>
   trace (snd (generic_op lib nm ab k self args w)) = trace w"
  by (simp add: generic_op_def runnable_refused split: sum.splits)

text \<open>
  Claim C1. The claim: an operation is forwarded to the remote handle if and only if its
  allow-list holds the wildcard \<open>All\<close> or the name of the proxy's variant; otherwise an
  error is raised and no remote call occurs. For the operations decorated with a list this
  holds (\<open>allowed_Multi\<close>, \<open>runnable_refused\<close>). \<open>Connect\<close> is decorated with the single
  string \<open>JobScheduler\<close>, the one class that may run it, and the test \<open>in\<close> on a string is
  the substring test: on a \<open>Job\<close> proxy and on a \<open>Schedule\<close> proxy, whose names are
  substrings of \<open>JobScheduler\<close>, \<open>Connect('srv')\<close> reaches the remote handle, with the
  defaults of the other parameters. Whatever the remote service is, the trace grows by
  that call, followed by the read of the name when the call fails and the wrapper formats
  its message; on a service that accepts the call the operation returns.
\<close>

theorem Connect_reaches_remote_for_Job:
  "map_of capability_table ''Connect'' = Some (Single ''JobScheduler'', Some ForwardNone) \<and>
   trace (snd (call_op lib ''Connect'' (proxy_of ''Job'') [PyStr ''srv''] w))
     = trace w @
       Invoke (ComObj 1001) ''Connect'' [PyStr ''srv'', PyStr [], PyStr [], PyBool False] #
       (case respond w (trace w)
               (Invoke (ComObj 1001) ''Connect''
                  [PyStr ''srv'', PyStr [], PyStr [], PyBool False]) of
          Inl e \<Rightarrow> handler_trace (proxy_of ''Job'') e
        | Inr v \<Rightarrow> []) \<and>
   trace (snd (call_op lib ''Connect'' (proxy_of ''Schedule'') [PyStr ''srv''] w))
     = trace w @
       Invoke (ComObj 1001) ''Connect'' [PyStr ''srv'', PyStr [], PyStr [], PyBool False] #
       (case respond w (trace w)
               (Invoke (ComObj 1001) ''Connect''
                  [PyStr ''srv'', PyStr [], PyStr [], PyBool False]) of
          Inl e \<Rightarrow> handler_trace (proxy_of ''Schedule'') e
        | Inr v \<Rightarrow> []) \<and>
   call_op lib ''Connect'' (proxy_of ''Job'') [PyStr ''srv''] (errata_world True True [])
     = (Inr PyNone,
        (errata_world True True [])
          \<lparr>trace := [Invoke (ComObj 1001) ''Connect''
                       [PyStr ''srv'', PyStr [], PyStr [], PyBool False]]\<rparr>)"
proof -
  have a: "allowed (Single ''JobScheduler'') (clsname (proxy_of ''Job''))"
    by (simp add: allowed_def py_in_def proxy_of_def)
  have b: "allowed (Single ''JobScheduler'') (clsname (proxy_of ''Schedule''))"
    by (simp add: allowed_def py_in_def proxy_of_def)
  have o: "obj (proxy_of c) = ComObj 1001" for c
    by (simp add: proxy_of_def)
  have run: "trace (snd (call_op lib ''Connect'' (proxy_of c) [PyStr ''srv''] w))
     = trace w @
       Invoke (ComObj 1001) ''Connect'' [PyStr ''srv'', PyStr [], PyStr [], PyBool False] #
       (case respond w (trace w)
               (Invoke (ComObj 1001) ''Connect''
                  [PyStr ''srv'', PyStr [], PyStr [], PyBool False]) of
          Inl e \<Rightarrow> handler_trace (proxy_of c) e
        | Inr v \<Rightarrow> [])"
    if "allowed (Single ''JobScheduler'') (clsname (proxy_of c))" for c
    using that
    by (simp add: call_op_def methods_Connect generic_op_def bind_args_Connect generic_body_def
        runnable_allowed o invoke_def com_def bindM_def returnM_def
        handler_trace_run [OF o] split: sum.splits)
  have ok: "call_op lib ''Connect'' (proxy_of ''Job'') [PyStr ''srv''] (errata_world True True [])
     = (Inr PyNone,
        (errata_world True True [])
          \<lparr>trace := [Invoke (ComObj 1001) ''Connect''
                       [PyStr ''srv'', PyStr [], PyStr [], PyBool False]]\<rparr>)"
    using a
    by (simp add: call_op_def methods_Connect generic_op_def bind_args_Connect generic_body_def
        runnable_allowed o monad_defs errata_world_def errata_object_def)
  show ?thesis
    using run [OF a] run [OF b] ok table_Connect by simp
qed

section \<open>Propagation of failures\<close>

lemma failed_append:
  "failed rsp hist (xs @ ys) = (failed rsp hist xs \<or> failed rsp (hist @ xs) ys)"
  by (induction xs arbitrary: hist) simp_all

lemma recovers_only_run:
  assumes "recovers_only P m" and "m w = (r, w1)"
  shows "respond w1 = respond w \<and>
     (\<exists>cs. trace w1 = trace w @ cs \<and>
        (failed (respond w) (trace w) cs \<longrightarrow> (case r of Inl e \<Rightarrow> True | Inr x \<Rightarrow> P x)))"
proof -
  from assms(1) have "respond (snd (m w)) = respond w \<and>
      (\<exists>cs. trace (snd (m w)) = trace w @ cs \<and>
            (failed (respond w) (trace w) cs \<longrightarrow>
               (case fst (m w) of Inl e \<Rightarrow> True | Inr x \<Rightarrow> P x)))"
    unfolding recovers_only_def by blast
  with assms(2) show ?thesis by simp
qed

lemma recovers_onlyI:
  assumes "\<And>w r w1. m w = (r, w1) \<Longrightarrow>
     respond w1 = respond w \<and>
     (\<exists>cs. trace w1 = trace w @ cs \<and>
        (failed (respond w) (trace w) cs \<longrightarrow> (case r of Inl e \<Rightarrow> True | Inr x \<Rightarrow> P x)))"
  shows "recovers_only P m"
  unfolding recovers_only_def
proof
  fix w
  obtain r w1 where mw: "m w = (r, w1)" by (cases "m w")
  from assms [OF mw] mw
  show "respond (snd (m w)) = respond w \<and>
      (\<exists>cs. trace (snd (m w)) = trace w @ cs \<and>
            (failed (respond w) (trace w) cs \<longrightarrow>
               (case fst (m w) of Inl e \<Rightarrow> True | Inr x \<Rightarrow> P x)))"
    by simp
qed

text \<open>A step that does not touch the remote service is such an operation.\<close>

lemma recovers_only_silent:
  assumes "\<And>w. respond (snd (m w)) = respond w \<and> trace (snd (m w)) = trace w"
  shows "recovers_only P m"
proof (rule recovers_onlyI)
  fix w r w1
  assume "m w = (r, w1)"
  with assms [of w] have "respond w1 = respond w" "trace w1 = trace w @ []" by simp_all
  then show "respond w1 = respond w \<and>
     (\<exists>cs. trace w1 = trace w @ cs \<and>
        (failed (respond w) (trace w) cs \<longrightarrow> (case r of Inl e \<Rightarrow> True | Inr x \<Rightarrow> P x)))"
    by (intro conjI exI [of _ "[]"]) simp_all
qed

lemma recovers_only_returnM [simp]: "recovers_only P (returnM x)"
  by (rule recovers_only_silent) (simp add: returnM_def)

lemma recovers_only_raiseM [simp]: "recovers_only P (raiseM e)"
  by (rule recovers_only_silent) (simp add: raiseM_def)

lemma recovers_only_liftE [simp]: "recovers_only P (liftE r)"
  by (rule recovers_only_silent) (simp add: liftE_def)

lemma recovers_only_logging [simp]: "recovers_only P (logging r)"
  by (rule recovers_only_silent) (simp add: logging_def)

lemma recovers_only_deref [simp]: "recovers_only P (deref r)"
  by (rule recovers_only_silent) (simp add: deref_def split: pyval.splits)

text \<open>A remote interaction that fails raises.\<close>

lemma recovers_only_com [simp]: "recovers_only P (com c)"
proof (rule recovers_onlyI)
  fix w r w1
  assume "com c w = (r, w1)"
  then have r: "r = respond w (trace w) c" and w1: "w1 = w\<lparr>trace := trace w @ [c]\<rparr>"
    by (simp_all add: com_def)
  show "respond w1 = respond w \<and>
     (\<exists>cs. trace w1 = trace w @ cs \<and>
        (failed (respond w) (trace w) cs \<longrightarrow> (case r of Inl e \<Rightarrow> True | Inr x \<Rightarrow> P x)))"
    unfolding r w1
    by (intro conjI exI [of _ "[c]"]) (simp_all add: isl_def split: sum.splits)
qed

lemma recovers_only_getattr [simp]: "recovers_only P (getattr v a)"
  by (cases v) (simp_all add: getattr_def)

lemma recovers_only_invoke [simp]: "recovers_only P (invoke v m args)"
  by (cases v) (simp_all add: invoke_def)

text \<open>
  Sequencing: when the first step may recover with a value in \<open>P\<close>, the rest has to
  raise on such a value.
\<close>

lemma recovers_only_bind:
  assumes m: "recovers_only P m" and f: "\<And>x. recovers_only Q (f x)"
    and stop: "\<And>x w. P x \<Longrightarrow> isl (fst (f x w))"
  shows "recovers_only Q (bindM m f)"
proof (rule recovers_onlyI)
  fix w r w2
  assume run: "bindM m f w = (r, w2)"
  obtain r1 w1 where mw: "m w = (r1, w1)" by (cases "m w")
  from recovers_only_run [OF m mw]
  obtain cs1 where r1: "respond w1 = respond w" and t1: "trace w1 = trace w @ cs1"
    and c1: "failed (respond w) (trace w) cs1 \<longrightarrow> (case r1 of Inl e \<Rightarrow> True | Inr x \<Rightarrow> P x)"
    by blast
  show "respond w2 = respond w \<and>
     (\<exists>cs. trace w2 = trace w @ cs \<and>
        (failed (respond w) (trace w) cs \<longrightarrow> (case r of Inl e \<Rightarrow> True | Inr x \<Rightarrow> Q x)))"
  proof (cases r1)
    case (Inl e)
    with run mw have "r = Inl e" "w2 = w1" by (simp_all add: bindM_def)
    with r1 t1 show ?thesis by auto
  next
    case (Inr x)
    with run mw have fx: "f x w1 = (r, w2)" by (simp add: bindM_def)
    from recovers_only_run [OF f fx]
    obtain cs2 where r2: "respond w2 = respond w1" and t2: "trace w2 = trace w1 @ cs2"
      and c2: "failed (respond w1) (trace w1) cs2 \<longrightarrow>
                 (case r of Inl e \<Rightarrow> True | Inr x \<Rightarrow> Q x)"
      by blast
    have "case r of Inl e \<Rightarrow> True | Inr x \<Rightarrow> Q x"
      if fl: "failed (respond w) (trace w) (cs1 @ cs2)"
    proof (cases "failed (respond w) (trace w) cs1")
      case True
      from c1 True Inr have "P x" by simp
      from stop [OF this, of w1] fx show ?thesis by (auto simp add: isl_def)
    next
      case False
      with fl have "failed (respond w1) (trace w1) cs2"
        by (simp add: failed_append r1 t1)
      with c2 show ?thesis by simp
    qed
    with r1 r2 t1 t2 show ?thesis
      by (intro conjI exI [of _ "cs1 @ cs2"]) simp_all
  qed
qed

lemma propagates_bind:
  "propagates m \<Longrightarrow> (\<And>x. recovers_only Q (f x)) \<Longrightarrow> recovers_only Q (bindM m f)"
  unfolding propagates_def by (rule recovers_only_bind) simp_all

lemma recovers_only_setattr [simp]: "recovers_only P (setattr v a x)"
  by (cases v) (simp_all add: setattr_def propagates_bind propagates_def)

text \<open>
  A \<open>try\<close> statement: every handler has to be such an operation, and whatever a handler
  returns has to be in \<open>Q\<close>.
\<close>

lemma recovers_only_try:
  assumes m: "recovers_only Q m" and h: "\<And>e. recovers_only Q (h e)"
    and out: "\<And>e w. case fst (h e w) of Inl e' \<Rightarrow> True | Inr x \<Rightarrow> Q x"
  shows "recovers_only Q (try_except m h)"
proof (rule recovers_onlyI)
  fix w r w2
  assume run: "try_except m h w = (r, w2)"
  obtain r1 w1 where mw: "m w = (r1, w1)" by (cases "m w")
  from recovers_only_run [OF m mw]
  obtain cs1 where r1: "respond w1 = respond w" and t1: "trace w1 = trace w @ cs1"
    and c1: "failed (respond w) (trace w) cs1 \<longrightarrow> (case r1 of Inl e \<Rightarrow> True | Inr x \<Rightarrow> Q x)"
    by blast
  show "respond w2 = respond w \<and>
     (\<exists>cs. trace w2 = trace w @ cs \<and>
        (failed (respond w) (trace w) cs \<longrightarrow> (case r of Inl e \<Rightarrow> True | Inr x \<Rightarrow> Q x)))"
  proof (cases r1)
    case (Inr x)
    with run mw have "r = Inr x" "w2 = w1" by (simp_all add: try_except_def)
    with r1 t1 c1 Inr show ?thesis by auto
  next
    case (Inl e)
    with run mw have he: "h e w1 = (r, w2)" by (simp add: try_except_def)
    from recovers_only_run [OF h he]
    obtain cs2 where r2: "respond w2 = respond w1" and t2: "trace w2 = trace w1 @ cs2"
      by blast
    from out [of e w1] he have "case r of Inl e' \<Rightarrow> True | Inr x \<Rightarrow> Q x" by simp
    with r1 r2 t1 t2 show ?thesis
      by (intro conjI exI [of _ "cs1 @ cs2"]) simp_all
  qed
qed



text \<open>The wrapper: its clauses raise, so it adds no recovery to the body's.\<close>

lemma handler_out:
  "case fst (handler f self args e w) of Inl e' \<Rightarrow> True | Inr x \<Rightarrow> Q x"
  by (cases e; cases "obj self")
     (simp_all add: handler_def monad_defs split: sum.splits prod.splits)

lemma recovers_only_handler: "recovers_only P (handler f self args e)"
  by (cases e) (simp_all add: handler_def propagates_bind propagates_def)

lemma recovers_only_runnable:
  assumes "recovers_only Q m"
  shows "recovers_only Q (runnable ab f self args m)"
proof (cases "allowed ab (clsname self)")
  case True
  have "recovers_only Q (try_except m (handler f self args))"
    using assms
  proof (rule recovers_only_try)
    show "recovers_only Q (handler f self args e)" for e
      by (rule recovers_only_handler)
    show "case fst (handler f self args e w) of Inl e' \<Rightarrow> True | Inr x \<Rightarrow> Q x" for e w
      by (rule handler_out)
  qed
  with True show ?thesis by (simp add: runnable_def)
next
  case False
  then show ?thesis by (simp add: runnable_def propagates_bind propagates_def)
qed




subsection \<open>The operations that only forward\<close>




lemma propagates_ID: "propagates (ID self)"
  by (simp add: ID_def propagates_def recovers_only_runnable)


lemma propagates_GetAbatObjectLite: "propagates (GetAbatObjectLite self args)"
  by (simp add: GetAbatObjectLite_def propagates_def recovers_only_runnable)


subsection \<open>The operations with a body of their own\<close>









subsection \<open>Type resolution: the probe of the errata heuristic\<close>





subsection \<open>Creating containers, moving and copying\<close>









subsection \<open>Properties, and the lookup on a plan\<close>

lemma Plan_getattr_item: "Plan_getattr lib d r ''item'' w = (Inl RecursionError, w)"
  by (induction d) (simp_all add: raiseM_def)

lemma Plan_getattr_other:
  "item \<noteq> ''NextScheduledExecutionDateTime'' \<Longrightarrow>
   Plan_getattr lib d r item w = (Inl RecursionError, w)"
  by (cases d) (simp_all add: raiseM_def Plan_getattr_item)




subsection \<open>The wrapper and the two recoveries\<close>











text \<open>
  On a plan the \<open>AttributeError\<close> of a property, whether the remote handle or the gate
  of the wrapper raised it, leads to \<open>__getattr__\<close>, which for every name but
  \<open>NextScheduledExecutionDateTime\<close> ends in \<open>RecursionError\<close>; on any other proxy the
  \<open>AttributeError\<close> comes out.
\<close>

lemma plan_property_AttributeError:
  assumes "getter w = (Inl (AttributeError m), w')"
    and "nm \<noteq> ''NextScheduledExecutionDateTime''"
  shows "property_read (hook_of (Plan_getattr lib d) r self) nm getter w
     = (if clsname self = ''Plan'' then (Inl RecursionError, w')
        else (Inl (AttributeError m), w'))"
  using assms
  by (simp add: property_read_def hook_of_def try_except_def Plan_getattr_other)

lemma plan_property_example:
  "fst (read_property example_lib 7 (ProxyRef 1) ''ID''
          (broken_world (com_error ''refused'') (AttributeError ''ID'')
             [scheduler_proxy 10, proxy_of ''Plan''])) = Inl RecursionError \<and>
   fst (read_property example_lib 7 (ProxyRef 1) ''ID''
          (broken_world (com_error ''refused'') (AttributeError ''ID'')
             [scheduler_proxy 10, proxy_of ''PlanLite''])) = Inl (AttributeError ''ID'') \<and>
   fst (read_property example_lib 7 (ProxyRef 1) ''QueueObjectID''
          (errata_world True True [scheduler_proxy 10, proxy_of ''Plan''])) = Inl RecursionError"
  by (simp add: read_property_def property_getter_def AllAttributes_table_def
      property_read_def hook_of_def generic_op_def bind_args_def signature_table_def
      fill_defaults_def generic_body_def runnable_allowed runnable_refused allowed_Single
      allowed_Multi handler_def monad_defs deref_def broken_world_def proxy_of_def
      Plan_getattr_other errata_world_def)

section \<open>Type resolution\<close>

lemma ObjectType_3: "ObjectType (IntArg 3) = Inr \<lparr>name = ''abatOT_Plan'', code = 3\<rparr>"
  by (simp add: ObjectType_def ObjectType_mapping_def BaseEnumeration_def str_mapping_def)

lemma ObjectType_14: "ObjectType (IntArg 14) = Inr \<lparr>name = ''abatOT_Folder'', code = 14\<rparr>"
  by (simp add: ObjectType_def ObjectType_mapping_def BaseEnumeration_def str_mapping_def)

lemma allowed_GetAbatObject_JobScheduler:
  "allowed (Multi [''AlertObjectLite'', ''Calendar'', ''Folder'', ''JobScheduler'', ''Plan'',
               ''PlanLite'', ''QueueLite'', ''ReferenceLite'', ''ResourceLite'',
               ''ScheduleLite'', ''UserAccountLite'', ''FolderLite'', ''JobLite'',
               ''ObjectListLite'', ''ServiceLibraryLite'']) ''JobScheduler''"
  by (simp add: allowed_Multi)

lemmas resolve_defs = GetObjectType_def GetObjectType_body_def GetAbatObject_def
  probe_plan_def probe_folder_def answers_def

text \<open>
  Claim C2. On a scheduler proxy whose remote handle reports the raw type code 3 for the
  key: with a service version of at most 9, when the full object is fetched and its
  \<open>FullPath\<close> and \<open>ID\<close> are read for the warning, the result is 3 (\<open>abatOT_Plan\<close>) if
  \<open>DisableTemplateOnError\<close> can be read; 14 (\<open>abatOT_Folder\<close>) if reading it raises
  \<open>AttributeError\<close> and \<open>ReplacePermissionsOnChildObjects\<close> can be read; and if both
  reads raise \<open>AttributeError\<close>, the fatal error is logged and the \<open>AttributeError\<close> of
  the second read is raised, where the scheduler's name can be read for the message of
  the wrapper: the log then holds the errata warning, the fatal error with the exception,
  and the wrapper's two records. With a service version of 10 or more the result is 3
  and the remote service is asked for the type code only: no object is fetched and no
  attribute is read.
\<close>

theorem GetObjectType_resolution:
  assumes js: "clsname self = ''JobScheduler''" and h: "obj self = ComObj h"
    and t3: "answers w (Invoke (ComObj h) ''GetObjectType'' [key]) (Inr (PyInt 3))"
  shows
    "(\<forall>v ob fp i.
        version self = Some v \<and> v \<le> 9 \<and>
        answers w (Invoke (ComObj h) ''GetAbatObject'' [key]) (Inr (ComObj ob)) \<and>
        answers w (GetAttr (ComObj ob) ''FullPath'') (Inr fp) \<and>
        answers w (GetAttr (ComObj ob) ''ID'') (Inr i) \<longrightarrow>
        (\<forall>x. answers w (GetAttr (ComObj ob) ''DisableTemplateOnError'') (Inr x)
           \<longrightarrow> fst (GetObjectType self key w) = Inr (PyInt 3)) \<and>
        (\<forall>m x. answers w (GetAttr (ComObj ob) ''DisableTemplateOnError'')
                  (Inl (AttributeError m)) \<and>
               answers w (GetAttr (ComObj ob) ''ReplacePermissionsOnChildObjects'') (Inr x)
           \<longrightarrow> fst (GetObjectType self key w) = Inr (PyInt 14)) \<and>
        (\<forall>m m' n. answers w (GetAttr (ComObj ob) ''DisableTemplateOnError'')
                   (Inl (AttributeError m)) \<and>
                answers w (GetAttr (ComObj ob) ''ReplacePermissionsOnChildObjects'')
                   (Inl (AttributeError m')) \<and>
                answers w (GetAttr (ComObj h) ''Name'') (Inr n)
           \<longrightarrow> fst (GetObjectType self key w) = Inl (AttributeError m') \<and>
               logged (snd (GetObjectType self key w))
                 = logged w @
                   [errata_warning self fp i,
                    Log ERROR [Txt ''FATAL ERROR occured inside the version checking section of the runnable decorator''],
                    LogException (AttributeError m')] @
                   handler_log ''GetObjectType'' self [key] n (AttributeError m'))) \<and>
     (\<forall>v. version self = Some v \<and> 10 \<le> v \<longrightarrow>
        fst (GetObjectType self key w) = Inr (PyInt 3) \<and>
        trace (snd (GetObjectType self key w))
          = trace w @ [Invoke (ComObj h) ''GetObjectType'' [key],
                       Invoke (ComObj h) ''GetObjectType'' [key]]) \<and>
     ObjectType (IntArg 3) = Inr \<lparr>name = ''abatOT_Plan'', code = 3\<rparr> \<and>
     ObjectType (IntArg 14) = Inr \<lparr>name = ''abatOT_Folder'', code = 14\<rparr>"
  using js h t3
  by (auto simp add: resolve_defs runnable_allowed allowed_GetAbatObject_JobScheduler
      handler_def handler_log_def monad_defs ObjectType_3 ObjectType_14)

lemmas errata_defs = errata_world_def errata_object_def answers_def scheduler_proxy_def

theorem GetObjectType_resolution_witness:
  "fst (GetObjectType (scheduler_proxy 9) (PyStr ''/x'') (errata_world True True []))
     = Inr (PyInt 3) \<and>
   fst (GetObjectType (scheduler_proxy 9) (PyStr ''/x'') (errata_world False True []))
     = Inr (PyInt 14) \<and>
   fst (GetObjectType (scheduler_proxy 9) (PyStr ''/x'') (errata_world False False []))
     = Inl (AttributeError ''ReplacePermissionsOnChildObjects'') \<and>
   logged (snd (GetObjectType (scheduler_proxy 9) (PyStr ''/x'') (errata_world False False [])))
     = [errata_warning (scheduler_proxy 9) (PyStr ''/x'') (PyInt 2),
        Log ERROR [Txt ''FATAL ERROR occured inside the version checking section of the runnable decorator''],
        LogException (AttributeError ''ReplacePermissionsOnChildObjects''),
        Log WARNING [Txt ''AttributeError was raised when calling '', Txt ''GetObjectType'',
                     Txt '' using the args '', Val PyNone, Txt ''JobScheduler'',
                     Args [PyStr ''/x'']],
        LogException (AttributeError ''ReplacePermissionsOnChildObjects'')] \<and>
   fst (GetObjectType (scheduler_proxy 10) (PyStr ''/x'') (errata_world False False []))
     = Inr (PyInt 3) \<and>
   trace (snd (GetObjectType (scheduler_proxy 10) (PyStr ''/x'') (errata_world False False [])))
     = [Invoke (ComObj 0) ''GetObjectType'' [PyStr ''/x''],
        Invoke (ComObj 0) ''GetObjectType'' [PyStr ''/x'']]"
proof -
  have pre: "clsname (scheduler_proxy v) = ''JobScheduler''" "obj (scheduler_proxy v) = ComObj 0"
    "answers (errata_world p f []) (Invoke (ComObj 0) ''GetObjectType'' [PyStr ''/x''])
       (Inr (PyInt 3))" for v p f
    by (simp_all add: errata_defs)
  note r = GetObjectType_resolution [OF pre]
  have 1: "fst (GetObjectType (scheduler_proxy 9) (PyStr ''/x'') (errata_world True True []))
     = Inr (PyInt 3)"
    using r [of 9 True True, THEN conjunct1, rule_format, of 9 1001 "PyStr ''/x''" "PyInt 2",
        THEN conjunct1, rule_format, of "PyBool False"]
    by (simp add: errata_defs)
  have 2: "fst (GetObjectType (scheduler_proxy 9) (PyStr ''/x'') (errata_world False True []))
     = Inr (PyInt 14)"
    using r [of 9 False True, THEN conjunct1, rule_format, of 9 1001 "PyStr ''/x''" "PyInt 2",
        THEN conjunct2, THEN conjunct1, rule_format,
        of "''DisableTemplateOnError''" "PyBool False"]
    by (simp add: errata_defs)
  have 3: "fst (GetObjectType (scheduler_proxy 9) (PyStr ''/x'') (errata_world False False []))
     = Inl (AttributeError ''ReplacePermissionsOnChildObjects'') \<and>
   logged (snd (GetObjectType (scheduler_proxy 9) (PyStr ''/x'') (errata_world False False [])))
     = [errata_warning (scheduler_proxy 9) (PyStr ''/x'') (PyInt 2),
        Log ERROR [Txt ''FATAL ERROR occured inside the version checking section of the runnable decorator''],
        LogException (AttributeError ''ReplacePermissionsOnChildObjects''),
        Log WARNING [Txt ''AttributeError was raised when calling '', Txt ''GetObjectType'',
                     Txt '' using the args '', Val PyNone, Txt ''JobScheduler'',
                     Args [PyStr ''/x'']],
        LogException (AttributeError ''ReplacePermissionsOnChildObjects'')]"
    using r [of 9 False False, THEN conjunct1, rule_format, of 9 1001 "PyStr ''/x''" "PyInt 2",
        THEN conjunct2, THEN conjunct2, rule_format,
        of "''DisableTemplateOnError''" "''ReplacePermissionsOnChildObjects''" PyNone]
    by (simp add: errata_defs handler_log_def)
  have 4: "fst (GetObjectType (scheduler_proxy 10) (PyStr ''/x'') (errata_world False False []))
     = Inr (PyInt 3) \<and>
   trace (snd (GetObjectType (scheduler_proxy 10) (PyStr ''/x'') (errata_world False False [])))
     = [Invoke (ComObj 0) ''GetObjectType'' [PyStr ''/x''],
        Invoke (ComObj 0) ''GetObjectType'' [PyStr ''/x'']]"
    using r [of 10 False False, THEN conjunct2, THEN conjunct1, rule_format, of 10]
    by (simp add: errata_defs)
  show ?thesis using 1 2 3 4 by simp
qed

section \<open>Creating the missing containers of a path\<close>

lemmas example_defs = example_world_def example_remote_def example_step_def scheduler_call_def
  object_attr_def find_key_def child_path_def not_found_def tree_def raw_code_def
  scheduler_proxy_def

lemmas path_defs = create_intermediate_folders_def which_exists_def create_folder_def
  ObjectExists_def CreateObject_def AddObject_def py_int_def py_strip_def is_space_def
  is_digit_def digit_val_def truthy_def

text \<open>
  The items of the path \<open>/a/b/c\<close>, whatever the remote service answers: the first item
  carries the label \<open>a\<close> with the key \<open>/\<close> and an empty parent, and the key \<open>/a\<close> is never
  probed.
\<close>

lemma which_exists_abc:
  assumes "clsname self = ''JobScheduler''" "obj self = ComObj h"
    and "respond w (trace w) (Invoke (ComObj h) ''ObjectExists'' [PyStr ''/'']) = Inr r1"
    and "respond w (trace w @ [Invoke (ComObj h) ''ObjectExists'' [PyStr ''/'']])
           (Invoke (ComObj h) ''ObjectExists'' [PyStr ''/a/b'']) = Inr r2"
    and "respond w (trace w @ [Invoke (ComObj h) ''ObjectExists'' [PyStr ''/''],
                               Invoke (ComObj h) ''ObjectExists'' [PyStr ''/a/b'']])
           (Invoke (ComObj h) ''ObjectExists'' [PyStr ''/a/b/c'']) = Inr r3"
  shows "fst (which_exists self (PyStr ''/a/b/c'') w)
     = Inr (ByPath
         [\<lparr>pi_key = ''/'', pi_parent = [], pi_exists = truthy r1, pi_label = ''a''\<rparr>,
          \<lparr>pi_key = ''/a/b'', pi_parent = ''/a'', pi_exists = truthy r2, pi_label = ''b''\<rparr>,
          \<lparr>pi_key = ''/a/b/c'', pi_parent = ''/a/b'', pi_exists = truthy r3,
            pi_label = ''c''\<rparr>])"
  using assms
  by (simp add: which_exists_def ObjectExists_def py_int_def py_strip_def is_space_def
      is_digit_def digit_val_def runnable_allowed monad_defs Let_def)

text \<open>
  The parts of claim C3 that hold: when \<open>/a\<close> and \<open>/a/b\<close> exist, one container \<open>c\<close> is
  created and attached under \<open>/a/b\<close>; when the whole path exists, nothing is created.
\<close>

lemma ensurePath_one_missing:
  "trace (snd (create_intermediate_folders (scheduler_proxy 10) (PyStr ''/a/b/c'')
            (example_world (tree [(''/'', FolderK), (''/a'', FolderK), (''/a/b'', FolderK)]
               False True) [])))
     = [Invoke (ComObj 0) ''ObjectExists'' [PyStr ''/''],
        Invoke (ComObj 0) ''ObjectExists'' [PyStr ''/a/b''],
        Invoke (ComObj 0) ''ObjectExists'' [PyStr ''/a/b/c''],
        Invoke (ComObj 0) ''CreateObject'' [PyStr ''Folder''],
        SetAttr (ComObj 2000) ''Label'' (PyStr ''c''),
        SetAttr (ComObj 2000) ''Name'' (PyStr ''c''),
        Invoke (ComObj 0) ''AddObject'' [PyStr ''/a/b'', ComObj 2000]] \<and>
   fst (create_intermediate_folders (scheduler_proxy 10) (PyStr ''/a/b/c'')
            (example_world (tree [(''/'', FolderK), (''/a'', FolderK), (''/a/b'', FolderK)]
               False True) []))
     = Inr ()"
  by (simp add: path_defs example_defs runnable_allowed allowed_Multi handler_def monad_defs
      Let_def)

lemma ensurePath_nothing_missing:
  "trace (snd (create_intermediate_folders (scheduler_proxy 10) (PyStr ''/a/b/c'')
            (example_world (tree [(''/'', FolderK), (''/a'', FolderK), (''/a/b'', FolderK),
               (''/a/b/c'', FolderK)] False True) [])))
     = [Invoke (ComObj 0) ''ObjectExists'' [PyStr ''/''],
        Invoke (ComObj 0) ''ObjectExists'' [PyStr ''/a/b''],
        Invoke (ComObj 0) ''ObjectExists'' [PyStr ''/a/b/c'']] \<and>
   fst (create_intermediate_folders (scheduler_proxy 10) (PyStr ''/a/b/c'')
            (example_world (tree [(''/'', FolderK), (''/a'', FolderK), (''/a/b'', FolderK),
               (''/a/b/c'', FolderK)] False True) []))
     = Inr ()"
  by (simp add: path_defs example_defs runnable_allowed allowed_Multi handler_def monad_defs
      Let_def)

text \<open>
  Claim C3. The claim: for the destination \<open>/a/b/c\<close> on a tree where none of \<open>/a\<close>,
  \<open>/a/b\<close>, \<open>/a/b/c\<close> exists, three containers are created, \<open>a\<close>, then \<open>a/b\<close>, then
  \<open>a/b/c\<close>, each after its parent. On a tree with the root only the code probes \<open>/\<close>,
  \<open>/a/b\<close> and \<open>/a/b/c\<close>, creates no container \<open>a\<close>, and attaches the container \<open>b\<close>
  under \<open>/a\<close>, which does not exist. A service that refuses this ends the operation with
  its error after one creation (the wrapper of \<open>AddObject\<close> reads the scheduler's name
  for its log record and raises the error again); a service that accepts it gets two
  containers, \<open>b\<close> and \<open>c\<close>.
\<close>

theorem ensurePath_skips_first_level:
  "trace (snd (create_intermediate_folders (scheduler_proxy 10) (PyStr ''/a/b/c'')
            (example_world (tree [(''/'', FolderK)] False True) [])))
     = [Invoke (ComObj 0) ''ObjectExists'' [PyStr ''/''],
        Invoke (ComObj 0) ''ObjectExists'' [PyStr ''/a/b''],
        Invoke (ComObj 0) ''ObjectExists'' [PyStr ''/a/b/c''],
        Invoke (ComObj 0) ''CreateObject'' [PyStr ''Folder''],
        SetAttr (ComObj 2000) ''Label'' (PyStr ''b''),
        SetAttr (ComObj 2000) ''Name'' (PyStr ''b''),
        Invoke (ComObj 0) ''AddObject'' [PyStr ''/a'', ComObj 2000],
        GetAttr (ComObj 0) ''Name''] \<and>
   fst (create_intermediate_folders (scheduler_proxy 10) (PyStr ''/a/b/c'')
            (example_world (tree [(''/'', FolderK)] False True) []))
     = Inl (com_error ''The object was not found'') \<and>
   trace (snd (create_intermediate_folders (scheduler_proxy 10) (PyStr ''/a/b/c'')
            (example_world (tree [(''/'', FolderK)] False False) [])))
     = [Invoke (ComObj 0) ''ObjectExists'' [PyStr ''/''],
        Invoke (ComObj 0) ''ObjectExists'' [PyStr ''/a/b''],
        Invoke (ComObj 0) ''ObjectExists'' [PyStr ''/a/b/c''],
        Invoke (ComObj 0) ''CreateObject'' [PyStr ''Folder''],
        SetAttr (ComObj 2000) ''Label'' (PyStr ''b''),
        SetAttr (ComObj 2000) ''Name'' (PyStr ''b''),
        Invoke (ComObj 0) ''AddObject'' [PyStr ''/a'', ComObj 2000],
        Invoke (ComObj 0) ''CreateObject'' [PyStr ''Folder''],
        SetAttr (ComObj 2001) ''Label'' (PyStr ''c''),
        SetAttr (ComObj 2001) ''Name'' (PyStr ''c''),
        Invoke (ComObj 0) ''AddObject'' [PyStr ''/a/b'', ComObj 2001]]"
  by (simp add: path_defs example_defs runnable_allowed allowed_Multi handler_def monad_defs
      Let_def)

text \<open>
  Claim C8. The claim: for a destination key that is a plain numeric identifier the step
  warns, creates nothing and completes normally. The code warns and probes the
  identifier, creates nothing, and then raises \<open>TypeError\<close>: \<open>which_exists\<close> returns a
  dictionary keyed by the identifier, and the loop subscripts that key as if it were an
  item of the path.
\<close>

theorem numeric_destination_raises:
  assumes "py_int s = Some k" and "clsname self = ''JobScheduler''" and "obj self = ComObj h"
    and "respond w (trace w) (Invoke (ComObj h) ''ObjectExists'' [PyInt k]) = Inr v"
  shows "create_intermediate_folders self (PyStr s) w
     = (Inl (TypeError ''int object is not subscriptable''),
        w\<lparr>trace := trace w @ [Invoke (ComObj h) ''ObjectExists'' [PyInt k]],
          logged := logged w @
            [Log WARNING [Txt ''The provided DestinationKey '', Val (PyStr s),
               Txt '' is not compatible with create_if_not_exists option.'']]\<rparr>)"
  using assms
  by (simp add: create_intermediate_folders_def which_exists_def ObjectExists_def
      runnable_allowed monad_defs)

theorem numeric_destination_raises_witness:
  "py_int ''3'' = Some 3 \<and>
   fst (create_intermediate_folders (scheduler_proxy 10) (PyStr ''3'')
      (example_world (tree [(''/'', FolderK), (''/a'', FolderK), (''/a/b'', FolderK)]
               False True) []))
     = Inl (TypeError ''int object is not subscriptable'')"
proof -
  let ?w = "example_world (tree [(''/'', FolderK), (''/a'', FolderK), (''/a/b'', FolderK)]
               False True) []"
  have a: "py_int ''3'' = Some 3"
    by (simp add: py_int_def py_strip_def is_space_def is_digit_def digit_val_def)
  have b: "clsname (scheduler_proxy 10) = ''JobScheduler''"
    "obj (scheduler_proxy 10) = ComObj 0"
    by (simp_all add: scheduler_proxy_def)
  have c: "respond ?w (trace ?w) (Invoke (ComObj 0) ''ObjectExists'' [PyInt 3])
     = Inr (PyBool True)"
    by (simp add: example_defs)
  show ?thesis
    using numeric_destination_raises [OF a b c] a by simp
qed

section \<open>Moving an object\<close>

lemma ObjectType_container_codes:
  "ObjectType (IntArg c) = Inr ot \<Longrightarrow>
   (name ot \<in> set [''abatOT_Folder'', ''abatOT_Plan'']) = (c = 3 \<or> c = 14)"
  by (auto simp add: ObjectType_def ObjectType_mapping_def BaseEnumeration_def str_mapping_def
      split: if_splits)

lemma not_a_folder_plain: "\<not> reads_name (not_a_folder dst)"
  by (simp add: not_a_folder_def reads_name_def)

lemma not_a_folder_example:
  "not_a_folder (PyStr ''/j2'')
     = ValueError (''The destination key '' @ [CHR 0x27] @ ''/j2'' @ [CHR 0x27]
                     @ '' is not a folder'' @ [CHR 0x27])"
  by (simp add: not_a_folder_def format_key_def)

text \<open>The validation, once the step that creates containers is over.\<close>

lemma destination_is_folder_run:
  assumes "obj self = ComObj h"
    and "respond w (trace w) (Invoke (ComObj h) ''GetObjectType'' [dst]) = Inr (PyInt c)"
    and "ObjectType (IntArg c) = Inr ot"
  shows "destination_is_folder self dst w
      = (Inr (name ot \<in> set [''abatOT_Folder'', ''abatOT_Plan'']),
         w\<lparr>trace := trace w @ [Invoke (ComObj h) ''GetObjectType'' [dst]]\<rparr>)"
  using assms
  by (simp add: destination_is_folder_def monad_defs enum_arg_of_def bindE_def)

text \<open>
  Claim C7, as stated: \<open>moveTo\<close> fails with a validation error, without performing the
  move, whenever the destination key resolves to a variant that is not a container, and
  performs the remote move without error whenever it resolves to a container. With
  \<open>create_if_not_exists\<close> the code first asserts that the destination key is a string.
  In the tree below the key 2 is the identifier of the folder \<open>/a\<close> and the key 4 that of
  the job \<open>/j2\<close>: for both \<open>MoveObjectTo\<close> raises \<open>AssertionError\<close> before any remote
  interaction, so the folder gets nothing moved into it and the job is not reported as
  \<open>not a folder\<close>.
\<close>

theorem MoveObjectTo_identifier_with_create_asserts:
  "respond (example_world (tree [(''/'', FolderK), (''/a'', FolderK), (''/j'', JobK),
             (''/j2'', JobK)] False True) []) []
      (Invoke (ComObj 0) ''GetObjectType'' [PyInt 2]) = Inr (PyInt 14) \<and>
   respond (example_world (tree [(''/'', FolderK), (''/a'', FolderK), (''/j'', JobK),
             (''/j2'', JobK)] False True) []) []
      (Invoke (ComObj 0) ''GetObjectType'' [PyInt 4]) = Inr (PyInt 2) \<and>
   MoveObjectTo (scheduler_proxy 10) (PyStr ''/j'') (PyInt 2) True
          (example_world (tree [(''/'', FolderK), (''/a'', FolderK), (''/j'', JobK),
             (''/j2'', JobK)] False True) [])
     = (Inl AssertionError,
        (example_world (tree [(''/'', FolderK), (''/a'', FolderK), (''/j'', JobK),
             (''/j2'', JobK)] False True) [])\<lparr>logged := [LogException AssertionError]\<rparr>) \<and>
   MoveObjectTo (scheduler_proxy 10) (PyStr ''/j'') (PyInt 4) True
          (example_world (tree [(''/'', FolderK), (''/a'', FolderK), (''/j'', JobK),
             (''/j2'', JobK)] False True) [])
     = (Inl AssertionError,
        (example_world (tree [(''/'', FolderK), (''/a'', FolderK), (''/j'', JobK),
             (''/j2'', JobK)] False True) [])\<lparr>logged := [LogException AssertionError]\<rparr>)"
  by (simp add: MoveObjectTo_def create_intermediate_folders_def which_exists_def
      runnable_allowed allowed_Multi handler_def monad_defs example_defs)

text \<open>
  Claim C7, amended. On a scheduler proxy: when \<open>create_if_not_exists\<close> is off, or the
  step that creates the missing containers has returned, and the remote service reports
  for the destination a type code of the table, then, if its name is neither
  \<open>abatOT_Folder\<close> nor \<open>abatOT_Plan\<close>, \<open>MoveObjectTo\<close> raises the \<open>ValueError\<close>
  \<open>not_a_folder\<close>, which the wrapper logs, and the only remote interaction is the type
  query, so nothing is moved; if it is one of the two, the remote \<open>MoveObject\<close> is called
  with the source and the destination (followed by the wrapper's read of the name if that
  call fails), and when that call returns the operation returns without an error. When
  the step that creates containers raises, \<open>MoveObjectTo\<close> raises, and after the step
  the only remote interaction is the wrapper's read of the name, if any. With
  \<open>create_if_not_exists\<close> on and a destination key that is not a string, the step
  raises \<open>AssertionError\<close> before any remote interaction.
\<close>

theorem MoveObjectTo_validation:
  assumes js: "clsname self = ''JobScheduler''" and h: "obj self = ComObj h"
  shows
    "(\<forall>w1 c ot.
        (if create then create_intermediate_folders self dst else returnM ()) w
          = (Inr (), w1) \<and>
        respond w1 (trace w1) (Invoke (ComObj h) ''GetObjectType'' [dst]) = Inr (PyInt c) \<and>
        ObjectType (IntArg c) = Inr ot \<longrightarrow>
        (name ot \<notin> set [''abatOT_Folder'', ''abatOT_Plan''] \<longrightarrow>
           MoveObjectTo self src dst create w
             = (Inl (not_a_folder dst),
                w1\<lparr>trace := trace w1 @ [Invoke (ComObj h) ''GetObjectType'' [dst]],
                    logged := logged w1 @
                      [Log DEBUG [Txt ''Moving '', Val src, Txt '' to '', Val dst],
                       LogException (not_a_folder dst)]\<rparr>)) \<and>
        (name ot \<in> set [''abatOT_Folder'', ''abatOT_Plan''] \<longrightarrow>
           trace (snd (MoveObjectTo self src dst create w))
             = trace w1 @ [Invoke (ComObj h) ''GetObjectType'' [dst],
                           Invoke (ComObj h) ''MoveObject'' [src, dst]] @
               (case respond w1 (trace w1 @ [Invoke (ComObj h) ''GetObjectType'' [dst]])
                       (Invoke (ComObj h) ''MoveObject'' [src, dst]) of
                  Inl e \<Rightarrow> handler_trace self e
                | Inr v \<Rightarrow> []) \<and>
           (\<forall>v. respond w1 (trace w1 @ [Invoke (ComObj h) ''GetObjectType'' [dst]])
                   (Invoke (ComObj h) ''MoveObject'' [src, dst]) = Inr v \<longrightarrow>
                MoveObjectTo self src dst create w
                  = (Inr PyNone,
                     w1\<lparr>trace := trace w1 @ [Invoke (ComObj h) ''GetObjectType'' [dst],
                                               Invoke (ComObj h) ''MoveObject'' [src, dst]],
                         logged := logged w1 @
                           [Log DEBUG [Txt ''Moving '', Val src, Txt '' to '', Val dst]]\<rparr>)))) \<and>
     (\<forall>w1 e.
        (if create then create_intermediate_folders self dst else returnM ()) w
          = (Inl e, w1) \<longrightarrow>
        isl (fst (MoveObjectTo self src dst create w)) \<and>
        trace (snd (MoveObjectTo self src dst create w)) = trace w1 @ handler_trace self e) \<and>
     (create \<and> (\<forall>s. dst \<noteq> PyStr s) \<longrightarrow>
        MoveObjectTo self src dst create w
          = (Inl AssertionError, w\<lparr>logged := logged w @ [LogException AssertionError]\<rparr>))"
proof -
  have gate: "allowed (Multi [''JobScheduler'']) (clsname self)"
    using js by simp
  let ?step = "if create then create_intermediate_folders self dst else returnM ()"
  let ?got = "Invoke (ComObj h) ''GetObjectType'' [dst]"
  let ?mv = "Invoke (ComObj h) ''MoveObject'' [src, dst]"
  let ?dbg = "Log DEBUG [Txt ''Moving '', Val src, Txt '' to '', Val dst]"
  have A: "MoveObjectTo self src dst create w
             = (Inl (not_a_folder dst),
                w1\<lparr>trace := trace w1 @ [?got],
                    logged := logged w1 @ [?dbg, LogException (not_a_folder dst)]\<rparr>)"
    if pre: "?step w = (Inr (), w1)"
      and ty: "respond w1 (trace w1) ?got = Inr (PyInt c)"
      and tab: "ObjectType (IntArg c) = Inr ot"
      and nf: "name ot \<notin> set [''abatOT_Folder'', ''abatOT_Plan'']" for w1 c ot
  proof -
    have "destination_is_folder self dst (w1\<lparr>logged := logged w1 @ [?dbg]\<rparr>)
        = (Inr False, w1\<lparr>logged := logged w1 @ [?dbg], trace := trace w1 @ [?got]\<rparr>)"
      using destination_is_folder_run [OF h, of "w1\<lparr>logged := logged w1 @ [?dbg]\<rparr>" dst c ot]
        ty tab nf by simp
    then show ?thesis
      using pre
      by (simp add: MoveObjectTo_def runnable_allowed [OF gate] bindM_def logging_def
          raiseM_def handler_plain [OF not_a_folder_plain])
  qed
  have B: "trace (snd (MoveObjectTo self src dst create w))
             = trace w1 @ [?got, ?mv] @
               (case respond w1 (trace w1 @ [?got]) ?mv of
                  Inl e \<Rightarrow> handler_trace self e | Inr v \<Rightarrow> []) \<and>
           (\<forall>v. respond w1 (trace w1 @ [?got]) ?mv = Inr v \<longrightarrow>
                MoveObjectTo self src dst create w
                  = (Inr PyNone,
                     w1\<lparr>trace := trace w1 @ [?got, ?mv], logged := logged w1 @ [?dbg]\<rparr>))"
    if pre: "?step w = (Inr (), w1)"
      and ty: "respond w1 (trace w1) ?got = Inr (PyInt c)"
      and tab: "ObjectType (IntArg c) = Inr ot"
      and f: "name ot \<in> set [''abatOT_Folder'', ''abatOT_Plan'']" for w1 c ot
  proof -
    have "destination_is_folder self dst (w1\<lparr>logged := logged w1 @ [?dbg]\<rparr>)
        = (Inr True, w1\<lparr>logged := logged w1 @ [?dbg], trace := trace w1 @ [?got]\<rparr>)"
      using destination_is_folder_run [OF h, of "w1\<lparr>logged := logged w1 @ [?dbg]\<rparr>" dst c ot]
        ty tab f by simp
    then show ?thesis
      using pre
      by (cases "respond w1 (trace w1 @ [?got]) ?mv")
         (simp_all add: MoveObjectTo_def runnable_allowed [OF gate] bindM_def logging_def
            returnM_def h invoke_def com_def handler_trace_run [OF h])
  qed
  have C: "isl (fst (MoveObjectTo self src dst create w)) \<and>
        trace (snd (MoveObjectTo self src dst create w)) = trace w1 @ handler_trace self e"
    if "?step w = (Inl e, w1)" for w1 e
    using that
    by (simp add: MoveObjectTo_def runnable_allowed [OF gate] bindM_def handler_raises
        handler_trace_run [OF h])
  have D: "MoveObjectTo self src dst create w
          = (Inl AssertionError, w\<lparr>logged := logged w @ [LogException AssertionError]\<rparr>)"
    if "create" and "\<forall>s. dst \<noteq> PyStr s"
    using that
    by (cases dst)
       (simp_all add: MoveObjectTo_def runnable_allowed [OF gate] bindM_def
          create_intermediate_folders_def which_exists_def raiseM_def handler_plain
          reads_name_def)
  show ?thesis
    using A B C D by blast
qed

theorem MoveObjectTo_validation_witness:
  "MoveObjectTo (scheduler_proxy 10) (PyStr ''/j'') (PyStr ''/j2'') False
          (example_world (tree [(''/'', FolderK), (''/a'', FolderK), (''/j'', JobK),
             (''/j2'', JobK)] False True) [])
     = (Inl (ValueError (''The destination key '' @ [CHR 0x27] @ ''/j2'' @ [CHR 0x27]
                           @ '' is not a folder'' @ [CHR 0x27])),
        (example_world (tree [(''/'', FolderK), (''/a'', FolderK), (''/j'', JobK),
             (''/j2'', JobK)] False True) [])
          \<lparr>trace := [Invoke (ComObj 0) ''GetObjectType'' [PyStr ''/j2'']],
            logged := [Log DEBUG [Txt ''Moving '', Val (PyStr ''/j''), Txt '' to '',
                                  Val (PyStr ''/j2'')],
                       LogException (not_a_folder (PyStr ''/j2''))]\<rparr>) \<and>
   MoveObjectTo (scheduler_proxy 10) (PyStr ''/j'') (PyStr ''/a'') False
          (example_world (tree [(''/'', FolderK), (''/a'', FolderK), (''/j'', JobK),
             (''/j2'', JobK)] False True) [])
     = (Inr PyNone,
        (example_world (tree [(''/'', FolderK), (''/a'', FolderK), (''/j'', JobK),
             (''/j2'', JobK)] False True) [])
          \<lparr>trace := [Invoke (ComObj 0) ''GetObjectType'' [PyStr ''/a''],
                     Invoke (ComObj 0) ''MoveObject'' [PyStr ''/j'', PyStr ''/a'']],
            logged := [Log DEBUG [Txt ''Moving '', Val (PyStr ''/j''), Txt '' to '',
                                  Val (PyStr ''/a'')]]\<rparr>) \<and>
   MoveObjectTo (scheduler_proxy 10) (PyStr ''/j'') (PyStr ''/a'') True
          (example_world (tree [(''/'', FolderK), (''/a'', FolderK), (''/j'', JobK),
             (''/j2'', JobK)] False True) [])
     = (Inr PyNone,
        (example_world (tree [(''/'', FolderK), (''/a'', FolderK), (''/j'', JobK),
             (''/j2'', JobK)] False True) [])
          \<lparr>trace := [Invoke (ComObj 0) ''ObjectExists'' [PyStr ''/''],
                     Invoke (ComObj 0) ''GetObjectType'' [PyStr ''/a''],
                     Invoke (ComObj 0) ''MoveObject'' [PyStr ''/j'', PyStr ''/a'']],
            logged := [Log DEBUG [Txt ''Moving '', Val (PyStr ''/j''), Txt '' to '',
                                  Val (PyStr ''/a'')]]\<rparr>) \<and>
   isl (fst (MoveObjectTo (scheduler_proxy 10) (PyStr ''/j'') (PyStr ''/a'') True
          (refusing_world ''ObjectExists'' (com_error ''refused'') []))) \<and>
   trace (snd (MoveObjectTo (scheduler_proxy 10) (PyStr ''/j'') (PyStr ''/a'') True
          (refusing_world ''ObjectExists'' (com_error ''refused'') [])))
     = [Invoke (ComObj 0) ''ObjectExists'' [PyStr ''/''], GetAttr (ComObj 0) ''Name'',
        GetAttr (ComObj 0) ''Name''] \<and>
   MoveObjectTo (scheduler_proxy 10) (PyStr ''/j'') (PyInt 2) True
          (example_world (tree [(''/'', FolderK), (''/a'', FolderK), (''/j'', JobK),
             (''/j2'', JobK)] False True) [])
     = (Inl AssertionError,
        (example_world (tree [(''/'', FolderK), (''/a'', FolderK), (''/j'', JobK),
             (''/j2'', JobK)] False True) [])\<lparr>logged := [LogException AssertionError]\<rparr>)"
proof -
  let ?w = "example_world (tree [(''/'', FolderK), (''/a'', FolderK), (''/j'', JobK),
             (''/j2'', JobK)] False True) []"
  let ?r = "refusing_world ''ObjectExists'' (com_error ''refused'') []"
  have b: "clsname (scheduler_proxy 10) = ''JobScheduler''"
    "obj (scheduler_proxy 10) = ComObj 0"
    by (simp_all add: scheduler_proxy_def)
  note v = MoveObjectTo_validation [OF b]
  have off: "(if False then create_intermediate_folders (scheduler_proxy 10) d
              else returnM ()) ?w = (Inr (), ?w)" for d
    by (simp add: returnM_def)
  have on: "(if True then create_intermediate_folders (scheduler_proxy 10) (PyStr ''/a'')
             else returnM ()) ?w
      = (Inr (), ?w\<lparr>trace := [Invoke (ComObj 0) ''ObjectExists'' [PyStr ''/'']]\<rparr>)"
    by (simp add: path_defs example_defs runnable_allowed allowed_Multi monad_defs Let_def)
  have stop: "(if True then create_intermediate_folders (scheduler_proxy 10) (PyStr ''/a'')
             else returnM ()) ?r
      = (Inl (com_error ''refused''),
         ?r\<lparr>trace := [Invoke (ComObj 0) ''ObjectExists'' [PyStr ''/''],
                       GetAttr (ComObj 0) ''Name''],
            logged := handler_log ''ObjectExists'' (scheduler_proxy 10) [PyStr ''/''] PyNone
                        (com_error ''refused'')\<rparr>)"
    by (simp add: path_defs refusing_world_def scheduler_proxy_def runnable_allowed
        allowed_Multi handler_def handler_log_def monad_defs Let_def)
  have o2: "ObjectType (IntArg 2) = Inr \<lparr>name = ''abatOT_Job'', code = 2\<rparr>"
    by (simp add: ObjectType_def ObjectType_mapping_def BaseEnumeration_def str_mapping_def)
  have 1: "MoveObjectTo (scheduler_proxy 10) (PyStr ''/j'') (PyStr ''/j2'') False ?w
     = (Inl (ValueError (''The destination key '' @ [CHR 0x27] @ ''/j2'' @ [CHR 0x27]
                           @ '' is not a folder'' @ [CHR 0x27])),
        ?w\<lparr>trace := [Invoke (ComObj 0) ''GetObjectType'' [PyStr ''/j2'']],
            logged := [Log DEBUG [Txt ''Moving '', Val (PyStr ''/j''), Txt '' to '',
                                  Val (PyStr ''/j2'')],
                       LogException (not_a_folder (PyStr ''/j2''))]\<rparr>)"
    using v [of False "PyStr ''/j2''" ?w "PyStr ''/j''", THEN conjunct1, rule_format,
        of ?w 2 "\<lparr>name = ''abatOT_Job'', code = 2\<rparr>", THEN conjunct1] off o2
    by (simp add: example_defs not_a_folder_def format_key_def)
  have 2: "MoveObjectTo (scheduler_proxy 10) (PyStr ''/j'') (PyStr ''/a'') False ?w
     = (Inr PyNone,
        ?w\<lparr>trace := [Invoke (ComObj 0) ''GetObjectType'' [PyStr ''/a''],
                     Invoke (ComObj 0) ''MoveObject'' [PyStr ''/j'', PyStr ''/a'']],
            logged := [Log DEBUG [Txt ''Moving '', Val (PyStr ''/j''), Txt '' to '',
                                  Val (PyStr ''/a'')]]\<rparr>)"
    using v [of False "PyStr ''/a''" ?w "PyStr ''/j''", THEN conjunct1, rule_format,
        of ?w 14 "\<lparr>name = ''abatOT_Folder'', code = 14\<rparr>", THEN conjunct2, rule_format,
        THEN conjunct2, rule_format, of PyNone] off ObjectType_14
    by (simp add: example_defs)
  have 3: "MoveObjectTo (scheduler_proxy 10) (PyStr ''/j'') (PyStr ''/a'') True ?w
     = (Inr PyNone,
        ?w\<lparr>trace := [Invoke (ComObj 0) ''ObjectExists'' [PyStr ''/''],
                     Invoke (ComObj 0) ''GetObjectType'' [PyStr ''/a''],
                     Invoke (ComObj 0) ''MoveObject'' [PyStr ''/j'', PyStr ''/a'']],
            logged := [Log DEBUG [Txt ''Moving '', Val (PyStr ''/j''), Txt '' to '',
                                  Val (PyStr ''/a'')]]\<rparr>)"
    using v [of True "PyStr ''/a''" ?w "PyStr ''/j''", THEN conjunct1, rule_format,
        of "?w\<lparr>trace := [Invoke (ComObj 0) ''ObjectExists'' [PyStr ''/'']]\<rparr>" 14
           "\<lparr>name = ''abatOT_Folder'', code = 14\<rparr>", THEN conjunct2, rule_format,
        THEN conjunct2, rule_format, of PyNone] on ObjectType_14
    by (simp add: example_defs)
  have 4: "isl (fst (MoveObjectTo (scheduler_proxy 10) (PyStr ''/j'') (PyStr ''/a'') True ?r)) \<and>
   trace (snd (MoveObjectTo (scheduler_proxy 10) (PyStr ''/j'') (PyStr ''/a'') True ?r))
     = [Invoke (ComObj 0) ''ObjectExists'' [PyStr ''/''], GetAttr (ComObj 0) ''Name'',
        GetAttr (ComObj 0) ''Name'']"
    using v [of True "PyStr ''/a''" ?r "PyStr ''/j''", THEN conjunct2, THEN conjunct1,
        rule_format, OF stop]
    by (simp add: handler_trace_def reads_name_def scheduler_proxy_def)
  have 5: "MoveObjectTo (scheduler_proxy 10) (PyStr ''/j'') (PyInt 2) True ?w
     = (Inl AssertionError, ?w\<lparr>logged := [LogException AssertionError]\<rparr>)"
    using v [of True "PyInt 2" ?w "PyStr ''/j''", THEN conjunct2, THEN conjunct2]
    by (simp add: example_world_def)
  show ?thesis
    using 1 2 3 4 5 by simp
qed

section \<open>Attribute lookup on a plan\<close>

text \<open>
  The part of claim C10 that holds: for \<open>NextScheduledExecutionDateTime\<close> the handler
  reads the attribute on the lite counterpart that the accessor yields.
\<close>

lemma Plan_getattr_NextScheduled:
  "LiteObject lib d r w = (Inr lite, w1) \<Longrightarrow>
   Plan_getattr lib (Suc d) r ''NextScheduledExecutionDateTime'' w
     = NextScheduledExecutionDateTime lib (Plan_getattr lib d) lite w1"
  by (simp add: LiteObject_def bindM_def)

text \<open>
  The gate refuses \<open>NextScheduledExecutionDateTime\<close> on a plan, so reading it there
  logs the refusal and goes on in \<open>__getattr__\<close>.
\<close>

lemma plan_NextScheduled_read:
  "a < length (store w) \<Longrightarrow> clsname (store w ! a) = ''Plan'' \<Longrightarrow>
   read_property lib d (ProxyRef a) ''NextScheduledExecutionDateTime'' w
     = Plan_getattr lib d (ProxyRef a) ''NextScheduledExecutionDateTime''
         (w\<lparr>logged := logged w @
              [Log WARNING
                 [Txt (unsupported_msg
                         (Multi [''PlanLite'', ''Job'', ''JobLite'', ''ReferenceLite''])
                         ''NextScheduledExecutionDateTime'' ''Plan'')]]\<rparr>)"
  by (simp add: read_property_def bindM_def deref_def property_getter_def
      AllAttributes_table_def property_read_def hook_of_def generic_op_def bind_args_def
      signature_table_def fill_defaults_def runnable_refused allowed_Multi try_except_def)

text \<open>
  Claim C10. The claim: for every other missing attribute name the lookup on a plan
  terminates with a value or an attribute error and does not recurse without bound. The
  code evaluates \<open>self.item\<close>, the attribute named \<open>item\<close>, which is missing as well, so
  \<open>__getattr__\<close> calls itself until the interpreter's recursion limit: whatever the limit
  \<open>d\<close>, the outcome is \<open>RecursionError\<close>, never a value or an \<open>AttributeError\<close>, and
  nothing else has happened.
\<close>

theorem Plan_getattr_missing_recurses:
  "item \<noteq> ''NextScheduledExecutionDateTime'' \<Longrightarrow>
   Plan_getattr lib d r item w = (Inl RecursionError, w)"
  by (cases d) (simp_all add: raiseM_def Plan_getattr_item)

theorem Plan_getattr_missing_recurses_witness:
  "''foo'' \<noteq> ''NextScheduledExecutionDateTime'' \<and>
   Plan_getattr example_lib 1000 (ProxyRef 1) ''foo'' (errata_world True True [])
     = (Inl RecursionError, errata_world True True [])"
  using Plan_getattr_missing_recurses [of "''foo''" example_lib 1000 "ProxyRef 1"
      "errata_world True True []"]
  by simp

section \<open>The lite/full counterpart and its cache\<close>

lemma fetches_append [simp]: "fetches (xs @ ys) = fetches xs @ fetches ys"
  by (simp add: fetches_def)

lemma fetches_simps [simp]:
  "fetches [] = []"
  "fetches (GetAttr ob a # cs) = fetches cs"
  "fetches (SetAttr ob a v # cs) = fetches cs"
  "fetches (Invoke ob m args # cs)
     = (if m = ''GetAbatObject'' \<or> m = ''GetAbatObjectLite'' then Invoke ob m args # fetches cs
        else fetches cs)"
  by (simp_all add: fetches_def is_fetch_def)

lemma bindM_InrE:
  assumes "bindM m f w = (Inr y, w')"
  obtains x w1 where "m w = (Inr x, w1)" and "f x w1 = (Inr y, w')"
  using assms by (auto simp add: bindM_def split: prod.splits sum.splits)

lemma handler_not_Inr: "handler f self args e w = (Inr x, w') \<Longrightarrow> False"
  by (cases e; cases "obj self")
     (auto simp add: handler_def monad_defs split: sum.splits prod.splits)

lemma runnable_success:
  "runnable ab f self args m w = (Inr x, w') \<Longrightarrow> m w = (Inr x, w')"
  by (cases "allowed ab (clsname self)")
     (auto simp add: runnable_allowed runnable_refused split: prod.splits sum.splits
        dest: handler_not_Inr)

text \<open>A property that yields a value has yielded it itself: \<open>__getattr__\<close> yields none.\<close>

lemma property_read_success:
  assumes "property_read (hook_of (Plan_getattr lib d) r self) nm getter w = (Inr v, w')"
    and "nm \<noteq> ''NextScheduledExecutionDateTime''"
  shows "getter w = (Inr v, w')"
  using assms
  by (auto simp add: property_read_def hook_of_def try_except_def Plan_getattr_other raiseM_def
      split: if_splits prod.splits sum.splits exn.splits)

lemma getattr_success:
  "getattr ob a w = (Inr v, w') \<Longrightarrow>
   respond w (trace w) (GetAttr ob a) = Inr v \<and> w' = w\<lparr>trace := trace w @ [GetAttr ob a]\<rparr>"
  by (auto simp add: monad_defs split: pyval.splits)

lemma invoke_success:
  "invoke ob m args w = (Inr v, w') \<Longrightarrow>
   respond w (trace w) (Invoke ob m args) = Inr v \<and>
   w' = w\<lparr>trace := trace w @ [Invoke ob m args]\<rparr>"
  by (auto simp add: monad_defs split: pyval.splits)

lemma logging_run: "logging r w = (Inr (), w\<lparr>logged := logged w @ [r]\<rparr>)"
  by (simp add: logging_def)

lemma ID_success:
  "ID self w = (Inr ident, w2) \<Longrightarrow>
   respond w (trace w) (GetAttr (obj self) ''ID'') = Inr ident \<and>
   w2 = w\<lparr>trace := trace w @ [GetAttr (obj self) ''ID'']\<rparr>"
  unfolding ID_def by (drule runnable_success) (rule getattr_success)

lemma GetAbatObject_success:
  "GetAbatObject sp args w = (Inr ob, w') \<Longrightarrow>
   w' = w\<lparr>trace := trace w @ [Invoke (obj sp) ''GetAbatObject'' args]\<rparr>"
  unfolding GetAbatObject_def by (drule runnable_success) (simp add: invoke_success)

lemma GetAbatObjectLite_success:
  "GetAbatObjectLite sp args w = (Inr ob, w') \<Longrightarrow>
   w' = w\<lparr>trace := trace w @ [Invoke (obj sp) ''GetAbatObjectLite'' args]\<rparr>"
  unfolding GetAbatObjectLite_def by (drule runnable_success) (simp add: invoke_success)

text \<open>The two probes read attributes and log; they fetch nothing.\<close>

lemma probe_folder_quiet: "probe_folder ob w = (r, w') \<Longrightarrow> quiet w w'"
  by (auto simp add: probe_folder_def monad_defs quiet_def
      split: pyval.splits sum.splits exn.splits)

lemma probe_plan_quiet: "probe_plan ob w = (r, w') \<Longrightarrow> quiet w w'"
  by (auto simp add: probe_plan_def try_except_def bindM_def returnM_def raiseM_def getattr_def
        com_def
      dest!: probe_folder_quiet
      simp: quiet_def split: pyval.splits sum.splits exn.splits prod.splits)

lemma GetObjectType_success:
  assumes "GetObjectType sp key w = (Inr t, w')"
  shows "respond w' = respond w \<and> store w' = store w \<and>
   fetches (trace w') = fetches (trace w) @
     resolver_fetches sp (respond w (trace w) (Invoke (obj sp) ''GetObjectType'' [key])) key"
proof -
  have body: "GetObjectType_body sp key w = (Inr t, w')"
    using assms unfolding GetObjectType_def by (rule runnable_success)
  then obtain otype w1 where
    q: "invoke (obj sp) ''GetObjectType'' [key] w = (Inr otype, w1)" and
    rest: "(case version sp of
         None \<Rightarrow> raiseM (TypeError ''<= not supported between NoneType and int'')
       | Some v \<Rightarrow>
           if v \<le> 9 then
             if otype = PyInt 3 then
               bindM (GetAbatObject sp [key]) (\<lambda>ob.
               bindM (getattr ob ''FullPath'') (\<lambda>fullpath.
               bindM (getattr ob ''ID'') (\<lambda>ident.
               bindM (logging (errata_warning sp fullpath ident)) (\<lambda>_.
                 probe_plan ob))))
             else invoke (obj sp) ''GetObjectType'' [key]
           else invoke (obj sp) ''GetObjectType'' [key]) w1 = (Inr t, w')"
    unfolding GetObjectType_body_def by (rule bindM_InrE)
  from q have a: "respond w (trace w) (Invoke (obj sp) ''GetObjectType'' [key]) = Inr otype"
    and w1: "w1 = w\<lparr>trace := trace w @ [Invoke (obj sp) ''GetObjectType'' [key]]\<rparr>"
    using invoke_success by blast+
  obtain v where v: "version sp = Some v"
    using rest by (cases "version sp") (auto simp add: raiseM_def)
  show ?thesis
  proof (cases "v \<le> 9 \<and> otype = PyInt 3")
    case False
    then have "invoke (obj sp) ''GetObjectType'' [key] w1 = (Inr t, w')"
      using rest v by (auto split: if_splits)
    then have "w' = w1\<lparr>trace := trace w1 @ [Invoke (obj sp) ''GetObjectType'' [key]]\<rparr>"
      using invoke_success by blast
    with False w1 a v show ?thesis
      by (auto simp add: resolver_fetches_def)
  next
    case True
    then have r2: "bindM (GetAbatObject sp [key]) (\<lambda>ob.
               bindM (getattr ob ''FullPath'') (\<lambda>fullpath.
               bindM (getattr ob ''ID'') (\<lambda>ident.
               bindM (logging (errata_warning sp fullpath ident)) (\<lambda>_.
                 probe_plan ob)))) w1 = (Inr t, w')"
      using rest v by simp
    from r2 obtain ob w2 where
      f: "GetAbatObject sp [key] w1 = (Inr ob, w2)" and
      r3: "bindM (getattr ob ''FullPath'') (\<lambda>fullpath.
           bindM (getattr ob ''ID'') (\<lambda>ident.
           bindM (logging (errata_warning sp fullpath ident)) (\<lambda>_.
             probe_plan ob))) w2 = (Inr t, w')"
      by (rule bindM_InrE)
    from r3 obtain fp w3 where
      g1: "getattr ob ''FullPath'' w2 = (Inr fp, w3)" and
      r4: "bindM (getattr ob ''ID'') (\<lambda>ident.
           bindM (logging (errata_warning sp fp ident)) (\<lambda>_. probe_plan ob)) w3 = (Inr t, w')"
      by (rule bindM_InrE)
    from r4 obtain i w4 where
      g2: "getattr ob ''ID'' w3 = (Inr i, w4)" and
      r5: "bindM (logging (errata_warning sp fp i)) (\<lambda>_. probe_plan ob) w4 = (Inr t, w')"
      by (rule bindM_InrE)
    from r5 have r6: "probe_plan ob (w4\<lparr>logged := logged w4 @ [errata_warning sp fp i]\<rparr>)
        = (Inr t, w')"
      by (simp add: bindM_def logging_run)
    have w2: "w2 = w1\<lparr>trace := trace w1 @ [Invoke (obj sp) ''GetAbatObject'' [key]]\<rparr>"
      using f by (rule GetAbatObject_success)
    have w3: "w3 = w2\<lparr>trace := trace w2 @ [GetAttr ob ''FullPath'']\<rparr>"
      using g1 getattr_success by blast
    have w4: "w4 = w3\<lparr>trace := trace w3 @ [GetAttr ob ''ID'']\<rparr>"
      using g2 getattr_success by blast
    have q': "quiet (w4\<lparr>logged := logged w4 @ [errata_warning sp fp i]\<rparr>) w'"
      using r6 by (rule probe_plan_quiet)
    show ?thesis
      using q' True a v
      by (simp add: quiet_def w4 w3 w2 w1 resolver_fetches_def)
  qed
qed

lemma construct_success:
  "construct cls sched ob w = (Inr c, w') \<Longrightarrow>
   c = ProxyRef (length (store w)) \<and> trace w' = trace w \<and> respond w' = respond w \<and>
   store w' = store w @ [\<lparr>clsname = cls, obj = ob, scheduler = sched, server = [],
                          version = None, slot = PyNone\<rparr>]"
  by (auto simp add: construct_def alloc_def monad_defs split: if_splits)

lemma deref_success:
  "deref r w = (Inr p, w') \<Longrightarrow> w' = w \<and> (\<exists>a. r = ProxyRef a \<and> a < length (store w) \<and> p = store w ! a)"
  by (auto simp add: deref_def split: pyval.splits if_splits)

lemma deref_run: "a < length (store w) \<Longrightarrow> deref (ProxyRef a) w = (Inr (store w ! a), w)"
  by (simp add: deref_def)

lemma liftE_success: "liftE r w = (Inr x, w') \<Longrightarrow> r = Inr x \<and> w' = w"
  by (simp add: liftE_def)

lemma private_get_object_success:
  assumes run: "private_get_object (ProxyRef s) key lite w = (Inr c, w')"
  shows "s < length (store w) \<and> respond w' = respond w \<and>
    c = ProxyRef (length (store w)) \<and> (\<exists>p. store w' = store w @ [p]) \<and>
    fetches (trace w') = fetches (trace w) @
      resolver_fetches (store w ! s)
        (respond w (trace w) (Invoke (obj (store w ! s)) ''GetObjectType'' [key])) key @
      [Invoke (obj (store w ! s)) (if lite then ''GetAbatObjectLite'' else ''GetAbatObject'')
         [key]]"
proof -
  from run obtain sp w0 where
    d: "deref (ProxyRef s) w = (Inr sp, w0)" and
    r1: "bindM (GetObjectType sp key) (\<lambda>t.
     bindM (liftE (int_of t)) (\<lambda>objtype.
     bindM (liftE (ObjectType (IntArg objtype))) (\<lambda>ot.
     bindM (if lite then GetAbatObjectLite sp [key] else GetAbatObject sp [key]) (\<lambda>ob.
       case map_of (method_map lite) (name ot) of
         None \<Rightarrow> raiseM (KeyError (PyStr (name ot)))
       | Some cls \<Rightarrow> construct cls (ProxyRef s) ob)))) w0 = (Inr c, w')"
    unfolding private_get_object_def by (rule bindM_InrE)
  from d have s: "s < length (store w)" and sp: "sp = store w ! s" and w0: "w0 = w"
    using deref_success by blast+
  from r1 obtain t w1 where
    g: "GetObjectType sp key w0 = (Inr t, w1)" and
    r2: "bindM (liftE (int_of t)) (\<lambda>objtype.
     bindM (liftE (ObjectType (IntArg objtype))) (\<lambda>ot.
     bindM (if lite then GetAbatObjectLite sp [key] else GetAbatObject sp [key]) (\<lambda>ob.
       case map_of (method_map lite) (name ot) of
         None \<Rightarrow> raiseM (KeyError (PyStr (name ot)))
       | Some cls \<Rightarrow> construct cls (ProxyRef s) ob))) w1 = (Inr c, w')"
    by (rule bindM_InrE)
  from r2 obtain objtype w1' where
    l1: "liftE (int_of t) w1 = (Inr objtype, w1')" and
    r3: "bindM (liftE (ObjectType (IntArg objtype))) (\<lambda>ot.
     bindM (if lite then GetAbatObjectLite sp [key] else GetAbatObject sp [key]) (\<lambda>ob.
       case map_of (method_map lite) (name ot) of
         None \<Rightarrow> raiseM (KeyError (PyStr (name ot)))
       | Some cls \<Rightarrow> construct cls (ProxyRef s) ob)) w1' = (Inr c, w')"
    by (rule bindM_InrE)
  from r3 obtain ot w1'' where
    l2: "liftE (ObjectType (IntArg objtype)) w1' = (Inr ot, w1'')" and
    r4: "bindM (if lite then GetAbatObjectLite sp [key] else GetAbatObject sp [key]) (\<lambda>ob.
       case map_of (method_map lite) (name ot) of
         None \<Rightarrow> raiseM (KeyError (PyStr (name ot)))
       | Some cls \<Rightarrow> construct cls (ProxyRef s) ob) w1'' = (Inr c, w')"
    by (rule bindM_InrE)
  from l1 l2 have w1'': "w1'' = w1"
    by (simp add: liftE_def)
  from r4 obtain ob w2 where
    f: "(if lite then GetAbatObjectLite sp [key] else GetAbatObject sp [key]) w1''
          = (Inr ob, w2)" and
    r5: "(case map_of (method_map lite) (name ot) of
         None \<Rightarrow> raiseM (KeyError (PyStr (name ot)))
       | Some cls \<Rightarrow> construct cls (ProxyRef s) ob) w2 = (Inr c, w')"
    by (rule bindM_InrE)
  have w2: "w2 = w1\<lparr>trace := trace w1 @
      [Invoke (obj sp) (if lite then ''GetAbatObjectLite'' else ''GetAbatObject'') [key]]\<rparr>"
    using f w1'' GetAbatObject_success GetAbatObjectLite_success
    by (cases lite) auto
  from r5 obtain cls where "construct cls (ProxyRef s) ob w2 = (Inr c, w')"
    by (cases "map_of (method_map lite) (name ot)") (auto simp add: raiseM_def)
  then have c: "c = ProxyRef (length (store w2))" "trace w' = trace w2"
    "respond w' = respond w2" "\<exists>p. store w' = store w2 @ [p]"
    using construct_success by blast+
  have g': "respond w1 = respond w \<and> store w1 = store w \<and>
   fetches (trace w1) = fetches (trace w) @
     resolver_fetches sp (respond w (trace w) (Invoke (obj sp) ''GetObjectType'' [key])) key"
    using g w0 GetObjectType_success by blast
  show ?thesis
    using s c g' by (cases lite) (simp_all add: w2 sp)
qed

lemma get_object_success:
  assumes run: "get_object lib (ProxyRef s) key lite w = (Inr c, w')"
    and nl: "\<forall>xs. key \<noteq> PyList xs"
  shows "s < length (store w) \<and> respond w' = respond w \<and>
    c = ProxyRef (length (store w)) \<and> (\<exists>p. store w' = store w @ [p]) \<and>
    fetches (trace w') = fetches (trace w) @
      resolver_fetches (store w ! s)
        (respond w (trace w) (Invoke (obj (store w ! s)) ''GetObjectType'' [key])) key @
      [Invoke (obj (store w ! s)) (if lite then ''GetAbatObjectLite'' else ''GetAbatObject'')
         [key]]"
proof -
  let ?w0 = "w\<lparr>logged := logged w @ [Log DEBUG [Txt ''get_object('', Val key, Txt '')'']]\<rparr>"
  have "private_get_object (ProxyRef s) key lite ?w0 = (Inr c, w')"
    using run nl by (cases key) (simp_all add: get_object_def bindM_def logging_run)
  from private_get_object_success [OF this] show ?thesis by simp
qed

lemma set_slot_run:
  "a < length (store w) \<Longrightarrow>
   set_slot (ProxyRef a) v w
     = (Inr (), w\<lparr>store := (store w)[a := (store w ! a)\<lparr>slot := v\<rparr>]\<rparr>)"
  by (simp add: set_slot_def)

text \<open>A filled slot is returned as it is.\<close>

lemma counterpart_cached:
  "a < length (store w) \<Longrightarrow> slot (store w ! a) = c \<Longrightarrow> c \<noteq> PyNone \<Longrightarrow>
   counterpart lib lite (Plan_getattr lib d) (ProxyRef a) w = (Inr c, w)"
  by (simp add: counterpart_def bindM_def deref_run returnM_def)

lemma counterpart_first:
  assumes a: "a < length (store w)" and empty: "slot (store w ! a) = PyNone"
    and sch: "scheduler (store w ! a) = ProxyRef s"
    and idr: "respond w (trace w) (GetAttr (obj (store w ! a)) ''ID'') = Inr ident"
    and nl: "\<forall>xs. ident \<noteq> PyList xs"
    and first: "counterpart lib lite (Plan_getattr lib d) (ProxyRef a) w = (Inr c, w1)"
  shows "c = ProxyRef (length (store w)) \<and>
    length (store w1) = Suc (length (store w)) \<and>
    store w1 ! a = (store w ! a)\<lparr>slot := c\<rparr> \<and>
    (\<forall>b. b < length (store w) \<and> b \<noteq> a \<longrightarrow> store w1 ! b = store w ! b) \<and>
    fetches (trace w1) = fetches (trace w) @
      resolver_fetches (store w ! s)
        (respond w (trace w @ [GetAttr (obj (store w ! a)) ''ID''])
           (Invoke (obj (store w ! s)) ''GetObjectType'' [ident])) ident @
      [Invoke (obj (store w ! s)) (if lite then ''GetAbatObjectLite'' else ''GetAbatObject'')
         [ident]]"
proof -
  let ?self = "store w ! a"
  let ?id = "property_read (hook_of (Plan_getattr lib d) (ProxyRef a) ?self) ''ID'' (ID ?self)"
  have "bindM (bindM ?id (\<lambda>ident.
          bindM (get_object lib (scheduler ?self) ident lite) (\<lambda>c. set_slot (ProxyRef a) c)))
        (\<lambda>_. bindM (deref (ProxyRef a)) (\<lambda>self'. returnM (slot self'))) w = (Inr c, w1)"
    using first a empty by (simp add: counterpart_def bindM_def deref_run)
  then obtain u w4 where
    fill: "bindM ?id (\<lambda>ident.
          bindM (get_object lib (scheduler ?self) ident lite) (\<lambda>c. set_slot (ProxyRef a) c)) w
            = (Inr u, w4)" and
    fin: "bindM (deref (ProxyRef a)) (\<lambda>self'. returnM (slot self')) w4 = (Inr c, w1)"
    by (rule bindM_InrE)
  from fill obtain ident' w2 where
    i0: "?id w = (Inr ident', w2)" and
    r2: "bindM (get_object lib (scheduler ?self) ident' lite) (\<lambda>c. set_slot (ProxyRef a) c) w2
           = (Inr u, w4)"
    by (rule bindM_InrE)
  have i: "ID ?self w = (Inr ident', w2)"
    using i0 by (rule property_read_success) simp
  from i idr have id': "ident' = ident"
    and w2: "w2 = w\<lparr>trace := trace w @ [GetAttr (obj ?self) ''ID'']\<rparr>"
    using ID_success by fastforce+
  from r2 obtain c' w3 where
    g: "get_object lib (ProxyRef s) ident lite w2 = (Inr c', w3)" and
    st: "set_slot (ProxyRef a) c' w3 = (Inr u, w4)"
    unfolding id' sch by (rule bindM_InrE)
  from get_object_success [OF g nl] obtain p where
    s: "s < length (store w)" and resp: "respond w3 = respond w" and
    c': "c' = ProxyRef (length (store w))" and store3: "store w3 = store w @ [p]" and
    ft: "fetches (trace w3) = fetches (trace w) @
      resolver_fetches (store w ! s)
        (respond w (trace w @ [GetAttr (obj ?self) ''ID''])
           (Invoke (obj (store w ! s)) ''GetObjectType'' [ident])) ident @
      [Invoke (obj (store w ! s)) (if lite then ''GetAbatObjectLite'' else ''GetAbatObject'')
         [ident]]"
    by (auto simp add: w2)
  have a3: "a < length (store w3)"
    using a store3 by simp
  have w4: "w4 = w3\<lparr>store := (store w3)[a := (store w3 ! a)\<lparr>slot := c'\<rparr>]\<rparr>"
    using st set_slot_run [OF a3, of c'] by simp
  have a4: "a < length (store w4)"
    using a3 w4 by simp
  from fin have "w1 = w4 \<and> c = slot (store w4 ! a)"
    by (auto simp add: bindM_def deref_run [OF a4] returnM_def)
  then have w1: "w1 = w4" and c: "c = slot (store w4 ! a)"
    by simp_all
  have at_a: "store w3 ! a = store w ! a"
    using a store3 by (simp add: nth_append)
  show ?thesis
    using a c c' ft
    by (auto simp add: w1 w4 store3 nth_append nth_list_update)
qed

lemma LiteObject_success:
  assumes "LiteObject lib d (ProxyRef a) w = (Inr c, w1)"
  shows "counterpart lib True (Plan_getattr lib d) (ProxyRef a) w = (Inr c, w1) \<and>
    clsname (store w ! a) \<in> set [''Plan'', ''ServiceLibrary'', ''Job'', ''Alerts'',
      ''UserAccount'', ''Calendar'', ''Schedule'', ''Folder'']"
proof -
  from assms obtain self w0 where
    d: "deref (ProxyRef a) w = (Inr self, w0)" and
    r: "(if clsname self \<in> set [''Plan'', ''ServiceLibrary'', ''Job'', ''Alerts'',
                               ''UserAccount'', ''Calendar'', ''Schedule'', ''Folder'']
       then property_read (hook_of (Plan_getattr lib d) (ProxyRef a) self) ''LiteObject''
              (counterpart lib True (Plan_getattr lib d) (ProxyRef a))
       else raiseM (AttributeError ''LiteObject'')) w0 = (Inr c, w1)"
    unfolding LiteObject_def LiteObject_attr_def by (rule bindM_InrE)
  from d have self: "self = store w ! a" and w0: "w0 = w"
    using deref_success by blast+
  have cls: "clsname self \<in> set [''Plan'', ''ServiceLibrary'', ''Job'', ''Alerts'',
                               ''UserAccount'', ''Calendar'', ''Schedule'', ''Folder'']"
    using r by (auto simp add: raiseM_def split: if_splits)
  with r have "property_read (hook_of (Plan_getattr lib d) (ProxyRef a) self) ''LiteObject''
              (counterpart lib True (Plan_getattr lib d) (ProxyRef a)) w = (Inr c, w1)"
    by (simp add: w0 del: set_simps)
  then have "counterpart lib True (Plan_getattr lib d) (ProxyRef a) w = (Inr c, w1)"
    by (rule property_read_success) simp
  with cls self show ?thesis by simp
qed

lemma LiteObject_again:
  "a < length (store w) \<Longrightarrow>
   clsname (store w ! a) \<in> set [''Plan'', ''ServiceLibrary'', ''Job'', ''Alerts'',
      ''UserAccount'', ''Calendar'', ''Schedule'', ''Folder''] \<Longrightarrow>
   counterpart lib True (Plan_getattr lib d) (ProxyRef a) w = (Inr c, w) \<Longrightarrow>
   LiteObject lib d (ProxyRef a) w = (Inr c, w)"
  by (auto simp add: LiteObject_def LiteObject_attr_def property_read_def hook_of_def bindM_def
      deref_run try_except_def)

lemma FullObject_success:
  assumes "FullObject lib d (ProxyRef a) w = (Inr c, w1)"
  shows "counterpart lib False (Plan_getattr lib d) (ProxyRef a) w = (Inr c, w1) \<and>
    clsname (store w ! a) \<in> set [''JobLite'', ''AlertsLite'', ''CalendarLite'',
      ''ScheduleLite'', ''PlanLite'', ''FolderLite'']"
proof -
  from assms obtain self w0 where
    d: "deref (ProxyRef a) w = (Inr self, w0)" and
    r: "(if clsname self \<in> set [''JobLite'', ''AlertsLite'', ''CalendarLite'', ''ScheduleLite'',
                              ''PlanLite'', ''FolderLite'']
       then property_read (hook_of (Plan_getattr lib d) (ProxyRef a) self) ''FullObject''
              (counterpart lib False (Plan_getattr lib d) (ProxyRef a))
       else raiseM (AttributeError ''FullObject'')) w0 = (Inr c, w1)"
    unfolding FullObject_def FullObject_attr_def by (rule bindM_InrE)
  from d have self: "self = store w ! a" and w0: "w0 = w"
    using deref_success by blast+
  have cls: "clsname self \<in> set [''JobLite'', ''AlertsLite'', ''CalendarLite'', ''ScheduleLite'',
                              ''PlanLite'', ''FolderLite'']"
    using r by (auto simp add: raiseM_def split: if_splits)
  with r have "property_read (hook_of (Plan_getattr lib d) (ProxyRef a) self) ''FullObject''
              (counterpart lib False (Plan_getattr lib d) (ProxyRef a)) w = (Inr c, w1)"
    by (simp add: w0 del: set_simps)
  then have "counterpart lib False (Plan_getattr lib d) (ProxyRef a) w = (Inr c, w1)"
    by (rule property_read_success) simp
  with cls self show ?thesis by simp
qed

lemma FullObject_again:
  "a < length (store w) \<Longrightarrow>
   clsname (store w ! a) \<in> set [''JobLite'', ''AlertsLite'', ''CalendarLite'',
      ''ScheduleLite'', ''PlanLite'', ''FolderLite''] \<Longrightarrow>
   counterpart lib False (Plan_getattr lib d) (ProxyRef a) w = (Inr c, w) \<Longrightarrow>
   FullObject lib d (ProxyRef a) w = (Inr c, w)"
  by (auto simp add: FullObject_def FullObject_attr_def property_read_def hook_of_def bindM_def
      deref_run)

lemmas retrieval_defs = FullObject_def LiteObject_def FullObject_attr_def LiteObject_attr_def
  property_read_def hook_of_def counterpart_def ID_def get_object_def
  private_get_object_def GetObjectType_def GetObjectType_body_def GetAbatObject_def
  GetAbatObjectLite_def probe_plan_def probe_folder_def construct_def alloc_def deref_def
  set_slot_def method_map_def int_of_def proxy_of_def

text \<open>
  The first \<open>FullObject\<close> on the lite plan of the version 9 session: the type resolver
  fetches the full object to tell plan from folder, and \<open>_get_object\<close> fetches it again.
\<close>

lemma FullObject_errata_first:
  "FullObject example_lib 1000 (ProxyRef 1) errata_session
   = (Inr (ProxyRef 2),
      \<lparr>respond = errata_object True True,
       trace = [GetAttr (ComObj 1001) ''ID'',
                Invoke (ComObj 0) ''GetObjectType'' [PyInt 2],
                Invoke (ComObj 0) ''GetAbatObject'' [PyInt 2],
                GetAttr (ComObj 1001) ''FullPath'',
                GetAttr (ComObj 1001) ''ID'',
                GetAttr (ComObj 1001) ''DisableTemplateOnError'',
                Invoke (ComObj 0) ''GetAbatObject'' [PyInt 2]],
       logged = [Log DEBUG [Txt ''get_object('', Val (PyInt 2), Txt '')''],
                 errata_warning (scheduler_proxy 9) (PyStr ''/x'') (PyInt 2)],
       store = [scheduler_proxy 9, (proxy_of ''PlanLite'')\<lparr>slot := ProxyRef 2\<rparr>,
                proxy_of ''Plan'']\<rparr>)"
  by (simp add: errata_session_def retrieval_defs errata_defs monad_defs runnable_allowed
      allowed_Multi allowed_Single ObjectType_3)

text \<open>
  Claim C6, as stated: invoking the counterpart accessor twice performs exactly one remote
  fetch. On the lite plan of a session with a service of version 9 the two calls of
  \<open>FullObject\<close> return the same instance, and the remote service has been asked for the
  full object twice, both times by the first call.
\<close>

theorem FullObject_errata_two_fetches:
  "fst (FullObject example_lib 1000 (ProxyRef 1) errata_session) = Inr (ProxyRef 2) \<and>
   fst (FullObject example_lib 1000 (ProxyRef 1)
          (snd (FullObject example_lib 1000 (ProxyRef 1) errata_session))) = Inr (ProxyRef 2) \<and>
   fetches (trace errata_session) = [] \<and>
   fetches (trace (snd (FullObject example_lib 1000 (ProxyRef 1)
          (snd (FullObject example_lib 1000 (ProxyRef 1) errata_session)))))
     = [Invoke (ComObj 0) ''GetAbatObject'' [PyInt 2],
        Invoke (ComObj 0) ''GetAbatObject'' [PyInt 2]]"
  unfolding FullObject_errata_first
  by (simp add: errata_session_def errata_world_def FullObject_def FullObject_attr_def
      property_read_def hook_of_def counterpart_def deref_def bindM_def returnM_def proxy_of_def)

text \<open>
  Claim C6, amended. On a proxy with an empty slot whose remote identifier is not a list,
  a first call of the accessor that returns has stored a new proxy instance in the slot of
  this proxy and in no other; it has fetched the paired density exactly once
  (\<open>GetAbatObjectLite\<close> for \<open>LiteObject\<close>, \<open>GetAbatObject\<close> for \<open>FullObject\<close>), after one
  more \<open>GetAbatObject\<close> by the type resolver exactly when the service version is at most 9
  and the type query answered 3. The next call returns the same instance and leaves the
  world as it is: no remote interaction, nothing logged.
\<close>

theorem counterpart_fetched_then_cached:
  assumes acc: "acc = LiteObject lib d \<and> lite \<or> acc = FullObject lib d \<and> \<not> lite"
    and a: "a < length (store w)" and empty: "slot (store w ! a) = PyNone"
    and sch: "scheduler (store w ! a) = ProxyRef s"
    and idr: "respond w (trace w) (GetAttr (obj (store w ! a)) ''ID'') = Inr ident"
    and nl: "\<forall>xs. ident \<noteq> PyList xs"
    and first: "acc (ProxyRef a) w = (Inr c, w1)"
  shows "acc (ProxyRef a) w1 = (Inr c, w1) \<and>
    c = ProxyRef (length (store w)) \<and>
    (\<forall>b. b < length (store w) \<and> b \<noteq> a \<longrightarrow> store w1 ! b = store w ! b) \<and>
    fetches (trace w1) = fetches (trace w) @
      resolver_fetches (store w ! s)
        (respond w (trace w @ [GetAttr (obj (store w ! a)) ''ID''])
           (Invoke (obj (store w ! s)) ''GetObjectType'' [ident])) ident @
      [Invoke (obj (store w ! s)) (if lite then ''GetAbatObjectLite'' else ''GetAbatObject'')
         [ident]]"
proof -
  from acc consider (L) "acc = LiteObject lib d" "lite" | (F) "acc = FullObject lib d" "\<not> lite"
    by auto
  then have cp: "counterpart lib lite (Plan_getattr lib d) (ProxyRef a) w = (Inr c, w1)"
  proof cases
    case L
    with first have "LiteObject lib d (ProxyRef a) w = (Inr c, w1)" by simp
    from LiteObject_success [OF this] L show ?thesis by simp
  next
    case F
    with first have "FullObject lib d (ProxyRef a) w = (Inr c, w1)" by simp
    from FullObject_success [OF this] F show ?thesis by simp
  qed
  note f = counterpart_first [OF a empty sch idr nl cp]
  have a1: "a < length (store w1)"
    using f a by simp
  have sl: "slot (store w1 ! a) = c" and cn: "c \<noteq> PyNone"
    and cl: "clsname (store w1 ! a) = clsname (store w ! a)"
    using f by simp_all
  have again: "counterpart lib lite (Plan_getattr lib d) (ProxyRef a) w1 = (Inr c, w1)"
    using a1 sl cn by (rule counterpart_cached)
  from acc consider (L) "acc = LiteObject lib d" "lite" | (F) "acc = FullObject lib d" "\<not> lite"
    by auto
  then have "acc (ProxyRef a) w1 = (Inr c, w1)"
  proof cases
    case L
    with first have "LiteObject lib d (ProxyRef a) w = (Inr c, w1)" by simp
    from LiteObject_success [OF this]
    have "clsname (store w1 ! a) \<in> set [''Plan'', ''ServiceLibrary'', ''Job'', ''Alerts'',
      ''UserAccount'', ''Calendar'', ''Schedule'', ''Folder'']"
      using cl by simp
    from LiteObject_again [OF a1 this] again L show ?thesis by simp
  next
    case F
    with first have "FullObject lib d (ProxyRef a) w = (Inr c, w1)" by simp
    from FullObject_success [OF this]
    have "clsname (store w1 ! a) \<in> set [''JobLite'', ''AlertsLite'', ''CalendarLite'',
      ''ScheduleLite'', ''PlanLite'', ''FolderLite'']"
      using cl by simp
    from FullObject_again [OF a1 this] again F show ?thesis by simp
  qed
  with f show ?thesis by blast
qed

theorem counterpart_fetched_then_cached_witness:
  "FullObject example_lib 1000 (ProxyRef 1)
     (snd (FullObject example_lib 1000 (ProxyRef 1) errata_session))
   = (Inr (ProxyRef 2), snd (FullObject example_lib 1000 (ProxyRef 1) errata_session)) \<and>
   fetches (trace (snd (FullObject example_lib 1000 (ProxyRef 1) errata_session)))
   = [Invoke (ComObj 0) ''GetAbatObject'' [PyInt 2],
      Invoke (ComObj 0) ''GetAbatObject'' [PyInt 2]]"
proof -
  let ?w1 = "snd (FullObject example_lib 1000 (ProxyRef 1) errata_session)"
  have acc: "FullObject example_lib 1000 = LiteObject example_lib 1000 \<and> False \<or>
      FullObject example_lib 1000 = FullObject example_lib 1000 \<and> \<not> False"
    by simp
  have a: "1 < length (store errata_session)"
    and empty: "slot (store errata_session ! 1) = PyNone"
    and sch: "scheduler (store errata_session ! 1) = ProxyRef 0"
    and idr: "respond errata_session (trace errata_session)
        (GetAttr (obj (store errata_session ! 1)) ''ID'') = Inr (PyInt 2)"
    and nl: "\<forall>xs. PyInt 2 \<noteq> PyList xs"
    by (simp_all add: errata_session_def errata_defs proxy_of_def)
  have first: "FullObject example_lib 1000 (ProxyRef 1) errata_session = (Inr (ProxyRef 2), ?w1)"
    unfolding FullObject_errata_first by simp
  have ans: "respond errata_session hist (Invoke ob ''GetObjectType'' args) = Inr (PyInt 3)"
    for hist ob args
    by (simp add: errata_session_def errata_defs)
  have sp: "store errata_session ! 0 = scheduler_proxy 9"
    by (simp add: errata_session_def errata_world_def)
  have tr0: "fetches (trace errata_session) = []"
    by (simp add: errata_session_def errata_world_def)
  have rf: "resolver_fetches (scheduler_proxy 9) (Inr (PyInt 3)) (PyInt 2)
      = [Invoke (ComObj 0) ''GetAbatObject'' [PyInt 2]]"
    "obj (scheduler_proxy 9) = ComObj 0"
    by (simp_all add: resolver_fetches_def scheduler_proxy_def)
  from counterpart_fetched_then_cached [OF acc a empty sch idr nl first]
  have "FullObject example_lib 1000 (ProxyRef 1) ?w1 = (Inr (ProxyRef 2), ?w1)"
    and "fetches (trace ?w1) = fetches (trace errata_session) @
      resolver_fetches (store errata_session ! 0)
        (respond errata_session
           (trace errata_session @ [GetAttr (obj (store errata_session ! 1)) ''ID''])
           (Invoke (obj (store errata_session ! 0)) ''GetObjectType'' [PyInt 2])) (PyInt 2) @
      [Invoke (obj (store errata_session ! 0))
         (if False then ''GetAbatObjectLite'' else ''GetAbatObject'') [PyInt 2]]"
    by blast+
  then show ?thesis
    by (simp add: ans sp tr0 rf)
qed

text \<open>
  Two proxies for the same remote object do not share the slot: after \<open>LiteObject\<close> on the
  first the slot of the second is still empty, and \<open>LiteObject\<close> on the second fetches
  again and yields another instance.
\<close>

lemma independent_proxies_fetch_separately:
  "fst (LiteObject example_lib d (ProxyRef 1) twin_session) = Inr (ProxyRef 3) \<and>
   slot (store (snd (LiteObject example_lib d (ProxyRef 1) twin_session)) ! 2) = PyNone \<and>
   fst (LiteObject example_lib d (ProxyRef 2)
          (snd (LiteObject example_lib d (ProxyRef 1) twin_session))) = Inr (ProxyRef 4) \<and>
   fetches (trace (snd (LiteObject example_lib d (ProxyRef 2)
          (snd (LiteObject example_lib d (ProxyRef 1) twin_session)))))
     = [Invoke (ComObj 0) ''GetAbatObjectLite'' [PyInt 2],
        Invoke (ComObj 0) ''GetAbatObjectLite'' [PyInt 2]]"
  by (simp add: twin_session_def retrieval_defs errata_defs monad_defs runnable_allowed
      allowed_Multi allowed_Single ObjectType_3)

section \<open>The operations and the table agree\<close>

text \<open>
  The operations defined on their own carry the decorator argument that the table lists
  for their name, and those that only forward are the table's generic operation.
\<close>

lemma own_bodies_in_table:
  "map_of capability_table ''GetObjectType'' = Some (Multi [''JobScheduler''], None)"
  "map_of capability_table ''ObjectExists'' = Some (Multi [''JobScheduler''], None)"
  "map_of capability_table ''CreateObject'' = Some (Multi [''JobScheduler''], None)"
  "map_of capability_table ''MoveObjectTo'' = Some (Multi [''JobScheduler''], None)"
  "map_of capability_table ''CopyObjectTo'' = Some (Multi [''JobScheduler''], None)"
  "map_of capability_table ''GetAssociatedSchedules''
     = Some (Multi [''Job'', ''Plan'', ''Reference''], None)"
  "map_of capability_table ''Disable'' = Some (Single ''All'', None)"
  "map_of capability_table ''Enable'' = Some (Single ''All'', None)"
  "map_of capability_table ''GetInstances''
     = Some (Multi [''JobScheduler'', ''PlanLite'', ''QueueLite'', ''ReferenceLite'',
                    ''JobLite'', ''Job''], None)"
  "map_of capability_table ''ObjectType'' = Some (Single ''All'', None)"
  "map_of capability_table ''CalendarType'' = Some (Multi [''Schedule''], None)"
  by (simp_all add: capability_table_def AllMethods_table_def AllAttributes_table_def)

text \<open>The names with a body of their own are these eleven.\<close>

lemma own_bodies_are:
  "map fst (filter (\<lambda>(nm, ab, k). k = None) capability_table)
     = [''Disable'', ''Enable'', ''GetObjectType'', ''GetAssociatedSchedules'',
        ''GetInstances'', ''MoveObjectTo'', ''CopyObjectTo'', ''ObjectExists'',
        ''CreateObject'', ''ObjectType'', ''CalendarType'']"
  by (simp add: capability_table_def AllMethods_table_def AllAttributes_table_def)

lemma forwarding_operations_in_table:
  "GetAbatObject self args = call_op lib ''GetAbatObject'' self args"
  "GetAbatObjectLite self args = call_op lib ''GetAbatObjectLite'' self args"
  "AddObject self args = call_op lib ''AddObject'' self args"
  by (simp_all add: call_op_def AllMethods_table_def generic_op_def bind_args_def
      signature_table_def generic_body_def GetAbatObject_def GetAbatObjectLite_def
      AddObject_def)

lemma attributes_in_table:
  "property_getter lib ''ID'' self = Some (ID self)"
  "property_getter lib ''ObjectType'' self = Some (ObjectType_property self)"
  "property_getter lib ''CalendarType'' self = Some (CalendarType self)"
  "map_of capability_table ''NextScheduledExecutionDateTime''
     = Some (Multi [''PlanLite'', ''Job'', ''JobLite'', ''ReferenceLite''], Some DateAttr)"
  by (simp_all add: property_getter_def capability_table_def AllMethods_table_def
      AllAttributes_table_def generic_op_def bind_args_def signature_table_def
      fill_defaults_def generic_body_def ID_def)

text \<open>On a proxy that is not a plan, reading a property is calling its getter.\<close>

lemma read_property_not_plan:
  "a < length (store w) \<Longrightarrow> clsname (store w ! a) \<noteq> ''Plan'' \<Longrightarrow>
   property_getter lib nm (store w ! a) = Some getter \<Longrightarrow>
   read_property lib d (ProxyRef a) nm w = getter w"
  by (simp add: read_property_def bindM_def deref_def property_read_def hook_of_def)

text \<open>The parameters the remote call gets: the arguments, then the defaults left over.\<close>

lemma bind_args_examples:
  "bind_args ''Search'' [k]
     = Inr [k, PyStr ''*'', PyInt 65535, PyStr ''AllFields'', PyBool True]"
  "bind_args ''Delete'' [] = Inr [PyBool False]"
  "bind_args ''Delete'' [PyBool True] = Inr [PyBool True]"
  "bind_args ''MoveObject'' [a, b] = Inr [a, b]"
  "bind_args ''MoveObject'' [a] = Inl (TypeError ''missing a required argument'')"
  "bind_args ''Disconnect'' [a] = Inl (TypeError ''too many positional arguments'')"
  by (simp_all add: bind_args_def signature_table_def fill_defaults_def)

text \<open>Arguments that do not fit an allowed operation: \<open>TypeError\<close>, and no log record.\<close>

lemma generic_op_misfit:
  "allowed ab (clsname self) \<Longrightarrow> bind_args nm args = Inl e \<Longrightarrow>
   generic_op lib nm ab k self args w = (Inl e, w)"
  by (simp add: generic_op_def raiseM_def)

text \<open>
  An allowed call of an operation that forwards or reads an attribute reaches the remote
  handle with the interaction of its name; when that interaction fails with an
  \<open>AttributeError\<close> or a remote failure, the wrapper's read of the name follows.
\<close>

lemma generic_op_allowed_reaches_remote:
  assumes "allowed ab (clsname self)" and h: "obj self = ComObj h"
    and "bind_args nm args = Inr ps"
    and "k \<in> {Forward, ForwardNone, Attr}"
  shows "trace (snd (generic_op lib nm ab k self args w))
     = trace w @ first_call k (ComObj h) nm ps #
       (case respond w (trace w) (first_call k (ComObj h) nm ps) of
          Inl e \<Rightarrow> handler_trace self e
        | Inr v \<Rightarrow> [])"
  using assms
  by (auto simp add: generic_op_def generic_body_def runnable_allowed first_call_def
      normalize_date_def monad_defs handler_trace_run [OF h] split: sum.splits)

end
